theory Spec2Isabelle
  imports Main "HOL-Library.Word"
begin

unbundle bit_operations_syntax

section \<open>The DWARF 2 reader of dbghelp (dlls/dbghelp/dwarf.c)\<close>

text \<open>
  The reader is written for a 32-bit little-endian host (i386): it reads a 4-byte
  field through a pointer to \<open>unsigned long\<close>, so \<open>unsigned long\<close>, \<open>long\<close>,
  \<open>unsigned\<close> and \<open>int\<close> are all 32-bit words here and \<open>unsigned short\<close> is a
  16-bit word. A pointer into a section is the offset from the start of that section;
  the section itself is the list of its bytes. The one pointer kept as the 32-bit
  address it is, is the cursor of the loop of \<open>dwarf2_parse\<close> over the units: the
  loop adds a length read from the section to it and compares the sum, which wraps
  around at 32 bits, with the end of the section. Every other offset is a natural
  number: a pointer that the code moves past the end of its section stays past it in
  the model, where every read is \<open>OutOfBounds\<close>.

  The source reads through pointers without checking them against the end of the
  section. In the model a read outside the section is the error \<open>OutOfBounds\<close>, the
  use of a null pointer is \<open>NullPointer\<close>, the use of a pointer that was never assigned
  is \<open>WildPointer\<close>, a failed \<open>assert\<close> is \<open>AssertFailed\<close>, a
  division by zero is \<open>DivideByZero\<close> and a shift by 32 bits or more, which C leaves
  undefined, is \<open>UndefinedShift\<close>. \<open>OutOfFuel\<close> is not an outcome of the program: the
  loops and recursions that need not end take a step budget, and \<open>OutOfFuel\<close> says that
  the budget was too small.
\<close>

type_synonym byte = "8 word"
type_synonym ushort = "16 word"
type_synonym ulong = "32 word"

datatype error = OutOfBounds | NullPointer | WildPointer | AssertFailed | DivideByZero
  | UndefinedShift | OutOfFuel

type_synonym 'a result = "error + 'a"

definition rbind :: "'a result \<Rightarrow> ('a \<Rightarrow> 'b result) \<Rightarrow> 'b result" where
  "rbind m f = (case m of Inl e \<Rightarrow> Inl e | Inr x \<Rightarrow> f x)"

subsection \<open>Byte cursor\<close>

record dwarf2_traverse_context =
  data :: nat
  start_data :: nat
  end_data :: nat
  word_size :: byte

definition dwarf2_get_byte :: "byte list \<Rightarrow> nat \<Rightarrow> byte result" where
  "dwarf2_get_byte mem ptr =
     (if ptr < length mem then Inr (mem ! ptr) else Inl OutOfBounds)"

definition dwarf2_parse_byte ::
  "byte list \<Rightarrow> dwarf2_traverse_context \<Rightarrow> (byte \<times> dwarf2_traverse_context) result" where
  "dwarf2_parse_byte mem ctx =
     rbind (dwarf2_get_byte mem (data ctx))
       (\<lambda>uvalue. Inr (uvalue, ctx\<lparr>data := data ctx + 1\<rparr>))"

definition dwarf2_get_u2 :: "byte list \<Rightarrow> nat \<Rightarrow> ushort result" where
  "dwarf2_get_u2 mem ptr =
     (if ptr + 2 \<le> length mem
      then Inr (ucast (mem ! ptr) OR push_bit 8 (ucast (mem ! (ptr + 1))))
      else Inl OutOfBounds)"

definition dwarf2_parse_u2 ::
  "byte list \<Rightarrow> dwarf2_traverse_context \<Rightarrow> (ushort \<times> dwarf2_traverse_context) result" where
  "dwarf2_parse_u2 mem ctx =
     rbind (dwarf2_get_u2 mem (data ctx))
       (\<lambda>uvalue. Inr (uvalue, ctx\<lparr>data := data ctx + 2\<rparr>))"

definition dwarf2_get_u4 :: "byte list \<Rightarrow> nat \<Rightarrow> ulong result" where
  "dwarf2_get_u4 mem ptr =
     (if ptr + 4 \<le> length mem
      then Inr (ucast (mem ! ptr) OR push_bit 8 (ucast (mem ! (ptr + 1)))
                OR push_bit 16 (ucast (mem ! (ptr + 2)))
                OR push_bit 24 (ucast (mem ! (ptr + 3))))
      else Inl OutOfBounds)"

definition dwarf2_parse_u4 ::
  "byte list \<Rightarrow> dwarf2_traverse_context \<Rightarrow> (ulong \<times> dwarf2_traverse_context) result" where
  "dwarf2_parse_u4 mem ctx =
     rbind (dwarf2_get_u4 mem (data ctx))
       (\<lambda>uvalue. Inr (uvalue, ctx\<lparr>data := data ctx + 4\<rparr>))"

text \<open>
  The \<open>do ... while (byte & 0x80)\<close> loop of both varint readers, on the bytes from
  \<open>ptr\<close> on: \<open>(byte & 0x7f) << shift\<close> is a shift of a 32-bit \<open>int\<close>, whose high bits
  fall off. The result is the accumulated value, the number of bytes consumed, the last
  byte read and the final \<open>shift\<close>.
\<close>

fun leb128_loop :: "byte list \<Rightarrow> nat \<Rightarrow> ulong \<Rightarrow> (ulong \<times> nat \<times> byte \<times> nat) result" where
  "leb128_loop [] shift ret = Inl OutOfBounds"
| "leb128_loop (byte # rest) shift ret =
     (if 32 \<le> shift then Inl UndefinedShift
      else
        let ret' = ret OR push_bit shift (ucast (byte AND 0x7f))
        in if byte AND 0x80 \<noteq> 0
           then rbind (leb128_loop rest (shift + 7) ret')
                  (\<lambda>(r, n, b, s). Inr (r, Suc n, b, s))
           else Inr (ret', 1, byte, shift + 7))"

definition dwarf2_get_leb128_as_unsigned :: "byte list \<Rightarrow> nat \<Rightarrow> (ulong \<times> nat) result" where
  "dwarf2_get_leb128_as_unsigned mem ptr =
     rbind (leb128_loop (drop ptr mem) 0 0)
       (\<lambda>(ret, n, byte, shift). Inr (ret, ptr + n))"

definition dwarf2_leb128_as_unsigned ::
  "byte list \<Rightarrow> dwarf2_traverse_context \<Rightarrow> (ulong \<times> dwarf2_traverse_context) result" where
  "dwarf2_leb128_as_unsigned mem ctx =
     rbind (dwarf2_get_leb128_as_unsigned mem (data ctx))
       (\<lambda>(ret, end). Inr (ret, ctx\<lparr>data := end\<rparr>))"

definition dwarf2_get_leb128_as_signed :: "byte list \<Rightarrow> nat \<Rightarrow> (ulong \<times> nat) result" where
  "dwarf2_get_leb128_as_signed mem ptr =
     rbind (leb128_loop (drop ptr mem) 0 0)
       (\<lambda>(ret, n, byte, shift).
          Inr (if shift < 32 \<and> byte AND 0x40 \<noteq> 0
               then ret OR (- push_bit shift 1) else ret,
               ptr + n))"

definition dwarf2_leb128_as_signed ::
  "byte list \<Rightarrow> dwarf2_traverse_context \<Rightarrow> (ulong \<times> dwarf2_traverse_context) result" where
  "dwarf2_leb128_as_signed mem ctx =
     rbind (dwarf2_get_leb128_as_signed mem (data ctx))
       (\<lambda>(ret, end). Inr (ret, ctx\<lparr>data := end\<rparr>))"

fun leb128_length_loop :: "byte list \<Rightarrow> nat result" where
  "leb128_length_loop [] = Inl OutOfBounds"
| "leb128_length_loop (byte # rest) =
     (if byte AND 0x80 \<noteq> 0
      then rbind (leb128_length_loop rest) (\<lambda>ret. Inr (Suc ret))
      else Inr 0)"

definition dwarf2_leb128_length :: "byte list \<Rightarrow> dwarf2_traverse_context \<Rightarrow> nat result" where
  "dwarf2_leb128_length mem ctx =
     rbind (leb128_length_loop (drop (data ctx) mem)) (\<lambda>ret. Inr (ret + 1))"

definition dwarf2_get_addr :: "byte list \<Rightarrow> nat \<Rightarrow> byte \<Rightarrow> ulong result" where
  "dwarf2_get_addr mem ptr wsize =
     (if wsize = 4 then dwarf2_get_u4 mem ptr else Inr 0)"

definition dwarf2_parse_addr ::
  "byte list \<Rightarrow> dwarf2_traverse_context \<Rightarrow> (ulong \<times> dwarf2_traverse_context) result" where
  "dwarf2_parse_addr mem ctx =
     rbind (dwarf2_get_addr mem (data ctx) (word_size ctx))
       (\<lambda>ret. Inr (ret, ctx\<lparr>data := data ctx + unat (word_size ctx)\<rparr>))"


subsection \<open>Constants of dwarf.h\<close>

text \<open>
  Modelled from the spec: dwarf.h is not under src/. The spec names the tags, attributes,
  forms and opcodes without their numbers; the numbers below are those the DWARF 2
  standard assigns to the names the source uses.
\<close>

abbreviation (input) DW_TAG_array_type :: ulong where "DW_TAG_array_type \<equiv> 0x01"
abbreviation (input) DW_TAG_class_type :: ulong where "DW_TAG_class_type \<equiv> 0x02"
abbreviation (input) DW_TAG_enumeration_type :: ulong where "DW_TAG_enumeration_type \<equiv> 0x04"
abbreviation (input) DW_TAG_formal_parameter :: ulong where "DW_TAG_formal_parameter \<equiv> 0x05"
abbreviation (input) DW_TAG_label :: ulong where "DW_TAG_label \<equiv> 0x0a"
abbreviation (input) DW_TAG_lexical_block :: ulong where "DW_TAG_lexical_block \<equiv> 0x0b"
abbreviation (input) DW_TAG_member :: ulong where "DW_TAG_member \<equiv> 0x0d"
abbreviation (input) DW_TAG_pointer_type :: ulong where "DW_TAG_pointer_type \<equiv> 0x0f"
abbreviation (input) DW_TAG_reference_type :: ulong where "DW_TAG_reference_type \<equiv> 0x10"
abbreviation (input) DW_TAG_compile_unit :: ulong where "DW_TAG_compile_unit \<equiv> 0x11"
abbreviation (input) DW_TAG_structure_type :: ulong where "DW_TAG_structure_type \<equiv> 0x13"
abbreviation (input) DW_TAG_subroutine_type :: ulong where "DW_TAG_subroutine_type \<equiv> 0x15"
abbreviation (input) DW_TAG_typedef :: ulong where "DW_TAG_typedef \<equiv> 0x16"
abbreviation (input) DW_TAG_union_type :: ulong where "DW_TAG_union_type \<equiv> 0x17"
abbreviation (input) DW_TAG_unspecified_parameters :: ulong where "DW_TAG_unspecified_parameters \<equiv> 0x18"
abbreviation (input) DW_TAG_inlined_subroutine :: ulong where "DW_TAG_inlined_subroutine \<equiv> 0x1d"
abbreviation (input) DW_TAG_subrange_type :: ulong where "DW_TAG_subrange_type \<equiv> 0x21"
abbreviation (input) DW_TAG_base_type :: ulong where "DW_TAG_base_type \<equiv> 0x24"
abbreviation (input) DW_TAG_const_type :: ulong where "DW_TAG_const_type \<equiv> 0x26"
abbreviation (input) DW_TAG_enumerator :: ulong where "DW_TAG_enumerator \<equiv> 0x28"
abbreviation (input) DW_TAG_subprogram :: ulong where "DW_TAG_subprogram \<equiv> 0x2e"
abbreviation (input) DW_TAG_variable :: ulong where "DW_TAG_variable \<equiv> 0x34"
abbreviation (input) DW_TAG_volatile_type :: ulong where "DW_TAG_volatile_type \<equiv> 0x35"

abbreviation (input) DW_AT_sibling :: ulong where "DW_AT_sibling \<equiv> 0x01"
abbreviation (input) DW_AT_location :: ulong where "DW_AT_location \<equiv> 0x02"
abbreviation (input) DW_AT_name :: ulong where "DW_AT_name \<equiv> 0x03"
abbreviation (input) DW_AT_byte_size :: ulong where "DW_AT_byte_size \<equiv> 0x0b"
abbreviation (input) DW_AT_bit_offset :: ulong where "DW_AT_bit_offset \<equiv> 0x0c"
abbreviation (input) DW_AT_bit_size :: ulong where "DW_AT_bit_size \<equiv> 0x0d"
abbreviation (input) DW_AT_stmt_list :: ulong where "DW_AT_stmt_list \<equiv> 0x10"
abbreviation (input) DW_AT_low_pc :: ulong where "DW_AT_low_pc \<equiv> 0x11"
abbreviation (input) DW_AT_high_pc :: ulong where "DW_AT_high_pc \<equiv> 0x12"
abbreviation (input) DW_AT_comp_dir :: ulong where "DW_AT_comp_dir \<equiv> 0x1b"
abbreviation (input) DW_AT_const_value :: ulong where "DW_AT_const_value \<equiv> 0x1c"
abbreviation (input) DW_AT_inline :: ulong where "DW_AT_inline \<equiv> 0x20"
abbreviation (input) DW_AT_lower_bound :: ulong where "DW_AT_lower_bound \<equiv> 0x22"
abbreviation (input) DW_AT_upper_bound :: ulong where "DW_AT_upper_bound \<equiv> 0x2f"
abbreviation (input) DW_AT_count :: ulong where "DW_AT_count \<equiv> 0x37"
abbreviation (input) DW_AT_data_member_location :: ulong where "DW_AT_data_member_location \<equiv> 0x38"
abbreviation (input) DW_AT_declaration :: ulong where "DW_AT_declaration \<equiv> 0x3c"
abbreviation (input) DW_AT_encoding :: ulong where "DW_AT_encoding \<equiv> 0x3e"
abbreviation (input) DW_AT_external :: ulong where "DW_AT_external \<equiv> 0x3f"
abbreviation (input) DW_AT_frame_base :: ulong where "DW_AT_frame_base \<equiv> 0x40"
abbreviation (input) DW_AT_type :: ulong where "DW_AT_type \<equiv> 0x49"

abbreviation (input) DW_FORM_addr :: ulong where "DW_FORM_addr \<equiv> 0x01"
abbreviation (input) DW_FORM_block2 :: ulong where "DW_FORM_block2 \<equiv> 0x03"
abbreviation (input) DW_FORM_block4 :: ulong where "DW_FORM_block4 \<equiv> 0x04"
abbreviation (input) DW_FORM_data2 :: ulong where "DW_FORM_data2 \<equiv> 0x05"
abbreviation (input) DW_FORM_data4 :: ulong where "DW_FORM_data4 \<equiv> 0x06"
abbreviation (input) DW_FORM_data8 :: ulong where "DW_FORM_data8 \<equiv> 0x07"
abbreviation (input) DW_FORM_string :: ulong where "DW_FORM_string \<equiv> 0x08"
abbreviation (input) DW_FORM_block :: ulong where "DW_FORM_block \<equiv> 0x09"
abbreviation (input) DW_FORM_block1 :: ulong where "DW_FORM_block1 \<equiv> 0x0a"
abbreviation (input) DW_FORM_data1 :: ulong where "DW_FORM_data1 \<equiv> 0x0b"
abbreviation (input) DW_FORM_flag :: ulong where "DW_FORM_flag \<equiv> 0x0c"
abbreviation (input) DW_FORM_sdata :: ulong where "DW_FORM_sdata \<equiv> 0x0d"
abbreviation (input) DW_FORM_strp :: ulong where "DW_FORM_strp \<equiv> 0x0e"
abbreviation (input) DW_FORM_udata :: ulong where "DW_FORM_udata \<equiv> 0x0f"
abbreviation (input) DW_FORM_ref_addr :: ulong where "DW_FORM_ref_addr \<equiv> 0x10"
abbreviation (input) DW_FORM_ref1 :: ulong where "DW_FORM_ref1 \<equiv> 0x11"
abbreviation (input) DW_FORM_ref2 :: ulong where "DW_FORM_ref2 \<equiv> 0x12"
abbreviation (input) DW_FORM_ref4 :: ulong where "DW_FORM_ref4 \<equiv> 0x13"
abbreviation (input) DW_FORM_ref8 :: ulong where "DW_FORM_ref8 \<equiv> 0x14"
abbreviation (input) DW_FORM_ref_udata :: ulong where "DW_FORM_ref_udata \<equiv> 0x15"

abbreviation (input) DW_OP_addr :: byte where "DW_OP_addr \<equiv> 0x03"
abbreviation (input) DW_OP_const1u :: byte where "DW_OP_const1u \<equiv> 0x08"
abbreviation (input) DW_OP_const1s :: byte where "DW_OP_const1s \<equiv> 0x09"
abbreviation (input) DW_OP_const2u :: byte where "DW_OP_const2u \<equiv> 0x0a"
abbreviation (input) DW_OP_const2s :: byte where "DW_OP_const2s \<equiv> 0x0b"
abbreviation (input) DW_OP_const4u :: byte where "DW_OP_const4u \<equiv> 0x0c"
abbreviation (input) DW_OP_const4s :: byte where "DW_OP_const4s \<equiv> 0x0d"
abbreviation (input) DW_OP_constu :: byte where "DW_OP_constu \<equiv> 0x10"
abbreviation (input) DW_OP_consts :: byte where "DW_OP_consts \<equiv> 0x11"
abbreviation (input) DW_OP_plus_uconst :: byte where "DW_OP_plus_uconst \<equiv> 0x23"
abbreviation (input) DW_OP_reg0 :: byte where "DW_OP_reg0 \<equiv> 0x50"
abbreviation (input) DW_OP_reg31 :: byte where "DW_OP_reg31 \<equiv> 0x6f"
abbreviation (input) DW_OP_breg0 :: byte where "DW_OP_breg0 \<equiv> 0x70"
abbreviation (input) DW_OP_breg31 :: byte where "DW_OP_breg31 \<equiv> 0x8f"
abbreviation (input) DW_OP_fbreg :: byte where "DW_OP_fbreg \<equiv> 0x91"
abbreviation (input) DW_OP_piece :: byte where "DW_OP_piece \<equiv> 0x93"

abbreviation (input) DW_ATE_void :: ulong where "DW_ATE_void \<equiv> 0x0"
abbreviation (input) DW_ATE_address :: ulong where "DW_ATE_address \<equiv> 0x1"
abbreviation (input) DW_ATE_boolean :: ulong where "DW_ATE_boolean \<equiv> 0x2"
abbreviation (input) DW_ATE_complex_float :: ulong where "DW_ATE_complex_float \<equiv> 0x3"
abbreviation (input) DW_ATE_float :: ulong where "DW_ATE_float \<equiv> 0x4"
abbreviation (input) DW_ATE_signed :: ulong where "DW_ATE_signed \<equiv> 0x5"
abbreviation (input) DW_ATE_signed_char :: ulong where "DW_ATE_signed_char \<equiv> 0x6"
abbreviation (input) DW_ATE_unsigned :: ulong where "DW_ATE_unsigned \<equiv> 0x7"
abbreviation (input) DW_ATE_unsigned_char :: ulong where "DW_ATE_unsigned_char \<equiv> 0x8"

abbreviation (input) DW_LNS_extended_op :: ulong where "DW_LNS_extended_op \<equiv> 0x00"
abbreviation (input) DW_LNS_copy :: ulong where "DW_LNS_copy \<equiv> 0x01"
abbreviation (input) DW_LNS_advance_pc :: ulong where "DW_LNS_advance_pc \<equiv> 0x02"
abbreviation (input) DW_LNS_advance_line :: ulong where "DW_LNS_advance_line \<equiv> 0x03"
abbreviation (input) DW_LNS_set_file :: ulong where "DW_LNS_set_file \<equiv> 0x04"
abbreviation (input) DW_LNS_set_column :: ulong where "DW_LNS_set_column \<equiv> 0x05"
abbreviation (input) DW_LNS_negate_stmt :: ulong where "DW_LNS_negate_stmt \<equiv> 0x06"
abbreviation (input) DW_LNS_set_basic_block :: ulong where "DW_LNS_set_basic_block \<equiv> 0x07"
abbreviation (input) DW_LNS_const_add_pc :: ulong where "DW_LNS_const_add_pc \<equiv> 0x08"
abbreviation (input) DW_LNS_fixed_advance_pc :: ulong where "DW_LNS_fixed_advance_pc \<equiv> 0x09"

abbreviation (input) DW_LNE_end_sequence :: ulong where "DW_LNE_end_sequence \<equiv> 0x01"
abbreviation (input) DW_LNE_set_address :: ulong where "DW_LNE_set_address \<equiv> 0x02"
abbreviation (input) DW_LNE_define_file :: ulong where "DW_LNE_define_file \<equiv> 0x03"

abbreviation (input) Wine_DW_no_register :: ulong where "Wine_DW_no_register \<equiv> 0x7FFFFFFF"
abbreviation (input) Wine_DW_frame_register :: ulong where "Wine_DW_frame_register \<equiv> 0x7FFFFFFE"
abbreviation (input) Wine_DW_register_deref :: ulong where "Wine_DW_register_deref \<equiv> 0x80000000"


subsection \<open>Data model\<close>

text \<open>
  A \<open>const char*\<close> is kept as the pointer it is: null, a position in one of the
  sections, a string built in the pool, or the content of a pointer that was never
  assigned.
\<close>

datatype dwarf2_sections = section_debug | section_string | section_abbrev | section_line

datatype char_ptr = NullStr | IndeterminateStr | SectionStr dwarf2_sections nat
  | PoolStr string

text \<open>
  \<open>struct attribute\<close>: \<open>u\<close> is a union, whose members \<open>uvalue\<close>, \<open>svalue\<close> and
  \<open>block.size\<close> share their storage, the field \<open>u_uvalue\<close>. The bits that a pointer
  leaves in that storage are not modelled: \<open>u_string\<close> and \<open>u_block_ptr\<close> are fields
  of their own.
\<close>

record attribute =
  form :: ulong
  u_uvalue :: ulong
  u_string :: char_ptr
  u_block_ptr :: nat

text \<open>The linked list of \<open>dwarf2_abbrev_entry_attr_t\<close> is the list of its (attribute, form) pairs.\<close>

type_synonym dwarf2_abbrev_entry_attr = "ulong \<times> ulong"

record dwarf2_abbrev_entry =
  entry_code :: ulong
  tag :: ulong
  have_child :: byte
  num_attr :: ulong
  attrs :: "dwarf2_abbrev_entry_attr list"

text \<open>
  A \<open>struct symt*\<close> is \<open>None\<close> when null, otherwise the position of the symbol in the
  module's symbol store. A pointer to a \<open>dwarf2_debug_info_t\<close> is the key of the entry in
  \<open>debug_info_table\<close>, which is its offset in the debug section.

  Of the fields of \<open>dwarf2_debug_info_t\<close>, \<open>abbrev\<close>, \<open>data\<close> and \<open>children\<close> are
  written while the tree is read and never after. \<open>symt\<close> is the one field that the
  symbol builder writes: it is not a field of the record but the store \<open>symt_of\<close> of
  the builder's state below, from the key of an entry to its \<open>di->symt\<close>.
\<close>

type_synonym symt_ptr = "nat option"

record dwarf2_debug_info =
  abbrev :: dwarf2_abbrev_entry
  di_data :: "nat list"
  children :: "nat list"

datatype di_ptr = UninitialisedDi | NullDi | Di nat

subsection \<open>The symbol table of the module\<close>

text \<open>
  Modelled from the spec: the symbol table (symbol.c, type.c, source.c) and the thunk
  table of elf_module.c are not under src/. The spec calls them an external layer that
  owns the symbols for the whole session. The model keeps the store as the list of the
  objects handed to that layer, in the order of the calls: a \<open>symt_new_*\<close> call appends a
  symbol and returns its position, a \<open>symt_add_*\<close> call appends the item with the symbol it
  was added to. \<open>symt_find_nearest\<close> and \<open>symt_get_info\<close>, which the spec leaves to that
  layer, are parameters of the module.
\<close>

datatype BasicType = btNoType | btVoid | btChar | btInt | btUInt | btFloat | btBool
  | btULong | btComplex

datatype UdtKind = UdtStruct | UdtClass | UdtUnion

datatype DataKind = DataIsLocal | DataIsParam

datatype cv_reg = CV_REG_NONE | CV_REG_EAX | CV_REG_ECX | CV_REG_EDX | CV_REG_EBX
  | CV_REG_ESP | CV_REG_EBP | CV_REG_ESI | CV_REG_EDI | CV_REG_EIP | CV_REG_EFLAGS
  | CV_REG_CS | CV_REG_SS | CV_REG_DS | CV_REG_ES | CV_REG_FS | CV_REG_GS
  | CV_REG_ST0_plus ulong | CV_REG_CTRL | CV_REG_STAT | CV_REG_TAG
  | CV_REG_XMM0_plus ulong | CV_REG_MXCSR

datatype symt_obj =
    symt_basic BasicType char_ptr ulong
  | symt_typedef symt_ptr char_ptr
  | symt_pointer symt_ptr
  | symt_array ulong ulong symt_ptr symt_ptr
  | symt_udt char_ptr ulong UdtKind
  | udt_element symt_ptr char_ptr symt_ptr ulong ulong
  | symt_enum char_ptr
  | enum_element symt_ptr char_ptr ulong
  | symt_function_signature symt_ptr
  | function_signature_parameter symt_ptr symt_ptr
  | symt_function symt_ptr char_ptr ulong ulong symt_ptr
  | func_local symt_ptr DataKind cv_reg ulong ulong symt_ptr symt_ptr char_ptr
  | func_block symt_ptr symt_ptr ulong ulong
  | close_func_block symt_ptr symt_ptr ulong
  | function_point symt_ptr ulong char_ptr
  | normalize_function symt_ptr
  | func_line symt_ptr nat ulong ulong
  | global_variable symt_ptr char_ptr bool ulong ulong symt_ptr
  | symt_compiland nat

record module =
  BaseOfImage :: ulong
  symbols :: "symt_obj list"
  sources :: "(char_ptr \<times> char_ptr) list"
  find_nearest :: "symt_obj list \<Rightarrow> ulong \<Rightarrow> nat option"
  get_length :: "symt_obj list \<Rightarrow> symt_ptr \<Rightarrow> ulong option"
  SymType_is_SymDia :: bool
  CVSig :: ulong
  LineNumbers :: bool
  GlobalSymbols :: bool
  TypeInfo :: bool
  SourceIndexed :: bool
  Publics :: bool

definition symt_new :: "module \<Rightarrow> symt_obj \<Rightarrow> module \<times> symt_ptr" where
  "symt_new m obj = (m\<lparr>symbols := symbols m @ [obj]\<rparr>, Some (length (symbols m)))"

definition symt_add :: "module \<Rightarrow> symt_obj \<Rightarrow> module" where
  "symt_add m obj = m\<lparr>symbols := symbols m @ [obj]\<rparr>"

definition source_new :: "module \<Rightarrow> char_ptr \<Rightarrow> char_ptr \<Rightarrow> module \<times> nat" where
  "source_new m dir name = (m\<lparr>sources := sources m @ [(dir, name)]\<rparr>, length (sources m))"

text \<open>
  Modelled from the spec: \<open>elf_is_in_thunk_area\<close> (elf_module.c) is not under src/; the
  thunk table is the list of the address ranges (start, size) of the thunks, and an
  address is in the area when one of the ranges holds it.
\<close>

definition elf_is_in_thunk_area :: "ulong \<Rightarrow> (ulong \<times> ulong) list \<Rightarrow> bool" where
  "elf_is_in_thunk_area addr thunks =
     list_ex (\<lambda>(start, sz). start \<le> addr \<and> unat addr < unat start + unat sz) thunks"

subsection \<open>Parse context\<close>

text \<open>
  \<open>dwarf2_parse_context_t\<close> is split in two. The record \<open>dwarf2_parse_context\<close> holds
  what the symbol builder only reads: the sections (\<open>sec_line = None\<close> is the \<open>NO_MAP\<close>
  address of a section that was not mapped), the thunks, the two tables, the offset of
  the unit and its word size; and with them \<open>indeterminate\<close>, which is what a local
  variable holds before it is assigned. The record \<open>build_state\<close> holds what the
  builder writes: the module behind \<open>ctx->module\<close>, the \<open>di->symt\<close> of every entry
  (\<open>symt_of\<close>), and \<open>find_name_index\<close>, the \<open>static int index\<close> of
  \<open>dwarf2_find_name\<close>, which belongs to the process.

  Modelled from the spec: the pool, the vectors and the sparse arrays of storage.c are
  not under src/. An allocation in the pool succeeds; a vector is a list; a sparse
  array is a map, and \<open>sparse_array_add\<close> gives no slot for a key that is present.
\<close>

record dwarf2_parse_context =
  sec_debug :: "byte list"
  sec_string :: "byte list"
  sec_abbrev :: "byte list"
  sec_line :: "byte list option"
  thunks :: "(ulong \<times> ulong) list"
  abbrev_table :: "ulong \<Rightarrow> dwarf2_abbrev_entry option"
  debug_info_table :: "nat \<Rightarrow> dwarf2_debug_info option"
  ref_offset :: ulong
  ctx_word_size :: byte
  indeterminate :: ulong

record build_state =
  module :: module
  symt_of :: "nat \<Rightarrow> symt_ptr"
  find_name_index :: ulong

definition pool_alloc :: "nat \<Rightarrow> unit option" where
  "pool_alloc n = Some ()"

definition indeterminate_attribute :: "dwarf2_parse_context \<Rightarrow> attribute" where
  "indeterminate_attribute ctx =
     \<lparr>form = indeterminate ctx, u_uvalue = indeterminate ctx,
      u_string = IndeterminateStr, u_block_ptr = unat (indeterminate ctx)\<rparr>"

fun strlen_loop :: "byte list \<Rightarrow> nat result" where
  "strlen_loop [] = Inl OutOfBounds"
| "strlen_loop (c # rest) =
     (if c = 0 then Inr 0 else rbind (strlen_loop rest) (\<lambda>n. Inr (Suc n)))"

definition strlen :: "byte list \<Rightarrow> nat \<Rightarrow> nat result" where
  "strlen mem ptr = strlen_loop (drop ptr mem)"


definition sparse_array_add :: "('k \<Rightarrow> 'v option) \<Rightarrow> 'k \<Rightarrow> unit option" where
  "sparse_array_add sa key = (case sa key of None \<Rightarrow> Some () | Some v \<Rightarrow> None)"

definition get_di :: "dwarf2_parse_context \<Rightarrow> nat \<Rightarrow> dwarf2_debug_info result" where
  "get_di ctx di =
     (case debug_info_table ctx di of None \<Rightarrow> Inl NullPointer | Some d \<Rightarrow> Inr d)"

definition set_symt :: "build_state \<Rightarrow> nat \<Rightarrow> symt_ptr \<Rightarrow> build_state" where
  "set_symt st di s = st\<lparr>symt_of := (symt_of st)(di := s)\<rparr>"

subsection \<open>Abbreviation table\<close>

definition dwarf2_abbrev_table_find_entry ::
  "(ulong \<Rightarrow> dwarf2_abbrev_entry option) \<Rightarrow> ulong \<Rightarrow> dwarf2_abbrev_entry option" where
  "dwarf2_abbrev_table_find_entry tbl code = tbl code"

text \<open>
  The loops of \<open>dwarf2_parse_abbrev_set\<close> read at least one byte in every round, so the
  number of rounds given to them, one more than the bytes of the section, is never used
  up: a read outside the section comes first.
\<close>

primrec abbrev_attrs_loop ::
  "nat \<Rightarrow> byte list \<Rightarrow> dwarf2_traverse_context \<Rightarrow> dwarf2_abbrev_entry \<Rightarrow>
   (dwarf2_abbrev_entry \<times> dwarf2_traverse_context) result" where
  "abbrev_attrs_loop 0 mem abbrev_ctx abbrev_entry = Inl OutOfFuel"
| "abbrev_attrs_loop (Suc n) mem abbrev_ctx abbrev_entry =
     rbind (dwarf2_leb128_as_unsigned mem abbrev_ctx) (\<lambda>(attr, abbrev_ctx).
     rbind (dwarf2_leb128_as_unsigned mem abbrev_ctx) (\<lambda>(frm, abbrev_ctx).
       if attr = 0 then Inr (abbrev_entry, abbrev_ctx)
       else abbrev_attrs_loop n mem abbrev_ctx
              (abbrev_entry\<lparr>attrs := attrs abbrev_entry @ [(attr, frm)],
                            num_attr := num_attr abbrev_entry + 1\<rparr>)))"

primrec abbrev_set_loop ::
  "nat \<Rightarrow> byte list \<Rightarrow> dwarf2_traverse_context \<Rightarrow> (ulong \<Rightarrow> dwarf2_abbrev_entry option) \<Rightarrow>
   (ulong \<Rightarrow> dwarf2_abbrev_entry option) result" where
  "abbrev_set_loop 0 mem abbrev_ctx tbl = Inl OutOfFuel"
| "abbrev_set_loop (Suc n) mem abbrev_ctx tbl =
     (if data abbrev_ctx < end_data abbrev_ctx
      then rbind (dwarf2_leb128_as_unsigned mem abbrev_ctx) (\<lambda>(code, abbrev_ctx).
        if code = 0 then Inr tbl
        else case sparse_array_add tbl code of
          None \<Rightarrow> Inl AssertFailed
        | Some slot \<Rightarrow>
            rbind (dwarf2_leb128_as_unsigned mem abbrev_ctx) (\<lambda>(tg, abbrev_ctx).
            rbind (dwarf2_parse_byte mem abbrev_ctx) (\<lambda>(child, abbrev_ctx).
            rbind (abbrev_attrs_loop (Suc (length mem)) mem abbrev_ctx
                     \<lparr>entry_code = code, tag = tg, have_child = child,
                      num_attr = 0, attrs = []\<rparr>) (\<lambda>(abbrev_entry, abbrev_ctx).
              abbrev_set_loop n mem abbrev_ctx (tbl(code \<mapsto> abbrev_entry))))))
      else Inr tbl)"

definition dwarf2_parse_abbrev_set ::
  "byte list \<Rightarrow> dwarf2_traverse_context \<Rightarrow> (ulong \<Rightarrow> dwarf2_abbrev_entry option) result" where
  "dwarf2_parse_abbrev_set mem abbrev_ctx =
     abbrev_set_loop (Suc (length mem)) mem abbrev_ctx Map.empty"

subsection \<open>Attributes\<close>

definition advance :: "dwarf2_traverse_context \<Rightarrow> nat \<Rightarrow> dwarf2_traverse_context" where
  "advance ctx step = ctx\<lparr>data := data ctx + step\<rparr>"

definition dwarf2_swallow_attribute ::
  "byte list \<Rightarrow> dwarf2_traverse_context \<Rightarrow> dwarf2_abbrev_entry_attr \<Rightarrow>
   dwarf2_traverse_context result" where
  "dwarf2_swallow_attribute mem ctx abbrev_attr =
     (let f = snd abbrev_attr in
      if f = DW_FORM_ref_addr \<or> f = DW_FORM_addr then Inr (advance ctx (unat (word_size ctx)))
      else if f = DW_FORM_flag \<or> f = DW_FORM_data1 \<or> f = DW_FORM_ref1 then Inr (advance ctx 1)
      else if f = DW_FORM_data2 \<or> f = DW_FORM_ref2 then Inr (advance ctx 2)
      else if f = DW_FORM_data4 \<or> f = DW_FORM_ref4 \<or> f = DW_FORM_strp
        then Inr (advance ctx 4)
      else if f = DW_FORM_data8 \<or> f = DW_FORM_ref8 then Inr (advance ctx 8)
      else if f = DW_FORM_sdata \<or> f = DW_FORM_ref_udata \<or> f = DW_FORM_udata
        then rbind (dwarf2_leb128_length mem ctx) (\<lambda>step. Inr (advance ctx step))
      else if f = DW_FORM_string
        then rbind (strlen mem (data ctx)) (\<lambda>n. Inr (advance ctx (n + 1)))
      else if f = DW_FORM_block
        then rbind (dwarf2_leb128_as_unsigned mem ctx)
               (\<lambda>(step, ctx). Inr (advance ctx (unat step)))
      else if f = DW_FORM_block1
        then rbind (dwarf2_parse_byte mem ctx) (\<lambda>(step, ctx). Inr (advance ctx (unat step)))
      else if f = DW_FORM_block2
        then rbind (dwarf2_parse_u2 mem ctx) (\<lambda>(step, ctx). Inr (advance ctx (unat step)))
      else if f = DW_FORM_block4
        then rbind (dwarf2_parse_u4 mem ctx) (\<lambda>(step, ctx). Inr (advance ctx (unat step)))
      else Inr ctx)"

text \<open>
  The \<open>switch (attr->form)\<close> of \<open>dwarf2_find_attribute\<close>, for the raw value at \<open>ptr\<close>.
  The 8-byte forms and the unknown forms leave \<open>attr->u\<close> as the caller had it.
\<close>

definition decode_attribute ::
  "dwarf2_parse_context \<Rightarrow> nat \<Rightarrow> attribute \<Rightarrow> attribute result" where
  "decode_attribute ctx ptr attr =
     (let f = form attr; mem = sec_debug ctx in
      if f = DW_FORM_ref_addr \<or> f = DW_FORM_addr
        then rbind (dwarf2_get_addr mem ptr (ctx_word_size ctx))
               (\<lambda>v. Inr (attr\<lparr>u_uvalue := v\<rparr>))
      else if f = DW_FORM_flag \<or> f = DW_FORM_data1
        then rbind (dwarf2_get_byte mem ptr) (\<lambda>v. Inr (attr\<lparr>u_uvalue := ucast v\<rparr>))
      else if f = DW_FORM_data2
        then rbind (dwarf2_get_u2 mem ptr) (\<lambda>v. Inr (attr\<lparr>u_uvalue := ucast v\<rparr>))
      else if f = DW_FORM_data4
        then rbind (dwarf2_get_u4 mem ptr) (\<lambda>v. Inr (attr\<lparr>u_uvalue := v\<rparr>))
      else if f = DW_FORM_data8 then Inr attr
      else if f = DW_FORM_ref1
        then rbind (dwarf2_get_byte mem ptr)
               (\<lambda>v. Inr (attr\<lparr>u_uvalue := ref_offset ctx + ucast v\<rparr>))
      else if f = DW_FORM_ref2
        then rbind (dwarf2_get_u2 mem ptr)
               (\<lambda>v. Inr (attr\<lparr>u_uvalue := ref_offset ctx + ucast v\<rparr>))
      else if f = DW_FORM_ref4
        then rbind (dwarf2_get_u4 mem ptr)
               (\<lambda>v. Inr (attr\<lparr>u_uvalue := ref_offset ctx + v\<rparr>))
      else if f = DW_FORM_ref8 then Inr attr
      else if f = DW_FORM_sdata
        then rbind (dwarf2_get_leb128_as_signed mem ptr)
               (\<lambda>(v, e). Inr (attr\<lparr>u_uvalue := v\<rparr>))
      else if f = DW_FORM_ref_udata \<or> f = DW_FORM_udata
        then rbind (dwarf2_get_leb128_as_unsigned mem ptr)
               (\<lambda>(v, e). Inr (attr\<lparr>u_uvalue := v\<rparr>))
      else if f = DW_FORM_string
        then Inr (attr\<lparr>u_string := SectionStr section_debug ptr\<rparr>)
      else if f = DW_FORM_strp
        then rbind (dwarf2_get_u4 mem ptr)
               (\<lambda>offset. Inr (attr\<lparr>u_string := SectionStr section_string (unat offset)\<rparr>))
      else if f = DW_FORM_block
        then rbind (dwarf2_get_leb128_as_unsigned mem ptr)
               (\<lambda>(v, e). Inr (attr\<lparr>u_uvalue := v, u_block_ptr := e\<rparr>))
      else if f = DW_FORM_block1
        then rbind (dwarf2_get_byte mem ptr)
               (\<lambda>v. Inr (attr\<lparr>u_uvalue := ucast v, u_block_ptr := ptr + 1\<rparr>))
      else if f = DW_FORM_block2
        then rbind (dwarf2_get_u2 mem ptr)
               (\<lambda>v. Inr (attr\<lparr>u_uvalue := ucast v, u_block_ptr := ptr + 2\<rparr>))
      else if f = DW_FORM_block4
        then rbind (dwarf2_get_u4 mem ptr)
               (\<lambda>v. Inr (attr\<lparr>u_uvalue := v, u_block_ptr := ptr + 4\<rparr>))
      else Inr attr)"

text \<open>
  The \<open>for\<close> loop of \<open>dwarf2_find_attribute\<close> walks the attributes of the abbreviation
  and \<open>di->data\<close> together; \<open>ds\<close> is \<open>di->data\<close> from index \<open>i\<close> on.
\<close>

fun find_attribute_loop ::
  "dwarf2_parse_context \<Rightarrow> nat list \<Rightarrow> dwarf2_abbrev_entry_attr list \<Rightarrow> ulong \<Rightarrow>
   attribute \<Rightarrow> (bool \<times> attribute) result" where
  "find_attribute_loop ctx ds [] at attr = Inr (False, attr)"
| "find_attribute_loop ctx ds ((a, f) # rest) at attr =
     (if a = at
      then (case ds of
              [] \<Rightarrow> Inl OutOfBounds
            | ptr # ds' \<Rightarrow>
                rbind (decode_attribute ctx ptr (attr\<lparr>form := f\<rparr>))
                  (\<lambda>attr. Inr (True, attr)))
      else find_attribute_loop ctx (tl ds) rest at attr)"

definition dwarf2_find_attribute ::
  "dwarf2_parse_context \<Rightarrow> dwarf2_debug_info \<Rightarrow> ulong \<Rightarrow> attribute \<Rightarrow>
   (bool \<times> attribute) result" where
  "dwarf2_find_attribute ctx di at attr =
     find_attribute_loop ctx (di_data di) (attrs (abbrev di)) at attr"

text \<open>\<open>sprintf("%d")\<close> of a 32-bit \<open>int\<close>.\<close>

definition digit :: "nat \<Rightarrow> char" where
  "digit d = ''0123456789'' ! d"

fun digits :: "nat \<Rightarrow> string" where
  "digits n = (if n < 10 then [digit n] else digits (n div 10) @ [digit (n mod 10)])"

declare digits.simps [simp del]

definition sprintf_d :: "ulong \<Rightarrow> string" where
  "sprintf_d i = (if sint i < 0 then CHR ''-'' # digits (nat (- sint i)) else digits (nat (sint i)))"

text \<open>
  \<open>dwarf2_find_name\<close>: \<open>index++\<close> on the static \<open>int\<close> wraps around at 32 bits.
\<close>

definition dwarf2_find_name ::
  "dwarf2_parse_context \<Rightarrow> build_state \<Rightarrow> dwarf2_debug_info \<Rightarrow> attribute \<Rightarrow> string \<Rightarrow>
   (build_state \<times> attribute) result" where
  "dwarf2_find_name ctx st di attr pfx =
     rbind (dwarf2_find_attribute ctx di DW_AT_name attr) (\<lambda>(found, attr).
       if \<not> found
       then (case pool_alloc (length pfx + 16) of
               None \<Rightarrow> Inr (st, attr\<lparr>u_string := NullStr\<rparr>)
             | Some tmp \<Rightarrow>
                 Inr (st\<lparr>find_name_index := find_name_index st + 1\<rparr>,
                      attr\<lparr>u_string :=
                        PoolStr (pfx @ ''_'' @ sprintf_d (find_name_index st))\<rparr>))
       else Inr (st, attr))"


subsection \<open>Location expressions\<close>

text \<open>
  \<open>loc[64]\<close> with its index \<open>stk\<close> is the list of the values pushed so far, the top
  \<open>loc[stk]\<close> first. \<open>in_register\<close> is \<open>None\<close> when the caller passed a null pointer.
  \<open>BOOL\<close> is an \<open>int\<close>: \<open>dwarf2_compute_location\<close> returns a 32-bit word, 1 for
  \<open>TRUE\<close> and 0 for \<open>FALSE\<close>.
\<close>

definition push_loc :: "ulong list \<Rightarrow> ulong \<Rightarrow> ulong list result" where
  "push_loc loc v = (if length loc < 64 then Inr (v # loc) else Inl OutOfBounds)"

datatype loc_step =
    LocContinue dwarf2_traverse_context "ulong list" "ulong option" bool
  | LocUnhandled ulong

definition location_op ::
  "byte list \<Rightarrow> dwarf2_traverse_context \<Rightarrow> ulong list \<Rightarrow> ulong option \<Rightarrow> bool \<Rightarrow> byte \<Rightarrow>
   loc_step result" where
  "location_op mem lctx loc in_register piece_found op =
     (let push = (\<lambda>r. rbind r (\<lambda>(v, lctx). rbind (push_loc loc v)
                    (\<lambda>loc. Inr (LocContinue lctx loc in_register piece_found))))
      in
      if op = DW_OP_addr then push (dwarf2_parse_addr mem lctx)
      else if op = DW_OP_const1u
        then push (rbind (dwarf2_parse_byte mem lctx) (\<lambda>(v, lctx). Inr (ucast v, lctx)))
      else if op = DW_OP_const1s
        then push (rbind (dwarf2_parse_byte mem lctx) (\<lambda>(v, lctx). Inr (scast v, lctx)))
      else if op = DW_OP_const2u
        then push (rbind (dwarf2_parse_u2 mem lctx) (\<lambda>(v, lctx). Inr (ucast v, lctx)))
      else if op = DW_OP_const2s
        then push (rbind (dwarf2_parse_u2 mem lctx) (\<lambda>(v, lctx). Inr (scast v, lctx)))
      else if op = DW_OP_const4u then push (dwarf2_parse_u4 mem lctx)
      else if op = DW_OP_const4s then push (dwarf2_parse_u4 mem lctx)
      else if op = DW_OP_constu then push (dwarf2_leb128_as_unsigned mem lctx)
      else if op = DW_OP_consts then push (dwarf2_leb128_as_signed mem lctx)
      else if op = DW_OP_plus_uconst
        then rbind (dwarf2_leb128_as_unsigned mem lctx) (\<lambda>(v, lctx).
               case loc of
                 [] \<Rightarrow> Inl OutOfBounds
               | tos # below \<Rightarrow>
                   Inr (LocContinue lctx ((tos + v) # below) in_register piece_found))
      else if DW_OP_reg0 \<le> op \<and> op \<le> DW_OP_breg31
        then (let in_register =
                    (case in_register of
                       None \<Rightarrow> None
                     | Some r \<Rightarrow>
                         if \<not> piece_found \<or> ucast op - ucast DW_OP_reg0 \<noteq> r + 1
                         then Some (ucast op - ucast DW_OP_reg0) else Some r)
              in if DW_OP_breg0 \<le> op \<and> op \<le> DW_OP_breg31
                 then rbind (dwarf2_leb128_as_signed mem lctx) (\<lambda>(v, lctx).
                        rbind (push_loc loc v) (\<lambda>loc.
                          Inr (LocContinue lctx loc
                                 (map_option (\<lambda>r. r OR Wine_DW_register_deref) in_register)
                                 piece_found)))
                 else Inr (LocContinue lctx loc in_register piece_found))
      else if op = DW_OP_fbreg
        then (let in_register =
                    map_option (\<lambda>r. Wine_DW_frame_register OR Wine_DW_register_deref)
                      in_register
              in rbind (dwarf2_leb128_as_signed mem lctx) (\<lambda>(v, lctx).
                   rbind (push_loc loc v) (\<lambda>loc.
                     Inr (LocContinue lctx loc in_register piece_found))))
      else if op = DW_OP_piece
        then rbind (dwarf2_leb128_as_unsigned mem lctx) (\<lambda>(sz, lctx).
               Inr (LocContinue lctx loc in_register True))
      else (case loc of
              [] \<Rightarrow> Inl OutOfBounds
            | tos # below \<Rightarrow> Inr (LocUnhandled tos)))"

datatype loc_exit = LocDone "ulong list" "ulong option" | LocReturn ulong "ulong option"

text \<open>
  The \<open>while (lctx.data < lctx.end_data)\<close> loop. Every round reads the opcode byte, so
  the rounds given by the caller, one more than the size of the block, are never used up.
\<close>

primrec location_loop ::
  "nat \<Rightarrow> byte list \<Rightarrow> dwarf2_traverse_context \<Rightarrow> ulong list \<Rightarrow> ulong option \<Rightarrow> bool \<Rightarrow>
   loc_exit result" where
  "location_loop 0 mem lctx loc in_register piece_found = Inl OutOfFuel"
| "location_loop (Suc n) mem lctx loc in_register piece_found =
     (if data lctx < end_data lctx
      then rbind (dwarf2_parse_byte mem lctx) (\<lambda>(op, lctx).
             rbind (location_op mem lctx loc in_register piece_found op) (\<lambda>step.
               case step of
                 LocContinue lctx loc in_register piece_found \<Rightarrow>
                   location_loop n mem lctx loc in_register piece_found
               | LocUnhandled v \<Rightarrow> Inr (LocReturn v in_register)))
      else Inr (LocDone loc in_register))"

definition dwarf2_compute_location ::
  "dwarf2_parse_context \<Rightarrow> dwarf2_debug_info \<Rightarrow> ulong \<Rightarrow> ulong \<Rightarrow> ulong option \<Rightarrow>
   (ulong \<times> ulong \<times> ulong option) result" where
  "dwarf2_compute_location ctx di dw offset in_register =
     rbind (dwarf2_find_attribute ctx di dw (indeterminate_attribute ctx)) (\<lambda>(found, xloc).
       if \<not> found then Inr (0, offset, in_register)
       else
         let in_register = map_option (\<lambda>r. Wine_DW_no_register) in_register in
         if form xloc = DW_FORM_data1 \<or> form xloc = DW_FORM_data2
            \<or> form xloc = DW_FORM_data4 \<or> form xloc = DW_FORM_data8
            \<or> form xloc = DW_FORM_udata \<or> form xloc = DW_FORM_sdata
         then Inr (1, u_uvalue xloc, in_register)
         else if u_uvalue xloc \<noteq> 0
         then rbind (location_loop (Suc (unat (u_uvalue xloc))) (sec_debug ctx)
                       \<lparr>data = u_block_ptr xloc,
                        start_data = unat (indeterminate ctx),
                        end_data = u_block_ptr xloc + unat (u_uvalue xloc),
                        word_size = ctx_word_size ctx\<rparr>
                       [0] in_register False)
                (\<lambda>exit. case exit of
                   LocDone loc in_register \<Rightarrow>
                     (case loc of
                        [] \<Rightarrow> Inl OutOfBounds
                      | tos # below \<Rightarrow> Inr (1, tos, in_register))
                 | LocReturn v in_register \<Rightarrow> Inr (v, offset, in_register))
         else Inr (1, 0, in_register))"


subsection \<open>Symbol builder\<close>

text \<open>
  \<open>dwarf2_lookup_type\<close> calls \<open>dwarf2_load_one_entry\<close>, which calls the builders,
  which call \<open>dwarf2_lookup_type\<close>. Each of these functions is modelled with the
  function it calls back as its first argument (\<open>load\<close>, \<open>lookup\<close>); \<open>type_loader\<close>
  below ties the knot, with a bound on the depth of the calls.

  \<open>find_attribute_default\<close> is the idiom
  \<open>if (!dwarf2_find_attribute(ctx, di, at, &attr)) attr.u.uvalue = dflt;\<close>
  on a local \<open>attr\<close> that holds \<open>attr0\<close> before.
\<close>

type_synonym load_fn =
  "dwarf2_parse_context \<Rightarrow> build_state \<Rightarrow> nat \<Rightarrow> symt_ptr \<Rightarrow> build_state result"

type_synonym lookup_fn =
  "dwarf2_parse_context \<Rightarrow> build_state \<Rightarrow> nat \<Rightarrow> (build_state \<times> symt_ptr) result"

definition find_attribute_default ::
  "dwarf2_parse_context \<Rightarrow> dwarf2_debug_info \<Rightarrow> ulong \<Rightarrow> attribute \<Rightarrow> ulong \<Rightarrow>
   attribute result" where
  "find_attribute_default ctx di at attr0 dflt =
     rbind (dwarf2_find_attribute ctx di at attr0) (\<lambda>(found, attr).
       Inr (if found then attr else attr\<lparr>u_uvalue := dflt\<rparr>))"

fun for_each :: "('a \<Rightarrow> 's \<Rightarrow> 's result) \<Rightarrow> 'a list \<Rightarrow> 's \<Rightarrow> 's result" where
  "for_each body [] st = Inr st"
| "for_each body (x # xs) st = rbind (body x st) (for_each body xs)"

definition dwarf2_lookup_type :: "load_fn \<Rightarrow> lookup_fn" where
  "dwarf2_lookup_type load ctx st di =
     rbind (get_di ctx di) (\<lambda>d.
     rbind (dwarf2_find_attribute ctx d DW_AT_type (indeterminate_attribute ctx))
       (\<lambda>(found, attr).
          if found
          then (let type = unat (u_uvalue attr) in
                case debug_info_table ctx type of
                  None \<Rightarrow> Inl NullPointer
                | Some t \<Rightarrow>
                    if symt_of st type = None
                    then rbind (load ctx st type None) (\<lambda>st. Inr (st, symt_of st type))
                    else Inr (st, symt_of st type))
          else Inr (st, None)))"

definition basic_type_of_encoding :: "ulong \<Rightarrow> BasicType" where
  "basic_type_of_encoding e =
     (if e = DW_ATE_void then btVoid
      else if e = DW_ATE_address then btULong
      else if e = DW_ATE_boolean then btBool
      else if e = DW_ATE_complex_float then btComplex
      else if e = DW_ATE_float then btFloat
      else if e = DW_ATE_signed then btInt
      else if e = DW_ATE_unsigned then btUInt
      else if e = DW_ATE_signed_char then btChar
      else if e = DW_ATE_unsigned_char then btChar
      else btNoType)"

definition new_symbol :: "build_state \<Rightarrow> symt_obj \<Rightarrow> build_state \<times> symt_ptr" where
  "new_symbol st obj = (let (m, s) = symt_new (module st) obj in (st\<lparr>module := m\<rparr>, s))"

definition add_symbol :: "build_state \<Rightarrow> symt_obj \<Rightarrow> build_state" where
  "add_symbol st obj = st\<lparr>module := symt_add (module st) obj\<rparr>"

definition dwarf2_parse_base_type :: lookup_fn where
  "dwarf2_parse_base_type ctx st di =
     (if symt_of st di \<noteq> None then Inr (st, symt_of st di)
      else
        rbind (get_di ctx di) (\<lambda>d.
        rbind (dwarf2_find_name ctx st d (indeterminate_attribute ctx) ''base_type'')
          (\<lambda>(st, name).
        rbind (find_attribute_default ctx d DW_AT_byte_size (indeterminate_attribute ctx) 0)
          (\<lambda>sz.
        rbind (find_attribute_default ctx d DW_AT_encoding (indeterminate_attribute ctx)
                 DW_ATE_void)
          (\<lambda>encoding.
             let bt = basic_type_of_encoding (u_uvalue encoding);
                 (st, s) = new_symbol st (symt_basic bt (u_string name) (u_uvalue sz))
             in Inr (set_symt st di s, s))))))"

definition dwarf2_parse_typedef :: "lookup_fn \<Rightarrow> lookup_fn" where
  "dwarf2_parse_typedef lookup ctx st di =
     (if symt_of st di \<noteq> None then Inr (st, symt_of st di)
      else
        rbind (get_di ctx di) (\<lambda>d.
        rbind (dwarf2_find_name ctx st d (indeterminate_attribute ctx) ''typedef'')
          (\<lambda>(st, name).
        rbind (lookup ctx st di) (\<lambda>(st, ref_type).
          if u_string name \<noteq> NullStr
          then (let (st, s) = new_symbol st (symt_typedef ref_type (u_string name))
                in Inr (set_symt st di s, s))
          else Inr (st, symt_of st di)))))"

definition dwarf2_parse_pointer_type :: "lookup_fn \<Rightarrow> lookup_fn" where
  "dwarf2_parse_pointer_type lookup ctx st di =
     (if symt_of st di \<noteq> None then Inr (st, symt_of st di)
      else
        rbind (get_di ctx di) (\<lambda>d.
        rbind (find_attribute_default ctx d DW_AT_byte_size (indeterminate_attribute ctx) 0)
          (\<lambda>sz.
        rbind (lookup ctx st di) (\<lambda>(st, ref_type).
          let (st, s) = new_symbol st (symt_pointer ref_type)
          in Inr (set_symt st di s, s)))))"

text \<open>
  The loop of \<open>dwarf2_parse_array_type\<close> over the children carries the locals
  \<open>idx_type\<close>, \<open>min\<close>, \<open>max\<close> and \<open>cnt\<close> (here \<open>amin\<close>, \<open>amax\<close>, \<open>cnt\<close>) from one
  child to the next.
\<close>

definition array_child ::
  "lookup_fn \<Rightarrow> dwarf2_parse_context \<Rightarrow> nat \<Rightarrow>
   build_state \<times> symt_ptr \<times> attribute \<times> attribute \<times> attribute \<Rightarrow>
   (build_state \<times> symt_ptr \<times> attribute \<times> attribute \<times> attribute) result" where
  "array_child lookup ctx child loc =
     (case loc of (st, idx_type, amin, amax, cnt) \<Rightarrow>
        rbind (get_di ctx child) (\<lambda>c.
          if tag (abbrev c) = DW_TAG_subrange_type
          then
            rbind (lookup ctx st child) (\<lambda>(st, idx_type).
            rbind (find_attribute_default ctx c DW_AT_lower_bound amin 0) (\<lambda>amin.
            rbind (find_attribute_default ctx c DW_AT_upper_bound amax 0) (\<lambda>amax.
            rbind (dwarf2_find_attribute ctx c DW_AT_count cnt) (\<lambda>(found, cnt).
              Inr (st, idx_type, amin,
                   if found then amax\<lparr>u_uvalue := u_uvalue amin + u_uvalue cnt\<rparr> else amax,
                   cnt)))))
          else Inr loc))"

definition dwarf2_parse_array_type :: "lookup_fn \<Rightarrow> lookup_fn" where
  "dwarf2_parse_array_type lookup ctx st di =
     (if symt_of st di \<noteq> None then Inr (st, symt_of st di)
      else
        rbind (get_di ctx di) (\<lambda>d.
          if have_child (abbrev d) = 0 then Inr (st, None)
          else
            rbind (lookup ctx st di) (\<lambda>(st, ref_type).
            rbind (for_each (array_child lookup ctx) (children d)
                     (st, None, indeterminate_attribute ctx, indeterminate_attribute ctx,
                      indeterminate_attribute ctx))
              (\<lambda>(st, idx_type, amin, amax, cnt).
                 let (st, s) = new_symbol st
                       (symt_array (u_uvalue amin) (u_uvalue amax) ref_type idx_type)
                 in Inr (set_symt st di s, s)))))"

definition dwarf2_parse_const_type :: "lookup_fn \<Rightarrow> lookup_fn" where
  "dwarf2_parse_const_type lookup ctx st di =
     (if symt_of st di \<noteq> None then Inr (st, symt_of st di)
      else rbind (lookup ctx st di) (\<lambda>(st, ref_type).
             Inr (set_symt st di ref_type, ref_type)))"

definition dwarf2_parse_volatile_type :: "lookup_fn \<Rightarrow> lookup_fn" where
  "dwarf2_parse_volatile_type lookup ctx st di =
     (if symt_of st di \<noteq> None then Inr (st, symt_of st di)
      else rbind (lookup ctx st di) (\<lambda>(st, ref_type).
             Inr (set_symt st di ref_type, ref_type)))"

definition dwarf2_parse_reference_type :: "lookup_fn \<Rightarrow> lookup_fn" where
  "dwarf2_parse_reference_type lookup ctx st di =
     (if symt_of st di \<noteq> None then Inr (st, symt_of st di)
      else rbind (lookup ctx st di) (\<lambda>(st, ref_type).
             let (st, s) = new_symbol st (symt_pointer ref_type)
             in Inr (set_symt st di s, s)))"

definition dwarf2_parse_udt_member ::
  "lookup_fn \<Rightarrow> dwarf2_parse_context \<Rightarrow> build_state \<Rightarrow> nat \<Rightarrow> symt_ptr \<Rightarrow>
   build_state result" where
  "dwarf2_parse_udt_member lookup ctx st di parent =
     (if parent = None then Inl AssertFailed
      else
        rbind (get_di ctx di) (\<lambda>d.
        rbind (dwarf2_find_name ctx st d (indeterminate_attribute ctx) ''udt_member'')
          (\<lambda>(st, name).
        rbind (lookup ctx st di) (\<lambda>(st, elt_type).
        rbind (dwarf2_compute_location ctx d DW_AT_data_member_location 0 None)
          (\<lambda>(ret, offset, in_register).
        rbind (find_attribute_default ctx d DW_AT_bit_size (indeterminate_attribute ctx) 0)
          (\<lambda>bit_size.
        rbind (dwarf2_find_attribute ctx d DW_AT_bit_offset (indeterminate_attribute ctx))
          (\<lambda>(found, bit_offset).
        rbind (if found
               then rbind (dwarf2_find_attribute ctx d DW_AT_byte_size
                             (indeterminate_attribute ctx))
                      (\<lambda>(found, nbytes).
                         let nbytes =
                               (if found then u_uvalue nbytes
                                else case get_length (module st) (symbols (module st))
                                            elt_type of
                                       Some len \<Rightarrow> len | None \<Rightarrow> 0)
                         in Inr (nbytes * 8 - u_uvalue bit_offset - u_uvalue bit_size))
               else Inr 0)
          (\<lambda>bit_offset.
             Inr (add_symbol st
                    (udt_element parent (u_string name) elt_type
                       (push_bit 3 offset + bit_offset) (u_uvalue bit_size)))))))))))"

definition dwarf2_parse_enumerator ::
  "dwarf2_parse_context \<Rightarrow> build_state \<Rightarrow> nat \<Rightarrow> symt_ptr \<Rightarrow> build_state result" where
  "dwarf2_parse_enumerator ctx st di parent =
     rbind (get_di ctx di) (\<lambda>d.
     rbind (dwarf2_find_name ctx st d (indeterminate_attribute ctx) ''enum_value'')
       (\<lambda>(st, name).
     rbind (find_attribute_default ctx d DW_AT_const_value (indeterminate_attribute ctx) 0)
       (\<lambda>val.
          Inr (add_symbol st (enum_element parent (u_string name) (u_uvalue val))))))"

definition dwarf2_parse_enumeration_type :: lookup_fn where
  "dwarf2_parse_enumeration_type ctx st di =
     (if symt_of st di \<noteq> None then Inr (st, symt_of st di)
      else
        rbind (get_di ctx di) (\<lambda>d.
        rbind (dwarf2_find_name ctx st d (indeterminate_attribute ctx) ''enum'')
          (\<lambda>(st, name).
        rbind (find_attribute_default ctx d DW_AT_byte_size (indeterminate_attribute ctx) 0)
          (\<lambda>sz.
           let (st, s) = new_symbol st (symt_enum (u_string name));
               st = set_symt st di s
           in rbind (if have_child (abbrev d) \<noteq> 0
                     then for_each
                            (\<lambda>child st.
                               rbind (get_di ctx child) (\<lambda>c.
                                 if tag (abbrev c) = DW_TAG_enumerator
                                 then dwarf2_parse_enumerator ctx st child (symt_of st di)
                                 else Inr st))
                            (children d) st
                     else Inr st)
                (\<lambda>st. Inr (st, symt_of st di))))))"

definition dwarf2_parse_udt_type ::
  "lookup_fn \<Rightarrow> dwarf2_parse_context \<Rightarrow> build_state \<Rightarrow> nat \<Rightarrow> UdtKind \<Rightarrow>
   (build_state \<times> symt_ptr) result" where
  "dwarf2_parse_udt_type lookup ctx st di udt =
     (if symt_of st di \<noteq> None then Inr (st, symt_of st di)
      else
        rbind (get_di ctx di) (\<lambda>d.
        rbind (dwarf2_find_name ctx st d (indeterminate_attribute ctx) ''udt'')
          (\<lambda>(st, name).
        rbind (find_attribute_default ctx d DW_AT_byte_size (indeterminate_attribute ctx) 0)
          (\<lambda>sz.
           let (st, s) = new_symbol st (symt_udt (u_string name) (u_uvalue sz) udt);
               st = set_symt st di s
           in rbind (if have_child (abbrev d) \<noteq> 0
                     then for_each
                            (\<lambda>child st.
                               rbind (get_di ctx child) (\<lambda>c.
                                 if tag (abbrev c) = DW_TAG_member
                                 then dwarf2_parse_udt_member lookup ctx st child
                                        (symt_of st di)
                                 else if tag (abbrev c) = DW_TAG_enumeration_type
                                 then rbind (dwarf2_parse_enumeration_type ctx st child)
                                        (\<lambda>(st, e). Inr st)
                                 else Inr st))
                            (children d) st
                     else Inr st)
                (\<lambda>st. Inr (st, symt_of st di))))))"

definition dwarf2_map_register :: "ulong \<Rightarrow> cv_reg" where
  "dwarf2_map_register regno =
     (if regno = Wine_DW_no_register then CV_REG_NONE
      else if regno = Wine_DW_frame_register then CV_REG_NONE
      else if regno = 0 then CV_REG_EAX
      else if regno = 1 then CV_REG_ECX
      else if regno = 2 then CV_REG_EDX
      else if regno = 3 then CV_REG_EBX
      else if regno = 4 then CV_REG_ESP
      else if regno = 5 then CV_REG_EBP
      else if regno = 6 then CV_REG_ESI
      else if regno = 7 then CV_REG_EDI
      else if regno = 8 then CV_REG_EIP
      else if regno = 9 then CV_REG_EFLAGS
      else if regno = 10 then CV_REG_CS
      else if regno = 11 then CV_REG_SS
      else if regno = 12 then CV_REG_DS
      else if regno = 13 then CV_REG_ES
      else if regno = 14 then CV_REG_FS
      else if regno = 15 then CV_REG_GS
      else if 16 \<le> regno \<and> regno \<le> 23 then CV_REG_ST0_plus (regno - 16)
      else if regno = 24 then CV_REG_CTRL
      else if regno = 25 then CV_REG_STAT
      else if regno = 26 then CV_REG_TAG
      else if 32 \<le> regno \<and> regno \<le> 39 then CV_REG_XMM0_plus (regno - 32)
      else if regno = 40 then CV_REG_MXCSR
      else CV_REG_NONE)"

text \<open>
  \<open>dwarf2_subprogram_t\<close>, without its \<open>ctx\<close>, which the model passes along with it.
\<close>

record dwarf2_subprogram =
  compiland :: symt_ptr
  func :: symt_ptr
  frame_offset :: ulong
  frame_reg :: ulong

text \<open>\<open>func->type\<close> of a function symbol: the signature it was created with.\<close>

definition func_type :: "module \<Rightarrow> symt_ptr \<Rightarrow> symt_ptr" where
  "func_type m f =
     (case f of
        None \<Rightarrow> None
      | Some i \<Rightarrow>
          if i < length (symbols m)
          then (case symbols m ! i of
                  symt_function compi name addr sz sig \<Rightarrow> sig
                | _ \<Rightarrow> None)
          else None)"

definition dwarf2_parse_variable ::
  "lookup_fn \<Rightarrow> dwarf2_parse_context \<Rightarrow> build_state \<Rightarrow> dwarf2_subprogram \<Rightarrow> symt_ptr \<Rightarrow>
   nat \<Rightarrow> build_state result" where
  "dwarf2_parse_variable lookup ctx st subpgm block di =
     rbind (get_di ctx di) (\<lambda>d.
       let is_pmt = (tag (abbrev d) = DW_TAG_formal_parameter) in
       rbind (lookup ctx st di) (\<lambda>(st, param_type).
       rbind (dwarf2_find_name ctx st d (indeterminate_attribute ctx) ''parameter'')
         (\<lambda>(st, name).
       rbind (dwarf2_compute_location ctx d DW_AT_location (indeterminate ctx)
                (Some (indeterminate ctx)))
         (\<lambda>(ret, offset, in_register).
       rbind
         (if ret \<noteq> 0
          then (case in_register of
                  None \<Rightarrow> Inl NullPointer
                | Some in_reg \<Rightarrow>
                    if in_reg AND NOT Wine_DW_register_deref = Wine_DW_no_register
                    then rbind (find_attribute_default ctx d DW_AT_external
                                  (indeterminate_attribute ctx) 0)
                           (\<lambda>ext.
                              Inr (fst (new_symbol st
                                     (global_variable (compiland subpgm) (u_string name)
                                        (u_uvalue ext = 0)
                                        (BaseOfImage (module st) + offset) 0 param_type))))
                    else
                      (let (in_reg, offset) =
                             (if in_reg AND NOT Wine_DW_register_deref
                                 = Wine_DW_frame_register
                              then (frame_reg subpgm OR Wine_DW_register_deref,
                                    offset + frame_offset subpgm)
                              else (in_reg, offset))
                       in if func subpgm = None then Inl AssertFailed
                          else Inr (add_symbol st
                                 (func_local (func subpgm)
                                    (if is_pmt then DataIsParam else DataIsLocal)
                                    (dwarf2_map_register
                                       (in_reg AND NOT Wine_DW_register_deref))
                                    (in_reg AND Wine_DW_register_deref)
                                    offset block param_type (u_string name)))))
          else Inr st)
         (\<lambda>st.
       rbind (dwarf2_find_attribute ctx d DW_AT_const_value (indeterminate_attribute ctx))
         (\<lambda>(found, val).
            Inr (if is_pmt \<and> func subpgm \<noteq> None
                    \<and> func_type (module st) (func subpgm) \<noteq> None
                 then add_symbol st
                        (function_signature_parameter
                           (func_type (module st) (func subpgm)) param_type)
                 else st)))))))"

definition dwarf2_parse_subprogram_label ::
  "dwarf2_parse_context \<Rightarrow> build_state \<Rightarrow> dwarf2_subprogram \<Rightarrow> nat \<Rightarrow> build_state result"
  where
  "dwarf2_parse_subprogram_label ctx st subpgm di =
     rbind (get_di ctx di) (\<lambda>d.
     rbind (find_attribute_default ctx d DW_AT_low_pc (indeterminate_attribute ctx) 0)
       (\<lambda>low_pc.
     rbind (dwarf2_find_name ctx st d (indeterminate_attribute ctx) ''label'')
       (\<lambda>(st, name).
          Inr (add_symbol st
                 (function_point (func subpgm)
                    (BaseOfImage (module st) + u_uvalue low_pc) (u_string name))))))"

text \<open>
  \<open>dwarf2_parse_inlined_subroutine\<close> and \<open>dwarf2_parse_subprogram_block\<close> call
  themselves on the children of the entry; the first argument bounds the depth.
\<close>

primrec dwarf2_parse_inlined_subroutine ::
  "nat \<Rightarrow> dwarf2_parse_context \<Rightarrow> build_state \<Rightarrow> dwarf2_subprogram \<Rightarrow> nat \<Rightarrow>
   build_state result" where
  "dwarf2_parse_inlined_subroutine 0 ctx st subpgm di = Inl OutOfFuel"
| "dwarf2_parse_inlined_subroutine (Suc n) ctx st subpgm di =
     rbind (get_di ctx di) (\<lambda>d.
       if have_child (abbrev d) \<noteq> 0
       then for_each
              (\<lambda>child st.
                 rbind (get_di ctx child) (\<lambda>c.
                   if tag (abbrev c) = DW_TAG_inlined_subroutine
                   then dwarf2_parse_inlined_subroutine n ctx st subpgm child
                   else if tag (abbrev c) = DW_TAG_label
                   then dwarf2_parse_subprogram_label ctx st subpgm child
                   else Inr st))
              (children d) st
       else Inr st)"

primrec dwarf2_parse_subprogram_block ::
  "nat \<Rightarrow> lookup_fn \<Rightarrow> dwarf2_parse_context \<Rightarrow> build_state \<Rightarrow> dwarf2_subprogram \<Rightarrow>
   symt_ptr \<Rightarrow> nat \<Rightarrow> build_state result" where
  "dwarf2_parse_subprogram_block 0 lookup ctx st subpgm parent_block di = Inl OutOfFuel"
| "dwarf2_parse_subprogram_block (Suc n) lookup ctx st subpgm parent_block di =
     rbind (get_di ctx di) (\<lambda>d.
     rbind (find_attribute_default ctx d DW_AT_low_pc (indeterminate_attribute ctx) 0)
       (\<lambda>low_pc.
     rbind (find_attribute_default ctx d DW_AT_high_pc (indeterminate_attribute ctx) 0)
       (\<lambda>high_pc.
        let (st, block) = new_symbol st
              (func_block (func subpgm) parent_block (u_uvalue low_pc)
                 (u_uvalue high_pc - u_uvalue low_pc))
        in rbind (if have_child (abbrev d) \<noteq> 0
                  then for_each
                         (\<lambda>child st.
                            rbind (get_di ctx child) (\<lambda>c.
                              if tag (abbrev c) = DW_TAG_inlined_subroutine
                              then dwarf2_parse_inlined_subroutine n ctx st subpgm child
                              else if tag (abbrev c) = DW_TAG_variable
                              then dwarf2_parse_variable lookup ctx st subpgm block child
                              else if tag (abbrev c) = DW_TAG_lexical_block
                              then dwarf2_parse_subprogram_block n lookup ctx st subpgm
                                     block child
                              else Inr st))
                         (children d) st
                  else Inr st)
             (\<lambda>st. Inr (add_symbol st (close_func_block (func subpgm) block 0))))))"

definition dwarf2_parse_subprogram ::
  "nat \<Rightarrow> lookup_fn \<Rightarrow> dwarf2_parse_context \<Rightarrow> build_state \<Rightarrow> nat \<Rightarrow> symt_ptr \<Rightarrow>
   (build_state \<times> symt_ptr) result" where
  "dwarf2_parse_subprogram fuel lookup ctx st di compi =
     (if symt_of st di \<noteq> None then Inr (st, symt_of st di)
      else
        rbind (get_di ctx di) (\<lambda>d.
        rbind (find_attribute_default ctx d DW_AT_low_pc (indeterminate_attribute ctx) 0)
          (\<lambda>low_pc.
        rbind (find_attribute_default ctx d DW_AT_high_pc (indeterminate_attribute ctx) 0)
          (\<lambda>high_pc.
           if elf_is_in_thunk_area (BaseOfImage (module st) + u_uvalue low_pc) (thunks ctx)
           then Inr (st, None)
           else
             rbind (find_attribute_default ctx d DW_AT_declaration
                      (indeterminate_attribute ctx) 0)
               (\<lambda>is_decl.
             rbind (find_attribute_default ctx d DW_AT_inline
                      (indeterminate_attribute ctx) 0)
               (\<lambda>inline_flags.
             rbind (dwarf2_find_name ctx st d (indeterminate_attribute ctx) ''subprogram'')
               (\<lambda>(st, name).
             rbind (lookup ctx st di) (\<lambda>(st, ret_type).
               let (st, sig_type) = new_symbol st (symt_function_signature ret_type);
                   (st, f) =
                     (if u_uvalue is_decl = 0
                      then (let (st, f) = new_symbol st
                                  (symt_function compi (u_string name)
                                     (BaseOfImage (module st) + u_uvalue low_pc)
                                     (u_uvalue high_pc - u_uvalue low_pc) sig_type)
                            in (set_symt st di f, f))
                      else (st, None))
               in
               rbind (dwarf2_compute_location ctx d DW_AT_frame_base (indeterminate ctx)
                        (Some (indeterminate ctx)))
                 (\<lambda>(ret, fr_offset, fr_reg).
                  let subpgm =
                        (if ret \<noteq> 0 \<and> fr_reg \<noteq> Some Wine_DW_no_register
                         then \<lparr>compiland = compi, func = f, frame_offset = fr_offset,
                               frame_reg = (case fr_reg of Some r \<Rightarrow> r | None \<Rightarrow> 0)\<rparr>
                         else \<lparr>compiland = compi, func = f, frame_offset = 0,
                               frame_reg = 0\<rparr>)
                  in
                  rbind (if have_child (abbrev d) \<noteq> 0
                         then for_each
                                (\<lambda>child st.
                                   rbind (get_di ctx child) (\<lambda>c.
                                     if tag (abbrev c) = DW_TAG_variable
                                        \<or> tag (abbrev c) = DW_TAG_formal_parameter
                                     then dwarf2_parse_variable lookup ctx st subpgm None
                                            child
                                     else if tag (abbrev c) = DW_TAG_lexical_block
                                     then dwarf2_parse_subprogram_block fuel lookup ctx st
                                            subpgm None child
                                     else if tag (abbrev c) = DW_TAG_inlined_subroutine
                                     then dwarf2_parse_inlined_subroutine fuel ctx st subpgm
                                            child
                                     else if tag (abbrev c) = DW_TAG_label
                                     then dwarf2_parse_subprogram_label ctx st subpgm child
                                     else Inr st))
                                (children d) st
                         else Inr st)
                    (\<lambda>st.
                       let st = add_symbol st (normalize_function f)
                       in Inr (st, symt_of st di)))))))))))"

definition dwarf2_parse_subroutine_type :: "lookup_fn \<Rightarrow> lookup_fn" where
  "dwarf2_parse_subroutine_type lookup ctx st di =
     (if symt_of st di \<noteq> None then Inr (st, symt_of st di)
      else
        rbind (get_di ctx di) (\<lambda>d.
        rbind (lookup ctx st di) (\<lambda>(st, ret_type).
          let (st, sig_type) = new_symbol st (symt_function_signature ret_type)
          in rbind (if have_child (abbrev d) \<noteq> 0
                    then for_each
                           (\<lambda>child st.
                              rbind (get_di ctx child) (\<lambda>c.
                                if tag (abbrev c) = DW_TAG_formal_parameter
                                then rbind (lookup ctx st child) (\<lambda>(st, t).
                                       Inr (add_symbol st
                                              (function_signature_parameter sig_type t)))
                                else Inr st))
                           (children d) st
                    else Inr st)
               (\<lambda>st. Inr (set_symt st di sig_type, sig_type)))))"

definition dwarf2_load_one_entry :: "nat \<Rightarrow> lookup_fn \<Rightarrow> load_fn" where
  "dwarf2_load_one_entry fuel lookup ctx st di compi =
     rbind (get_di ctx di) (\<lambda>d.
       let t = tag (abbrev d); drop_symt = (\<lambda>r. rbind r (\<lambda>(st, s). Inr st)) in
       if t = DW_TAG_typedef then drop_symt (dwarf2_parse_typedef lookup ctx st di)
       else if t = DW_TAG_base_type then drop_symt (dwarf2_parse_base_type ctx st di)
       else if t = DW_TAG_pointer_type
         then drop_symt (dwarf2_parse_pointer_type lookup ctx st di)
       else if t = DW_TAG_class_type
         then drop_symt (dwarf2_parse_udt_type lookup ctx st di UdtClass)
       else if t = DW_TAG_structure_type
         then drop_symt (dwarf2_parse_udt_type lookup ctx st di UdtStruct)
       else if t = DW_TAG_union_type
         then drop_symt (dwarf2_parse_udt_type lookup ctx st di UdtUnion)
       else if t = DW_TAG_array_type then drop_symt (dwarf2_parse_array_type lookup ctx st di)
       else if t = DW_TAG_const_type then drop_symt (dwarf2_parse_const_type lookup ctx st di)
       else if t = DW_TAG_volatile_type
         then drop_symt (dwarf2_parse_volatile_type lookup ctx st di)
       else if t = DW_TAG_reference_type
         then drop_symt (dwarf2_parse_reference_type lookup ctx st di)
       else if t = DW_TAG_enumeration_type
         then drop_symt (dwarf2_parse_enumeration_type ctx st di)
       else if t = DW_TAG_subprogram
         then drop_symt (dwarf2_parse_subprogram fuel lookup ctx st di compi)
       else if t = DW_TAG_subroutine_type
         then drop_symt (dwarf2_parse_subroutine_type lookup ctx st di)
       else if t = DW_TAG_variable
         then dwarf2_parse_variable lookup ctx st
                \<lparr>compiland = compi, func = None, frame_offset = 0, frame_reg = 0\<rparr> None di
       else Inr st)"

text \<open>
  \<open>type_loader n\<close> is \<open>dwarf2_lookup_type\<close> with its calls to
  \<open>dwarf2_load_one_entry\<close> nested at most \<open>n\<close> deep.
\<close>

primrec type_loader :: "nat \<Rightarrow> lookup_fn" where
  "type_loader 0 = dwarf2_lookup_type (\<lambda>ctx st di compi. Inl OutOfFuel)"
| "type_loader (Suc n) = dwarf2_lookup_type (dwarf2_load_one_entry n (type_loader n))"

subsection \<open>Debug-info tree builder\<close>

text \<open>
  The \<open>while\<close> loop of \<open>dwarf2_read_one_debug_info\<close> that collects the children of
  the entry at \<open>parent\<close>; \<open>read\<close> is the recursive call of
  \<open>dwarf2_read_one_debug_info\<close>. Both take a bound on the number of their rounds: a
  \<open>DW_AT_sibling\<close> attribute can move the cursor backwards, so the walk need not end.
  The \<open>di->symt = NULL\<close> of a new entry is the empty \<open>symt_of\<close> that
  \<open>dwarf2_parse_compilation_unit\<close> starts the builder with.
\<close>

primrec children_loop ::
  "nat \<Rightarrow>
   (dwarf2_parse_context \<Rightarrow> dwarf2_traverse_context \<Rightarrow> di_ptr \<Rightarrow>
      (bool \<times> dwarf2_parse_context \<times> dwarf2_traverse_context \<times> di_ptr) result) \<Rightarrow>
   nat \<Rightarrow> dwarf2_parse_context \<Rightarrow> dwarf2_traverse_context \<Rightarrow> di_ptr \<Rightarrow>
   (bool \<times> dwarf2_parse_context \<times> dwarf2_traverse_context) result" where
  "children_loop 0 read parent ctx traverse child = Inl OutOfFuel"
| "children_loop (Suc n) read parent ctx traverse child =
     (if data traverse < end_data traverse
      then rbind (read ctx traverse child) (\<lambda>(ok, ctx, traverse, child).
             if \<not> ok then Inr (False, ctx, traverse)
             else case child of
                    NullDi \<Rightarrow> Inr (True, ctx, traverse)
                  | UninitialisedDi \<Rightarrow> Inl WildPointer
                  | Di c \<Rightarrow>
                      rbind (get_di ctx parent) (\<lambda>d.
                        children_loop n read parent
                          (ctx\<lparr>debug_info_table :=
                                 (debug_info_table ctx)
                                   (parent \<mapsto> d\<lparr>children := children d @ [c]\<rparr>)\<rparr>)
                          traverse child))
      else Inr (True, ctx, traverse))"

fun swallow_attributes ::
  "byte list \<Rightarrow> dwarf2_traverse_context \<Rightarrow> dwarf2_abbrev_entry_attr list \<Rightarrow>
   (nat list \<times> dwarf2_traverse_context) result" where
  "swallow_attributes mem traverse [] = Inr ([], traverse)"
| "swallow_attributes mem traverse (attr # rest) =
     rbind (dwarf2_swallow_attribute mem traverse attr) (\<lambda>traverse'.
       rbind (swallow_attributes mem traverse' rest) (\<lambda>(ds, traverse'').
         Inr (data traverse # ds, traverse'')))"

primrec dwarf2_read_one_debug_info ::
  "nat \<Rightarrow> dwarf2_parse_context \<Rightarrow> dwarf2_traverse_context \<Rightarrow> di_ptr \<Rightarrow>
   (bool \<times> dwarf2_parse_context \<times> dwarf2_traverse_context \<times> di_ptr) result" where
  "dwarf2_read_one_debug_info 0 ctx traverse pdi = Inl OutOfFuel"
| "dwarf2_read_one_debug_info (Suc n) ctx traverse pdi =
     (let offset = data traverse in
      rbind (dwarf2_leb128_as_unsigned (sec_debug ctx) traverse) (\<lambda>(code, traverse).
        if code = 0 then Inr (True, ctx, traverse, NullDi)
        else case dwarf2_abbrev_table_find_entry (abbrev_table ctx) code of
          None \<Rightarrow> Inr (False, ctx, traverse, pdi)
        | Some ab \<Rightarrow>
            (case sparse_array_add (debug_info_table ctx) offset of
               None \<Rightarrow> Inr (False, ctx, traverse, pdi)
             | Some slot \<Rightarrow>
                 rbind (if num_attr ab \<noteq> 0
                        then swallow_attributes (sec_debug ctx) traverse (attrs ab)
                        else Inr ([], traverse))
                   (\<lambda>(ds, traverse).
                      let ctx = ctx\<lparr>debug_info_table :=
                                  (debug_info_table ctx)
                                    (offset \<mapsto> \<lparr>abbrev = ab, di_data = ds, children = []\<rparr>)\<rparr>
                      in
                      rbind (if have_child ab \<noteq> 0
                             then children_loop n (dwarf2_read_one_debug_info n) offset ctx
                                    traverse UninitialisedDi
                             else Inr (True, ctx, traverse))
                        (\<lambda>(ok, ctx, traverse).
                           if \<not> ok then Inr (False, ctx, traverse, pdi)
                           else
                             rbind (get_di ctx offset) (\<lambda>d.
                             rbind (dwarf2_find_attribute ctx d DW_AT_sibling
                                      (indeterminate_attribute ctx))
                               (\<lambda>(found, sibling).
                                  Inr (True, ctx,
                                       if found \<and> data traverse \<noteq> unat (u_uvalue sibling)
                                       then traverse\<lparr>data := unat (u_uvalue sibling)\<rparr>
                                       else traverse,
                                       Di offset))))))))"

subsection \<open>Line number program\<close>

definition dwarf2_set_line_number ::
  "module \<Rightarrow> ulong \<Rightarrow> nat list \<Rightarrow> ulong \<Rightarrow> ulong \<Rightarrow> module" where
  "dwarf2_set_line_number m addr v fileno lineno =
     (if fileno = 0 \<or> \<not> unat (fileno - 1) < length v then m
      else
        let psrc = v ! unat (fileno - 1) in
        case find_nearest m (symbols m) addr of
          None \<Rightarrow> m
        | Some idx \<Rightarrow>
            if idx < length (symbols m)
            then (case symbols m ! idx of
                    symt_function compi name faddr sz sig \<Rightarrow>
                      symt_add m (func_line (Some idx) psrc lineno (addr - faddr))
                  | _ \<Rightarrow> m)
            else m)"

record line_header =
  insn_size :: ulong
  default_stmt :: ulong
  line_base :: ulong
  line_range :: ulong
  opcode_base :: ulong
  opcode_len :: nat

record line_registers =
  address :: ulong
  file_no :: ulong
  line :: ulong
  is_stmt :: ulong
  basic_block :: bool
  end_sequence :: bool

primrec skip_operands ::
  "nat \<Rightarrow> byte list \<Rightarrow> dwarf2_traverse_context \<Rightarrow> dwarf2_traverse_context result" where
  "skip_operands 0 mem traverse = Inr traverse"
| "skip_operands (Suc i) mem traverse =
     rbind (dwarf2_leb128_as_unsigned mem traverse)
       (\<lambda>(v, traverse). skip_operands i mem traverse)"

text \<open>
  One round of the \<open>while (!end_sequence)\<close> loop of \<open>dwarf2_parse_line_numbers\<close>:
  the registers are the locals \<open>address\<close>, \<open>file\<close> (here \<open>file_no\<close>), \<open>line\<close>, \<open>is_stmt\<close>,
  \<open>basic_block\<close> and \<open>end_sequence\<close>; \<open>files\<close> is the vector of the source files.
  The division and the remainder are those of \<open>unsigned\<close>.
\<close>

definition line_number_op ::
  "line_header \<Rightarrow> nat list \<Rightarrow> byte list \<Rightarrow>
   module \<times> dwarf2_traverse_context \<times> line_registers \<Rightarrow>
   (module \<times> dwarf2_traverse_context \<times> line_registers) result" where
  "line_number_op hdr files mem st =
     (case st of (m, traverse, r) \<Rightarrow>
      rbind (dwarf2_parse_byte mem traverse) (\<lambda>(op, traverse).
        let opcode = (ucast op :: ulong) in
        if opcode_base hdr \<le> opcode
        then
          (let delta = opcode - opcode_base hdr in
           if line_range hdr = 0 then Inl DivideByZero
           else
             let r = r\<lparr>address := address r + (delta div line_range hdr) * insn_size hdr\<rparr>;
                 r = r\<lparr>line := line r + (line_base hdr + delta mod line_range hdr)\<rparr>;
                 r = r\<lparr>basic_block := True\<rparr>
             in Inr (dwarf2_set_line_number m (address r) files (file_no r) (line r),
                     traverse, r))
        else if opcode = DW_LNS_copy
          then Inr (dwarf2_set_line_number m (address r) files (file_no r) (line r), traverse,
                    r\<lparr>basic_block := False\<rparr>)
        else if opcode = DW_LNS_advance_pc
          then rbind (dwarf2_leb128_as_unsigned mem traverse) (\<lambda>(v, traverse).
                 Inr (m, traverse, r\<lparr>address := address r + insn_size hdr * v\<rparr>))
        else if opcode = DW_LNS_advance_line
          then rbind (dwarf2_leb128_as_signed mem traverse) (\<lambda>(v, traverse).
                 Inr (m, traverse, r\<lparr>line := line r + v\<rparr>))
        else if opcode = DW_LNS_set_file
          then rbind (dwarf2_leb128_as_unsigned mem traverse) (\<lambda>(v, traverse).
                 Inr (m, traverse, r\<lparr>file_no := v\<rparr>))
        else if opcode = DW_LNS_set_column
          then rbind (dwarf2_leb128_as_unsigned mem traverse) (\<lambda>(v, traverse).
                 Inr (m, traverse, r))
        else if opcode = DW_LNS_negate_stmt
          then Inr (m, traverse, r\<lparr>is_stmt := (if is_stmt r = 0 then 1 else 0)\<rparr>)
        else if opcode = DW_LNS_set_basic_block
          then Inr (m, traverse, r\<lparr>basic_block := True\<rparr>)
        else if opcode = DW_LNS_const_add_pc
          then (if line_range hdr = 0 then Inl DivideByZero
                else Inr (m, traverse,
                       r\<lparr>address := address r
                            + ((255 - opcode_base hdr) div line_range hdr) * insn_size hdr\<rparr>))
        else if opcode = DW_LNS_fixed_advance_pc
          then rbind (dwarf2_parse_u2 mem traverse) (\<lambda>(v, traverse).
                 Inr (m, traverse, r\<lparr>address := address r + ucast v\<rparr>))
        else if opcode = DW_LNS_extended_op
          then rbind (dwarf2_leb128_as_unsigned mem traverse) (\<lambda>(len, traverse).
               rbind (dwarf2_parse_byte mem traverse) (\<lambda>(ext, traverse).
                 let extopcode = (ucast ext :: ulong) in
                 if extopcode = DW_LNE_end_sequence
                 then Inr (dwarf2_set_line_number m (address r) files (file_no r) (line r),
                           traverse, r\<lparr>end_sequence := True\<rparr>)
                 else if extopcode = DW_LNE_set_address
                 then rbind (dwarf2_parse_addr mem traverse) (\<lambda>(v, traverse).
                           Inr (m, traverse, r\<lparr>address := BaseOfImage m + v\<rparr>))
                 else if extopcode = DW_LNE_define_file
                 then rbind (strlen mem (data traverse)) (\<lambda>n.
                      rbind (skip_operands 3 mem (advance traverse (n + 1)))
                        (\<lambda>traverse. Inr (m, traverse, r)))
                 else Inr (m, traverse, r)))
        else
          rbind (dwarf2_get_byte mem (opcode_len hdr + unat opcode)) (\<lambda>cnt.
          rbind (skip_operands (unat cnt) mem traverse)
            (\<lambda>traverse. Inr (m, traverse, r)))))"

text \<open>
  The loops of the line number program read at least one byte in every round: the
  rounds given to them, one more than the bytes of the section, are never used up.
\<close>

primrec sequence_loop ::
  "nat \<Rightarrow> line_header \<Rightarrow> nat list \<Rightarrow> byte list \<Rightarrow>
   module \<times> dwarf2_traverse_context \<times> line_registers \<Rightarrow>
   (module \<times> dwarf2_traverse_context \<times> line_registers) result" where
  "sequence_loop 0 hdr files mem st = Inl OutOfFuel"
| "sequence_loop (Suc n) hdr files mem st =
     (if end_sequence (snd (snd st)) then Inr st
      else rbind (line_number_op hdr files mem st) (sequence_loop n hdr files mem))"

primrec program_loop ::
  "nat \<Rightarrow> line_header \<Rightarrow> nat list \<Rightarrow> byte list \<Rightarrow>
   module \<times> dwarf2_traverse_context \<Rightarrow> (module \<times> dwarf2_traverse_context) result" where
  "program_loop 0 hdr files mem st = Inl OutOfFuel"
| "program_loop (Suc n) hdr files mem st =
     (case st of (m, traverse) \<Rightarrow>
        if data traverse < end_data traverse
        then rbind (sequence_loop (Suc (length mem)) hdr files mem
                      (m, traverse,
                       \<lparr>address = 0, file_no = 1, line = 1, is_stmt = default_stmt hdr,
                        basic_block = False, end_sequence = False\<rparr>))
               (\<lambda>(m, traverse, r). program_loop n hdr files mem (m, traverse))
        else Inr st)"

definition section_bytes :: "dwarf2_parse_context \<Rightarrow> dwarf2_sections \<Rightarrow> byte list result" where
  "section_bytes ctx sec =
     (case sec of
        section_debug \<Rightarrow> Inr (sec_debug ctx)
      | section_string \<Rightarrow> Inr (sec_string ctx)
      | section_abbrev \<Rightarrow> Inr (sec_abbrev ctx)
      | section_line \<Rightarrow> (case sec_line ctx of None \<Rightarrow> Inl OutOfBounds | Some l \<Rightarrow> Inr l))"

text \<open>The characters of a C string, up to its terminating zero.\<close>

definition c_string :: "dwarf2_parse_context \<Rightarrow> char_ptr \<Rightarrow> string result" where
  "c_string ctx p =
     (case p of
        NullStr \<Rightarrow> Inl NullPointer
      | IndeterminateStr \<Rightarrow> Inl WildPointer
      | PoolStr str \<Rightarrow> Inr str
      | SectionStr sec ptr \<Rightarrow>
          rbind (section_bytes ctx sec) (\<lambda>mem.
          rbind (strlen mem ptr) (\<lambda>n.
            Inr (map (\<lambda>b. char_of (unat b)) (take n (drop ptr mem))))))"

primrec include_dirs_loop ::
  "nat \<Rightarrow> dwarf2_parse_context \<Rightarrow> byte list \<Rightarrow> char_ptr \<Rightarrow> dwarf2_traverse_context \<Rightarrow>
   char_ptr list \<Rightarrow> (dwarf2_traverse_context \<times> char_ptr list) result" where
  "include_dirs_loop 0 ctx mem compile_dir traverse dirs = Inl OutOfFuel"
| "include_dirs_loop (Suc n) ctx mem compile_dir traverse dirs =
     rbind (dwarf2_get_byte mem (data traverse)) (\<lambda>c.
       if c \<noteq> 0
       then
         (let rel = data traverse in
          rbind (strlen mem rel) (\<lambda>rellen.
            let traverse = advance traverse (rellen + 1) in
            if c = 0x2f \<or> compile_dir = NullStr
            then include_dirs_loop n ctx mem compile_dir traverse
                   (dirs @ [SectionStr section_line rel])
            else
              rbind (c_string ctx compile_dir) (\<lambda>base.
              rbind (c_string ctx (SectionStr section_line rel)) (\<lambda>relstr.
                if base = [] then Inl OutOfBounds
                else include_dirs_loop n ctx mem compile_dir traverse
                       (dirs @ [PoolStr ((if last base \<noteq> CHR ''/'' then base @ ''/''
                                          else base) @ relstr)])))))
       else Inr (traverse, dirs))"

primrec file_names_loop ::
  "nat \<Rightarrow> byte list \<Rightarrow> char_ptr list \<Rightarrow> module \<Rightarrow> dwarf2_traverse_context \<Rightarrow> nat list \<Rightarrow>
   (module \<times> dwarf2_traverse_context \<times> nat list) result" where
  "file_names_loop 0 mem dirs m traverse files = Inl OutOfFuel"
| "file_names_loop (Suc n) mem dirs m traverse files =
     rbind (dwarf2_get_byte mem (data traverse)) (\<lambda>c.
       if c \<noteq> 0
       then
         (let name = data traverse in
          rbind (strlen mem name) (\<lambda>namelen.
          rbind (dwarf2_leb128_as_unsigned mem (advance traverse (namelen + 1)))
            (\<lambda>(dir_index, traverse).
          rbind (dwarf2_leb128_as_unsigned mem traverse) (\<lambda>(mod_time, traverse).
          rbind (dwarf2_leb128_as_unsigned mem traverse) (\<lambda>(len, traverse).
            if unat dir_index < length dirs
            then (let (m, src) = source_new m (dirs ! unat dir_index)
                                   (SectionStr section_line name)
                  in file_names_loop n mem dirs m traverse (files @ [src]))
            else Inl NullPointer)))))
       else Inr (m, traverse, files))"

definition dwarf2_parse_line_numbers ::
  "dwarf2_parse_context \<Rightarrow> module \<Rightarrow> char_ptr \<Rightarrow> ulong \<Rightarrow> module result" where
  "dwarf2_parse_line_numbers ctx m0 compile_dir offset =
     (case sec_line ctx of
        None \<Rightarrow> Inr m0
      | Some mem \<Rightarrow>
          (let traverse = \<lparr>data = unat offset, start_data = unat offset,
                           end_data = unat offset + 4, word_size = ctx_word_size ctx\<rparr>
           in
           rbind (dwarf2_parse_u4 mem traverse) (\<lambda>(len, traverse).
             let traverse = traverse\<lparr>end_data := start_data traverse + unat len\<rparr> in
           rbind (dwarf2_parse_u2 mem traverse) (\<lambda>(version, traverse).
           rbind (dwarf2_parse_u4 mem traverse) (\<lambda>(header_len, traverse).
           rbind (dwarf2_parse_byte mem traverse) (\<lambda>(isz, traverse).
           rbind (dwarf2_parse_byte mem traverse) (\<lambda>(dstmt, traverse).
           rbind (dwarf2_parse_byte mem traverse) (\<lambda>(lbase, traverse).
           rbind (dwarf2_parse_byte mem traverse) (\<lambda>(lrange, traverse).
           rbind (dwarf2_parse_byte mem traverse) (\<lambda>(obase, traverse).
             let hdr = \<lparr>insn_size = ucast isz, default_stmt = ucast dstmt,
                        line_base = scast lbase, line_range = ucast lrange,
                        opcode_base = ucast obase, opcode_len = data traverse\<rparr>;
                 traverse = traverse\<lparr>data := data traverse + unat obase - 1\<rparr>
             in
           rbind (include_dirs_loop (Suc (length mem)) ctx mem compile_dir traverse
                    [if compile_dir \<noteq> NullStr then compile_dir else PoolStr ''.''])
             (\<lambda>(traverse, dirs).
           rbind (file_names_loop (Suc (length mem)) mem dirs m0 (advance traverse 1) [])
             (\<lambda>(m, traverse, files).
           rbind (program_loop (Suc (length mem)) hdr files mem (m, advance traverse 1))
             (\<lambda>(m, traverse). Inr m)))))))))))))"


subsection \<open>Compilation unit driver\<close>

text \<open>
  \<open>dwarf2_comp_unit_stream_t\<close> is 11 bytes: the length (4), the version (2), the
  offset of the abbreviations (4) and the word size (1).

  \<open>dwarf2_parse_compilation_unit\<close> builds its context from its arguments. Here the
  argument \<open>debug\<close> is the address of the debug section, \<open>comp_unit_cursor\<close> the
  address of the header of the unit, and \<open>ctx0\<close> holds the sections, the thunks and the
  content of unassigned locals,
  and \<open>st0\<close> the module and the counter of \<open>dwarf2_find_name\<close>. The result is the
  returned \<open>BOOL\<close> and the state at the end. \<open>fuel\<close> bounds the walks that need not
  end.
\<close>

record dwarf2_comp_unit =
  cu_length :: ulong
  cu_version :: ushort
  cu_abbrev_offset :: ulong
  cu_word_size :: byte

text \<open>
  The assignments at the start of \<open>dwarf2_parse_compilation_unit\<close>; \<open>debug\<close> is
  \<open>sections[section_debug].address\<close>. The context of the unit and the cursor over its
  entries both take the word size that the header of the unit declares. The end of the
  entries is the pointer \<open>comp_unit_cursor + comp_unit->length + sizeof(unsigned)\<close>, a
  sum of 32-bit words: \<open>end_data\<close> is its offset in the section, and when the sum has
  wrapped around to an address below the section, which lies before every byte of the
  section, \<open>end_data\<close> is 0, which no offset is less than.
\<close>

definition unit_context ::
  "dwarf2_parse_context \<Rightarrow> dwarf2_comp_unit \<Rightarrow> ulong \<Rightarrow> ulong \<Rightarrow> dwarf2_parse_context" where
  "unit_context ctx0 comp_unit debug comp_unit_cursor =
     ctx0\<lparr>ctx_word_size := cu_word_size comp_unit, ref_offset := comp_unit_cursor - debug\<rparr>"

definition unit_traverse ::
  "dwarf2_comp_unit \<Rightarrow> ulong \<Rightarrow> ulong \<Rightarrow> dwarf2_traverse_context" where
  "unit_traverse comp_unit debug comp_unit_cursor =
     \<lparr>data = unat (comp_unit_cursor - debug) + 11,
      start_data = unat (comp_unit_cursor - debug) + 11,
      end_data = (if debug \<le> comp_unit_cursor + cu_length comp_unit + 4
                  then unat (comp_unit_cursor + cu_length comp_unit + 4 - debug) else 0),
      word_size = cu_word_size comp_unit\<rparr>"

definition dwarf2_parse_compilation_unit ::
  "nat \<Rightarrow> ulong \<Rightarrow> dwarf2_parse_context \<Rightarrow> build_state \<Rightarrow> dwarf2_comp_unit \<Rightarrow> ulong \<Rightarrow>
   (bool \<times> build_state) result" where
  "dwarf2_parse_compilation_unit fuel debug ctx0 st0 comp_unit comp_unit_cursor =
     (if cu_version comp_unit \<noteq> 2 then Inr (False, st0)
      else
        let ctx = unit_context ctx0 comp_unit debug comp_unit_cursor;
            traverse = unit_traverse comp_unit debug comp_unit_cursor;
            abbrev_ctx = \<lparr>data = unat (cu_abbrev_offset comp_unit),
                          start_data = unat (cu_abbrev_offset comp_unit),
                          end_data = length (sec_abbrev ctx0),
                          word_size = cu_word_size comp_unit\<rparr>
        in
        rbind (dwarf2_parse_abbrev_set (sec_abbrev ctx) abbrev_ctx) (\<lambda>tbl.
          let ctx = ctx\<lparr>abbrev_table := tbl, debug_info_table := Map.empty\<rparr>;
              st = st0\<lparr>symt_of := (\<lambda>di. None)\<rparr>
          in
        rbind (dwarf2_read_one_debug_info fuel ctx traverse UninitialisedDi)
          (\<lambda>(ok, ctx, traverse, pdi).
             case pdi of
               UninitialisedDi \<Rightarrow> Inl WildPointer
             | NullDi \<Rightarrow> Inl NullPointer
             | Di di \<Rightarrow>
                 rbind (get_di ctx di) (\<lambda>d.
                   if tag (abbrev d) = DW_TAG_compile_unit
                   then
                     rbind (dwarf2_find_name ctx st d (indeterminate_attribute ctx)
                              ''compiland'')
                       (\<lambda>(st, name).
                     rbind (dwarf2_find_attribute ctx d DW_AT_comp_dir
                              (indeterminate_attribute ctx))
                       (\<lambda>(found, comp_dir).
                        let comp_dir = (if found then comp_dir
                                        else comp_dir\<lparr>u_string := NullStr\<rparr>);
                            (m, src) = source_new (module st) (u_string comp_dir)
                                         (u_string name);
                            (st, s) = new_symbol (st\<lparr>module := m\<rparr>) (symt_compiland src);
                            st = set_symt st di s
                        in
                        rbind (if have_child (abbrev d) \<noteq> 0
                               then for_each
                                      (\<lambda>child st.
                                         dwarf2_load_one_entry fuel (type_loader fuel) ctx st
                                           child (symt_of st di))
                                      (children d) st
                               else Inr st)
                          (\<lambda>st.
                        rbind (dwarf2_find_attribute ctx d DW_AT_stmt_list
                                 (indeterminate_attribute ctx))
                          (\<lambda>(found, stmt_list).
                        rbind (if found
                               then dwarf2_parse_line_numbers ctx (module st)
                                      (u_string comp_dir) (u_uvalue stmt_list)
                               else Inr (module st))
                          (\<lambda>m. Inr (True, st\<lparr>module := m\<rparr>))))))
                   else Inr (False, st)))))"

text \<open>
  The \<open>while (comp_unit_cursor < end_debug)\<close> loop of \<open>dwarf2_parse\<close>. \<open>debug\<close> is
  the address of the debug section and \<open>comp_unit_cursor\<close> the address of the header of
  the next unit: \<open>comp_unit_cursor += comp_unit.length + sizeof(unsigned)\<close> and
  \<open>debug + debug_size\<close> are sums of 32-bit words, and the comparison is the one of
  unsigned words. The header is read at the offset of the cursor from \<open>debug\<close>, which is
  outside the section when the cursor has wrapped around to an address below \<open>debug\<close>.
  A unit whose length field sends the cursor back to a header already read makes the loop
  run for ever: the first argument bounds its rounds, the second is handed to every unit.
\<close>

primrec comp_unit_loop ::
  "nat \<Rightarrow> nat \<Rightarrow> ulong \<Rightarrow> dwarf2_parse_context \<Rightarrow> build_state \<Rightarrow> ulong \<Rightarrow>
   build_state result" where
  "comp_unit_loop 0 fuel debug ctx0 st comp_unit_cursor =
     (if comp_unit_cursor < debug + of_nat (length (sec_debug ctx0)) then Inl OutOfFuel
      else Inr st)"
| "comp_unit_loop (Suc n) fuel debug ctx0 st comp_unit_cursor =
     (if comp_unit_cursor < debug + of_nat (length (sec_debug ctx0))
      then
        let stream = unat (comp_unit_cursor - debug) in
        rbind (dwarf2_get_u4 (sec_debug ctx0) stream) (\<lambda>len.
        rbind (dwarf2_get_u2 (sec_debug ctx0) (stream + 4)) (\<lambda>version.
        rbind (dwarf2_get_u4 (sec_debug ctx0) (stream + 6)) (\<lambda>abbrev_offset.
        rbind (dwarf2_get_byte (sec_debug ctx0) (stream + 10)) (\<lambda>wsize.
        rbind (dwarf2_parse_compilation_unit fuel debug ctx0 st
                 \<lparr>cu_length = len, cu_version = version,
                  cu_abbrev_offset = abbrev_offset, cu_word_size = wsize\<rparr>
                 comp_unit_cursor)
          (\<lambda>(ret, st).
             comp_unit_loop n fuel debug ctx0 st (comp_unit_cursor + (len + 4)))))))
      else Inr st)"

definition dwarf2_parse ::
  "nat \<Rightarrow> ulong \<Rightarrow> dwarf2_parse_context \<Rightarrow> build_state \<Rightarrow> (bool \<times> build_state) result" where
  "dwarf2_parse fuel debug ctx0 st0 =
     rbind (comp_unit_loop fuel fuel debug ctx0 st0 debug) (\<lambda>st.
       Inr (True,
            st\<lparr>module := (module st)
                  \<lparr>SymType_is_SymDia := True, CVSig := 0x52415744,
                   LineNumbers := True, GlobalSymbols := True, TypeInfo := True,
                   SourceIndexed := True, Publics := True\<rparr>\<rparr>))"

subsection \<open>An example unit\<close>

text \<open>
  A debug section with two units, and its abbreviations. The first unit, of version 2,
  is the compile unit \<open>a.c\<close> with these children: the base type \<open>int\<close> (16), the
  variable \<open>g\<close> of that type at \<open>DW_OP_addr 0x1000\<close> (23), a pointer type (36) to the
  structure \<open>S\<close> (41) whose member \<open>p\<close> (45) has that pointer type, an array type (56)
  of \<open>int\<close> with a subrange (61) of count 10 and upper bound 99, a const type (65) of
  \<open>int\<close>, and a base type without a name (70). The second unit has version 3.
  \<open>ex_unit\<close> is the context of the first unit once its tree is read.
\<close>

definition ex_abbrev :: "byte list" where
  "ex_abbrev =
     [0x01, 0x11, 0x01, 0x03, 0x08, 0x00, 0x00,
      0x02, 0x24, 0x00, 0x03, 0x08, 0x0b, 0x0b, 0x3e, 0x0b, 0x00, 0x00,
      0x03, 0x34, 0x00, 0x03, 0x08, 0x49, 0x13, 0x02, 0x0a, 0x00, 0x00,
      0x04, 0x0f, 0x00, 0x49, 0x13, 0x00, 0x00,
      0x05, 0x13, 0x01, 0x03, 0x08, 0x0b, 0x0b, 0x00, 0x00,
      0x06, 0x0d, 0x00, 0x03, 0x08, 0x49, 0x13, 0x38, 0x0a, 0x00, 0x00,
      0x07, 0x01, 0x01, 0x49, 0x13, 0x00, 0x00,
      0x08, 0x21, 0x00, 0x37, 0x0b, 0x2f, 0x0b, 0x00, 0x00,
      0x09, 0x26, 0x00, 0x49, 0x13, 0x00, 0x00,
      0x0a, 0x24, 0x00, 0x0b, 0x0b, 0x3e, 0x0b, 0x00, 0x00,
      0x00]"

definition ex_debug :: "byte list" where
  "ex_debug =
     [0x46, 0x00, 0x00, 0x00, 0x02, 0x00, 0x00, 0x00, 0x00, 0x00, 0x04,
      0x01, 0x61, 0x2e, 0x63, 0x00,
      0x02, 0x69, 0x6e, 0x74, 0x00, 0x04, 0x05,
      0x03, 0x67, 0x00, 0x10, 0x00, 0x00, 0x00, 0x05, 0x03, 0x00, 0x10, 0x00, 0x00,
      0x04, 0x29, 0x00, 0x00, 0x00,
      0x05, 0x53, 0x00, 0x04,
      0x06, 0x70, 0x00, 0x24, 0x00, 0x00, 0x00, 0x02, 0x23, 0x00,
      0x00,
      0x07, 0x10, 0x00, 0x00, 0x00,
      0x08, 0x0a, 0x63,
      0x00,
      0x09, 0x10, 0x00, 0x00, 0x00,
      0x0a, 0x04, 0x07,
      0x00,
      0x07, 0x00, 0x00, 0x00, 0x03, 0x00, 0x00, 0x00, 0x00, 0x00, 0x04]"

definition ex_module :: module where
  "ex_module =
     \<lparr>BaseOfImage = 0x400000, symbols = [], sources = [],
      find_nearest = (\<lambda>syms addr. None), get_length = (\<lambda>syms t. None),
      SymType_is_SymDia = False, CVSig = 0, LineNumbers = False, GlobalSymbols = False,
      TypeInfo = False, SourceIndexed = False, Publics = False\<rparr>"

definition ex_ctx :: dwarf2_parse_context where
  "ex_ctx =
     \<lparr>sec_debug = ex_debug, sec_string = [], sec_abbrev = ex_abbrev, sec_line = None,
      thunks = [], abbrev_table = Map.empty, debug_info_table = Map.empty,
      ref_offset = 0, ctx_word_size = 0, indeterminate = 0xdeadbeef\<rparr>"

definition ex_state :: build_state where
  "ex_state = \<lparr>module = ex_module, symt_of = (\<lambda>di. None), find_name_index = 0\<rparr>"

definition mk_abbrev ::
  "ulong \<Rightarrow> ulong \<Rightarrow> byte \<Rightarrow> dwarf2_abbrev_entry_attr list \<Rightarrow> dwarf2_abbrev_entry" where
  "mk_abbrev code tg child ats =
     \<lparr>entry_code = code, tag = tg, have_child = child, num_attr = of_nat (length ats),
      attrs = ats\<rparr>"

definition ex_ab :: "nat \<Rightarrow> dwarf2_abbrev_entry" where
  "ex_ab code =
     [mk_abbrev 1 DW_TAG_compile_unit 1 [(DW_AT_name, DW_FORM_string)],
      mk_abbrev 2 DW_TAG_base_type 0
        [(DW_AT_name, DW_FORM_string), (DW_AT_byte_size, DW_FORM_data1),
         (DW_AT_encoding, DW_FORM_data1)],
      mk_abbrev 3 DW_TAG_variable 0
        [(DW_AT_name, DW_FORM_string), (DW_AT_type, DW_FORM_ref4),
         (DW_AT_location, DW_FORM_block1)],
      mk_abbrev 4 DW_TAG_pointer_type 0 [(DW_AT_type, DW_FORM_ref4)],
      mk_abbrev 5 DW_TAG_structure_type 1
        [(DW_AT_name, DW_FORM_string), (DW_AT_byte_size, DW_FORM_data1)],
      mk_abbrev 6 DW_TAG_member 0
        [(DW_AT_name, DW_FORM_string), (DW_AT_type, DW_FORM_ref4),
         (DW_AT_data_member_location, DW_FORM_block1)],
      mk_abbrev 7 DW_TAG_array_type 1 [(DW_AT_type, DW_FORM_ref4)],
      mk_abbrev 8 DW_TAG_subrange_type 0
        [(DW_AT_count, DW_FORM_data1), (DW_AT_upper_bound, DW_FORM_data1)],
      mk_abbrev 9 DW_TAG_const_type 0 [(DW_AT_type, DW_FORM_ref4)],
      mk_abbrev 10 DW_TAG_base_type 0
        [(DW_AT_byte_size, DW_FORM_data1), (DW_AT_encoding, DW_FORM_data1)]] ! (code - 1)"

definition ex_abbrev_table :: "ulong \<Rightarrow> dwarf2_abbrev_entry option" where
  "ex_abbrev_table =
     [1 \<mapsto> ex_ab 1, 2 \<mapsto> ex_ab 2, 3 \<mapsto> ex_ab 3, 4 \<mapsto> ex_ab 4, 5 \<mapsto> ex_ab 5, 6 \<mapsto> ex_ab 6,
      7 \<mapsto> ex_ab 7, 8 \<mapsto> ex_ab 8, 9 \<mapsto> ex_ab 9, 10 \<mapsto> ex_ab 10]"

definition ex_debug_info_table :: "nat \<Rightarrow> dwarf2_debug_info option" where
  "ex_debug_info_table =
     [11 \<mapsto> \<lparr>abbrev = ex_ab 1, di_data = [12], children = [16, 23, 36, 41, 56, 65, 70]\<rparr>,
      16 \<mapsto> \<lparr>abbrev = ex_ab 2, di_data = [17, 21, 22], children = []\<rparr>,
      23 \<mapsto> \<lparr>abbrev = ex_ab 3, di_data = [24, 26, 30], children = []\<rparr>,
      36 \<mapsto> \<lparr>abbrev = ex_ab 4, di_data = [37], children = []\<rparr>,
      41 \<mapsto> \<lparr>abbrev = ex_ab 5, di_data = [42, 44], children = [45]\<rparr>,
      45 \<mapsto> \<lparr>abbrev = ex_ab 6, di_data = [46, 48, 52], children = []\<rparr>,
      56 \<mapsto> \<lparr>abbrev = ex_ab 7, di_data = [57], children = [61]\<rparr>,
      61 \<mapsto> \<lparr>abbrev = ex_ab 8, di_data = [62, 63], children = []\<rparr>,
      65 \<mapsto> \<lparr>abbrev = ex_ab 9, di_data = [66], children = []\<rparr>,
      70 \<mapsto> \<lparr>abbrev = ex_ab 10, di_data = [71, 72], children = []\<rparr>]"

definition ex_unit :: dwarf2_parse_context where
  "ex_unit =
     ex_ctx\<lparr>abbrev_table := ex_abbrev_table, debug_info_table := ex_debug_info_table,
            ctx_word_size := 4\<rparr>"

subsection \<open>Varint encoding\<close>

text \<open>
  The source only decodes. The encodings that the round-trip law is stated against are
  the base-128 little-endian ones of the DWARF standard: seven bits of the value per
  byte, the low ones first, bit 7 set on every byte but the last; the signed encoding
  stops when the rest of the value is its sign alone and bit 6 of the last byte agrees
  with that sign.
\<close>

function uleb128 :: "nat \<Rightarrow> byte list" where
  "uleb128 v =
     (if v < 128 then [of_nat v] else of_nat (v mod 128 + 128) # uleb128 (v div 128))"
  by pat_completeness auto
termination
  by (relation "measure id") auto

declare uleb128.simps [simp del]

definition sleb128_last :: "int \<Rightarrow> bool" where
  "sleb128_last v =
     ((v div 128 = 0 \<and> v mod 128 < 64) \<or> (v div 128 = -1 \<and> 64 \<le> v mod 128))"

function sleb128 :: "int \<Rightarrow> byte list" where
  "sleb128 v =
     (if sleb128_last v then [of_int (v mod 128)]
      else of_int (v mod 128 + 128) # sleb128 (v div 128))"
  by pat_completeness auto
termination
proof (relation "measure (\<lambda>v. nat \<bar>v\<bar>)")
  show "wf (measure (\<lambda>v. nat \<bar>v\<bar>))" by simp
next
  fix v :: int
  assume a: "\<not> sleb128_last v"
  define q r where "q = v div 128" and "r = v mod 128"
  have "v = 128 * q + r" "0 \<le> r" "r < 128"
    by (simp_all add: q_def r_def)
  moreover have "\<not> (q = 0 \<and> r < 64 \<or> q = - 1 \<and> 64 \<le> r)"
    using a by (simp add: q_def r_def sleb128_last_def)
  ultimately have "\<bar>q\<bar> < \<bar>v\<bar>" by arith
  then show "(v div 128, v) \<in> measure (\<lambda>v. nat \<bar>v\<bar>)" by (simp add: q_def)
qed

declare sleb128.simps [simp del]

subsection \<open>Encoded addresses\<close>

text \<open>
  The address that the four bytes at \<open>ptr\<close> encode on the little-endian target: the
  byte at \<open>ptr\<close> counts once, the next 256 times, and so on. The readers are stated
  against this number.
\<close>

definition encoded_address :: "byte list \<Rightarrow> nat \<Rightarrow> ulong" where
  "encoded_address mem ptr =
     of_nat (unat (mem ! ptr) + 256 * unat (mem ! (ptr + 1)) + 65536 * unat (mem ! (ptr + 2))
             + 16777216 * unat (mem ! (ptr + 3)))"

subsection \<open>Further examples\<close>

text \<open>
  A variable entry whose location attribute is the block \<open>blk\<close>, in a debug section of
  its own: the section holds the size of the block, as \<open>DW_FORM_block1\<close> has it, and
  then the block.
\<close>

definition ex_loc_ctx :: "byte list \<Rightarrow> dwarf2_parse_context" where
  "ex_loc_ctx blk = ex_ctx\<lparr>sec_debug := of_nat (length blk) # blk, ctx_word_size := 4\<rparr>"

definition ex_loc_di :: dwarf2_debug_info where
  "ex_loc_di =
     \<lparr>abbrev = mk_abbrev 1 DW_TAG_variable 0 [(DW_AT_location, DW_FORM_block1)],
      di_data = [0], children = []\<rparr>"

text \<open>
  The calls of \<open>dwarf2_find_name\<close> that a process makes one after the other, each for
  an entry and with the prefix of the builder that makes the call: the state, which holds
  the \<open>static int index\<close>, goes from one call to the next, and the names are collected
  in the order of the calls. \<open>ex_anon tg\<close> is an entry of tag \<open>tg\<close> without
  attributes, so without a name.
\<close>

fun find_names ::
  "dwarf2_parse_context \<Rightarrow> build_state \<Rightarrow> (dwarf2_debug_info \<times> string) list \<Rightarrow>
   (build_state \<times> char_ptr list) result" where
  "find_names ctx st [] = Inr (st, [])"
| "find_names ctx st ((di, pfx) # rest) =
     rbind (dwarf2_find_name ctx st di (indeterminate_attribute ctx) pfx) (\<lambda>(st, name).
       rbind (find_names ctx st rest) (\<lambda>(st, names). Inr (st, u_string name # names)))"

definition ex_anon :: "ulong \<Rightarrow> dwarf2_debug_info" where
  "ex_anon tg = \<lparr>abbrev = mk_abbrev 1 tg 0 [], di_data = [], children = []\<rparr>"

text \<open>
  The header of a line number program as compilers write it (line base -5, line range
  14, opcode base 13), and a module with one function at \<open>0x402000\<close> that
  \<open>symt_find_nearest\<close> finds for every address.
\<close>

definition ex_line_header :: line_header where
  "ex_line_header =
     \<lparr>insn_size = 1, default_stmt = 1, line_base = - 5, line_range = 14, opcode_base = 13,
      opcode_len = 15\<rparr>"

definition ex_line_module :: module where
  "ex_line_module =
     ex_module\<lparr>symbols := [symt_function None (PoolStr ''f'') 0x402000 0x10 None],
                find_nearest := (\<lambda>syms addr. Some 0)\<rparr>"

section \<open>Properties\<close>

subsection \<open>The result monad\<close>

lemma rbind_Inr [simp]: "rbind (Inr x) f = f x"
  by (simp add: rbind_def)

lemma rbind_Inl [simp]: "rbind (Inl e) f = Inl e"
  by (simp add: rbind_def)

subsection \<open>Varints\<close>

lemma byte_continuation: "((b::byte) AND 0x80 \<noteq> 0) = (128 \<le> unat b)"
proof -
  have "b AND 0x80 = b AND 2 ^ 7" by simp
  then have "(b AND 0x80 \<noteq> 0) = bit b 7"
    by (simp only: and_exp_eq_0_iff_not_bit) simp
  also have "\<dots> = bit (unat b) 7" by (simp add: bit_unsigned_iff)
  also have "\<dots> = odd (unat b div 128)" by (simp add: bit_iff_odd)
  also have "\<dots> = (128 \<le> unat b)"
  proof (cases "128 \<le> unat b")
    case True
    have "unat b < 256" using unsigned_less [of b] by simp
    with True have "unat b div 128 = 1" by (intro div_nat_eqI) simp_all
    with True show ?thesis by simp
  next
    case False
    then show ?thesis by simp
  qed
  finally show ?thesis .
qed

lemma byte_sign_bit: "((b::byte) AND 0x40 \<noteq> 0) = (64 \<le> unat b mod 128)"
proof -
  have "b AND 0x40 = b AND 2 ^ 6" by simp
  then have "(b AND 0x40 \<noteq> 0) = bit b 6"
    by (simp only: and_exp_eq_0_iff_not_bit) simp
  also have "\<dots> = bit (unat b) 6" by (simp add: bit_unsigned_iff)
  also have "\<dots> = bit (take_bit 7 (unat b)) 6" by (simp add: bit_take_bit_iff)
  also have "\<dots> = odd (unat b mod 128 div 64)"
    by (simp add: take_bit_eq_mod bit_iff_odd)
  also have "\<dots> = (64 \<le> unat b mod 128)"
  proof (cases "64 \<le> unat b mod 128")
    case True
    have "unat b mod 128 < 128" by simp
    with True have "unat b mod 128 div 64 = 1" by (intro div_nat_eqI) simp_all
    with True show ?thesis by simp
  next
    case False
    then show ?thesis by simp
  qed
  finally show ?thesis .
qed

lemma byte_payload: "(ucast ((b::byte) AND 0x7f) :: ulong) = of_nat (unat b mod 128)"
proof -
  have "b AND 0x7f = take_bit 7 b"
    by (simp add: take_bit_eq_mask mask_eq_exp_minus_1)
  then have "(ucast (b AND 0x7f) :: ulong) = take_bit 7 (ucast b)"
    by (simp add: unsigned_take_bit_eq)
  also have "\<dots> = take_bit 7 (of_nat (unat b))" by simp
  also have "\<dots> = of_nat (take_bit 7 (unat b))" by (simp only: take_bit_of_nat)
  finally show ?thesis by (simp add: take_bit_eq_mod)
qed

lemma unat_byte_of_nat: "n < 256 \<Longrightarrow> unat (of_nat n :: byte) = n"
  by (simp add: unat_of_nat)

lemma unat_byte_of_int: "0 \<le> k \<Longrightarrow> k < 256 \<Longrightarrow> unat (of_int k :: byte) = nat k"
proof -
  assume k: "0 \<le> k" "k < 256"
  then have "(of_int k :: byte) = of_nat (nat k)" by simp
  moreover have "nat k < 256" using k by simp
  ultimately show ?thesis by (simp only: unat_of_nat) simp
qed

lemma leb128_loop_stop:
  "shift < 32 \<Longrightarrow> unat b < 128 \<Longrightarrow>
   leb128_loop (b # rest) shift ret =
     Inr (ret OR push_bit shift (of_nat (unat b)), 1, b, shift + 7)"
  by (simp add: byte_continuation byte_payload)

lemma leb128_loop_cont:
  "shift < 32 \<Longrightarrow> 128 \<le> unat b \<Longrightarrow>
   leb128_loop (b # rest) shift ret =
     rbind (leb128_loop rest (shift + 7) (ret OR push_bit shift (of_nat (unat b mod 128))))
       (\<lambda>(r, n, b, s). Inr (r, Suc n, b, s))"
  by (simp add: byte_continuation byte_payload)


lemma nat_split7: "(v::nat) = take_bit 7 v OR push_bit 7 (drop_bit 7 v)"
proof (rule bit_eqI)
  fix n show "bit v n = bit (take_bit 7 v OR push_bit 7 (drop_bit 7 v)) n"
    by (cases "n < 7") (auto simp: bit_simps)
qed

lemma word_split7:
  "(of_nat v :: ulong) = of_nat (v mod 128) OR push_bit 7 (of_nat (v div 128))"
proof -
  have "(of_nat v :: ulong) = of_nat (take_bit 7 v OR push_bit 7 (drop_bit 7 v))"
    using nat_split7 [of v] by simp
  then show ?thesis
    by (simp add: of_nat_or_eq of_nat_push_bit take_bit_eq_mod drop_bit_eq_div)
qed

lemma uleb128_small: "v < 128 \<Longrightarrow> uleb128 v = [of_nat v]"
  by (subst uleb128.simps) simp

lemma uleb128_big:
  "\<not> v < 128 \<Longrightarrow> uleb128 v = of_nat (v mod 128 + 128) # uleb128 (v div 128)"
  by (subst uleb128.simps) simp

lemma uleb128_not_Nil: "uleb128 v \<noteq> []"
  by (subst uleb128.simps) simp

lemma leb128_loop_uleb128:
  "v < 2 ^ (32 - shift) \<Longrightarrow> shift < 32 \<Longrightarrow>
   leb128_loop (uleb128 v @ post) shift ret =
     Inr (ret OR push_bit shift (of_nat v), length (uleb128 v), last (uleb128 v),
          shift + 7 * length (uleb128 v))"
proof (induction v arbitrary: shift ret rule: uleb128.induct)
  case (1 v)
  show ?case
  proof (cases "v < 128")
    case True
    then have u: "unat (of_nat v :: byte) = v" by (simp add: unat_of_nat)
    show ?thesis
      using True 1(3) by (simp add: uleb128_small leb128_loop_stop u del: leb128_loop.simps)
  next
    case False
    define b :: byte where "b = of_nat (v mod 128 + 128)"
    have u: "unat b = v mod 128 + 128"
      unfolding b_def by (rule unat_byte_of_nat) simp
    have s7: "shift + 7 < 32"
    proof (rule ccontr)
      assume "\<not> shift + 7 < 32"
      then have "32 - shift \<le> 7" by simp
      then have "(2::nat) ^ (32 - shift) \<le> 2 ^ 7" by (rule power_increasing) simp
      with 1(2) False show False by simp
    qed
    have "v div 128 < 2 ^ (32 - (shift + 7))"
    proof -
      have e: "32 - shift = (32 - (shift + 7)) + 7" using s7 by arith
      have "(2::nat) ^ (32 - shift) = 2 ^ (32 - (shift + 7)) * 2 ^ 7"
        by (subst e) (rule power_add)
      then have "v < 2 ^ (32 - (shift + 7)) * 128"
        using 1(2) by simp
      then show ?thesis by (rule less_mult_imp_div_less)
    qed
    from 1(1) [OF False this s7, of "ret OR push_bit shift (of_nat (v mod 128))"]
    have ih: "leb128_loop (uleb128 (v div 128) @ post) (shift + 7)
                (ret OR push_bit shift (of_nat (v mod 128))) =
              Inr (ret OR push_bit shift (of_nat v), length (uleb128 (v div 128)),
                   last (uleb128 (v div 128)), shift + 7 + 7 * length (uleb128 (v div 128)))"
      by (simp add: word_split7 [of v] or.assoc add.commute)
    have unf: "uleb128 v = b # uleb128 (v div 128)"
      using False by (simp add: uleb128_big b_def)
    have mm: "unat b mod 128 = v mod 128" by (simp add: u)
    show ?thesis
      using 1(3) u
      by (simp add: unf leb128_loop_cont mm ih uleb128_not_Nil del: leb128_loop.simps)
  qed
qed

lemma unsigned_roundtrip:
  "v < 2 ^ 32 \<Longrightarrow>
   dwarf2_get_leb128_as_unsigned (pre @ uleb128 v @ post) (length pre) =
     Inr (of_nat v, length pre + length (uleb128 v))"
  using leb128_loop_uleb128 [of v 0 post 0]
  by (simp add: dwarf2_get_leb128_as_unsigned_def)

lemma lin_range_last:
  "(v::int) = 128 * q + r \<Longrightarrow> 0 \<le> r \<Longrightarrow> r < 128 \<Longrightarrow>
   (q = 0 \<and> r < 64 \<or> q = - 1 \<and> 64 \<le> r) \<Longrightarrow> - 64 \<le> v \<and> v < 64"
  by arith

lemma lin_range_step:
  "(v::int) = 128 * q + r \<Longrightarrow> 0 \<le> r \<Longrightarrow> r < 128 \<Longrightarrow> - p \<le> q \<Longrightarrow> q < p \<Longrightarrow>
   - (p * 128) \<le> v \<and> v < p * 128"
  by arith

lemma lin_sign_last:
  "(v::int) = 128 * q + r \<Longrightarrow> 0 \<le> r \<Longrightarrow> r < 128 \<Longrightarrow>
   (q = 0 \<and> r < 64 \<or> q = - 1 \<and> 64 \<le> r) \<Longrightarrow> (v < 0) = (64 \<le> r)"
  by arith

lemma lin_sign_step:
  "(v::int) = 128 * q + r \<Longrightarrow> 0 \<le> r \<Longrightarrow> r < 128 \<Longrightarrow> (q < 0) = (v < 0)"
  by arith

lemma lin_div_range:
  "(v::int) = 128 * q + r \<Longrightarrow> 0 \<le> r \<Longrightarrow> r < 128 \<Longrightarrow>
   - (p * 128) \<le> v \<Longrightarrow> v < p * 128 \<Longrightarrow> - p \<le> q \<and> q < p"
  by arith

lemma lin_last:
  "(v::int) = 128 * q + r \<Longrightarrow> 0 \<le> r \<Longrightarrow> r < 128 \<Longrightarrow>
   - 64 \<le> v \<Longrightarrow> v < 64 \<Longrightarrow> (q = 0 \<and> r < 64 \<or> q = - 1 \<and> 64 \<le> r)"
  by arith

lemma divmod128:
  "(v::int) = 128 * (v div 128) + v mod 128" "0 \<le> v mod 128" "v mod 128 < 128"
  by simp_all

lemma sleb128_stop: "sleb128_last v \<Longrightarrow> sleb128 v = [of_int (v mod 128)]"
  by (subst sleb128.simps) simp

lemma sleb128_cont:
  "\<not> sleb128_last v \<Longrightarrow> sleb128 v = of_int (v mod 128 + 128) # sleb128 (v div 128)"
  by (subst sleb128.simps) simp

lemma sleb128_not_Nil: "sleb128 v \<noteq> []"
  by (subst sleb128.simps) simp

lemma sleb128_range:
  "- (2 ^ (7 * length (sleb128 v) - 1)) \<le> v \<and> v < 2 ^ (7 * length (sleb128 v) - 1)"
proof (induction v rule: sleb128.induct)
  case (1 v)
  show ?case
  proof (cases "sleb128_last v")
    case True
    then have "- 64 \<le> v \<and> v < 64"
      unfolding sleb128_last_def by (rule lin_range_last [OF divmod128])
    then show ?thesis using True by (simp add: sleb128_stop)
  next
    case False
    then have ih: "- (2 ^ (7 * length (sleb128 (v div 128)) - 1)) \<le> v div 128 \<and>
        v div 128 < 2 ^ (7 * length (sleb128 (v div 128)) - 1)"
      using 1 by simp
    define k where "k = 7 * length (sleb128 (v div 128)) - 1"
    have len: "7 * length (sleb128 v) - 1 = k + 7"
      using False sleb128_not_Nil [of "v div 128"]
      by (cases "sleb128 (v div 128)") (simp_all add: sleb128_cont k_def)
    have p: "(2::int) ^ (k + 7) = 2 ^ k * 128" by (simp add: power_add)
    from ih have a: "- (2 ^ k) \<le> v div 128" and b: "v div 128 < 2 ^ k"
      by (simp_all add: k_def)
    show ?thesis unfolding len p
      by (rule lin_range_step [OF divmod128 a b])
  qed
qed

lemma sleb128_sign: "(64 \<le> unat (last (sleb128 v)) mod 128) = (v < 0)"
proof (induction v rule: sleb128.induct)
  case (1 v)
  show ?case
  proof (cases "sleb128_last v")
    case True
    have u: "unat (of_int (v mod 128) :: byte) = nat (v mod 128)"
      by (rule unat_byte_of_int) simp_all
    have "(v < 0) = (64 \<le> v mod 128)"
      using True unfolding sleb128_last_def by (rule lin_sign_last [OF divmod128])
    moreover have "(64 \<le> nat (v mod 128)) = (64 \<le> v mod 128)"
      by (simp add: le_nat_iff)
    ultimately show ?thesis using True by (simp add: sleb128_stop u)
  next
    case False
    then have ih: "(64 \<le> unat (last (sleb128 (v div 128))) mod 128) = (v div 128 < 0)"
      using 1 by simp
    have "(v div 128 < 0) = (v < 0)" by (rule lin_sign_step [OF divmod128])
    then show ?thesis using False ih
      by (simp add: sleb128_cont sleb128_not_Nil)
  qed
qed

lemma int_take_bit_split7:
  "take_bit (7 + m) (v::int) = take_bit 7 v OR push_bit 7 (take_bit m (drop_bit 7 v))"
proof (rule bit_eqI)
  fix n show "bit (take_bit (7 + m) v) n =
      bit (take_bit 7 v OR push_bit 7 (take_bit m (drop_bit 7 v))) n"
    by (cases "n < 7") (auto simp: bit_simps)
qed

lemma word_take_bit_split7:
  "(of_int (take_bit (7 + m) v) :: ulong) =
     of_nat (nat (v mod 128)) OR push_bit 7 (of_int (take_bit m (v div 128)))"
proof -
  have "(of_nat (nat (v mod 128)) :: ulong) = of_int (take_bit 7 v)"
    by (simp add: take_bit_eq_mod)
  then show ?thesis
    by (simp add: int_take_bit_split7 of_int_or_eq of_int_push_bit drop_bit_eq_div)
qed

lemma leb128_loop_sleb128:
  "shift + 7 * (length (sleb128 v) - 1) < 32 \<Longrightarrow>
   leb128_loop (sleb128 v @ post) shift ret =
     Inr (ret OR push_bit shift (of_int (take_bit (7 * length (sleb128 v)) v)),
          length (sleb128 v), last (sleb128 v), shift + 7 * length (sleb128 v))"
proof (induction v arbitrary: shift ret rule: sleb128.induct)
  case (1 v)
  show ?case
  proof (cases "sleb128_last v")
    case True
    have u: "unat (of_int (v mod 128) :: byte) = nat (v mod 128)"
      by (rule unat_byte_of_int) simp_all
    have lt: "nat (v mod 128) < 128" by simp
    have "(of_nat (nat (v mod 128)) :: ulong) = of_int (take_bit 7 v)"
      by (simp add: take_bit_eq_mod)
    then show ?thesis
      using True 1(2) lt
      by (simp add: sleb128_stop leb128_loop_stop u del: leb128_loop.simps)
  next
    case False
    define b :: byte where "b = of_int (v mod 128 + 128)"
    define n' where "n' = length (sleb128 (v div 128))"
    have u: "unat b = nat (v mod 128) + 128"
    proof -
      have "unat b = nat (v mod 128 + 128)"
        unfolding b_def by (rule unat_byte_of_int) simp_all
      then show ?thesis by (simp add: nat_add_distrib)
    qed
    have unf: "sleb128 v = b # sleb128 (v div 128)"
      using False by (simp add: sleb128_cont b_def)
    have n'pos: "0 < n'"
      using sleb128_not_Nil [of "v div 128"] by (simp add: n'_def)
    have sh: "shift + 7 * n' < 32" using 1(2) by (simp add: unf n'_def)
    then have sh': "shift + 7 + 7 * (n' - 1) < 32" "shift < 32" using n'pos by simp_all
    from 1(1) [OF False, of "shift + 7" "ret OR push_bit shift (of_int (v mod 128))"] sh'(1)
    have ih: "leb128_loop (sleb128 (v div 128) @ post) (shift + 7)
                (ret OR push_bit shift (of_int (v mod 128))) =
              Inr (ret OR push_bit shift (of_int (take_bit (7 + 7 * n') v)), n',
                   last (sleb128 (v div 128)), shift + 7 + 7 * n')"
      by (simp add: n'_def word_take_bit_split7 or.assoc add.commute)
    have mm: "(of_nat (unat b mod 128) :: ulong) = of_int (v mod 128)" by (simp add: u)
    have ge: "128 \<le> unat b" by (simp add: u)
    have step: "leb128_loop (b # sleb128 (v div 128) @ post) shift ret =
        rbind (leb128_loop (sleb128 (v div 128) @ post) (shift + 7)
                 (ret OR push_bit shift (of_int (v mod 128))))
          (\<lambda>(r, n, b, s). Inr (r, Suc n, b, s))"
      by (simp only: leb128_loop_cont [OF sh'(2) ge] mm)
    show ?thesis
      by (simp add: unf step ih sleb128_not_Nil flip: n'_def del: leb128_loop.simps)
  qed
qed

lemma sleb128_length:
  "0 < k \<Longrightarrow> - (2 ^ (7 * k - 1)) \<le> v \<Longrightarrow> v < 2 ^ (7 * k - 1) \<Longrightarrow>
   length (sleb128 v) \<le> k"
proof (induction k arbitrary: v)
  case 0
  then show ?case by simp
next
  case (Suc k)
  show ?case
  proof (cases "sleb128_last v")
    case True
    then show ?thesis by (simp add: sleb128_stop)
  next
    case False
    have kpos: "0 < k"
    proof (rule ccontr)
      assume "\<not> 0 < k"
      then have "- 64 \<le> v" "v < 64" using Suc.prems by simp_all
      then have "sleb128_last v"
        unfolding sleb128_last_def by (rule lin_last [OF divmod128])
      with False show False by simp
    qed
    have e: "7 * Suc k - 1 = (7 * k - 1) + 7" using kpos by simp
    have p: "(2::int) ^ (7 * Suc k - 1) = 2 ^ (7 * k - 1) * 128"
      by (subst e) (simp add: power_add)
    have "- (2 ^ (7 * k - 1)) \<le> v div 128 \<and> v div 128 < 2 ^ (7 * k - 1)"
      using Suc.prems(2,3) unfolding p
      by (rule lin_div_range [OF divmod128])
    then have "length (sleb128 (v div 128)) \<le> k"
      using Suc.IH [OF kpos] by simp
    then show ?thesis using False by (simp add: sleb128_cont)
  qed
qed

lemma int_sign_extend:
  "- (2 ^ k) \<le> (v::int) \<Longrightarrow> v < 0 \<Longrightarrow> v = take_bit k v OR NOT (mask k)"
proof -
  assume a: "- (2 ^ k) \<le> v" "v < 0"
  have "take_bit k v = v + 2 ^ k"
  proof -
    have "take_bit k v = take_bit k (v + 2 ^ k)" by (simp add: take_bit_eq_mod)
    also have "\<dots> = v + 2 ^ k" using a by (simp add: take_bit_int_eq_self)
    finally show ?thesis .
  qed
  then have "v = take_bit k v + NOT (mask k)"
    by (simp add: minus_exp_eq_not_mask [symmetric])
  also have "\<dots> = take_bit k v OR NOT (mask k)"
    by (rule disjunctive_add) (auto simp: bit_simps)
  finally show ?thesis .
qed

lemma signed_roundtrip:
  assumes "- (2 ^ 31) \<le> v" "v < 2 ^ 31"
  shows "dwarf2_get_leb128_as_signed (pre @ sleb128 v @ post) (length pre) =
           Inr (of_int v, length pre + length (sleb128 v))"
proof -
  define n where "n = length (sleb128 v)"
  have n5: "n \<le> 5"
    unfolding n_def using assms by (intro sleb128_length) simp_all
  have npos: "0 < n"
    using sleb128_not_Nil [of v] by (simp add: n_def)
  have "0 + 7 * (length (sleb128 v) - 1) < 32" using n5 by (simp add: n_def)
  from leb128_loop_sleb128 [OF this, of post 0]
  have loop: "leb128_loop (sleb128 v @ post) 0 0 =
      Inr (of_int (take_bit (7 * n) v), n, last (sleb128 v), 7 * n)"
    by (simp add: n_def)
  have sign: "(last (sleb128 v) AND 0x40 \<noteq> 0) = (v < 0)"
    by (simp only: byte_sign_bit sleb128_sign)
  have rng: "- (2 ^ (7 * n - 1)) \<le> v" "v < 2 ^ (7 * n - 1)"
    using sleb128_range [of v] by (simp_all add: n_def)
  have pw: "(2::int) ^ (7 * n - 1) \<le> 2 ^ (7 * n)"
    by (rule power_increasing) simp_all
  have fin: "(if 7 * n < 32 \<and> v < 0
              then of_int (take_bit (7 * n) v) OR (- push_bit (7 * n) 1)
              else of_int (take_bit (7 * n) v)) = (of_int v :: ulong)"
  proof (cases "v < 0")
    case True
    show ?thesis
    proof (cases "7 * n < 32")
      case small: True
      have "- (2 ^ (7 * n)) \<le> v" using rng(1) pw by linarith
      from int_sign_extend [OF this True]
      have "(of_int v :: ulong) = of_int (take_bit (7 * n) v OR NOT (mask (7 * n)))"
        by simp
      also have "\<dots> = of_int (take_bit (7 * n) v) OR NOT (mask (7 * n))"
        by (simp only: of_int_or_eq of_int_not_eq of_int_mask_eq)
      also have "\<dots> = of_int (take_bit (7 * n) v) OR (- push_bit (7 * n) 1)"
        by (simp only: minus_exp_eq_not_mask push_bit_of_1)
      finally show ?thesis using True small by simp
    next
      case False
      then have "LENGTH(32) \<le> 7 * n" by simp
      then have "(of_int (take_bit (7 * n) v) :: ulong) = of_int v" by (rule wi_bintr)
      then show ?thesis using False by simp
    qed
  next
    case False
    have "v < 2 ^ (7 * n)" using rng(2) pw by linarith
    with False have "take_bit (7 * n) v = v"
      by (intro take_bit_int_eq_self) simp_all
    then show ?thesis using False by simp
  qed
  show ?thesis
    using fin
    by (simp add: dwarf2_get_leb128_as_signed_def loop sign flip: n_def)
qed

text \<open>
  C2. Decoding the unsigned varint encoding of any \<open>v\<close> in \<open>[0, 2^32)\<close> gives the
  word of value \<open>v\<close>, and decoding the signed varint encoding of any \<open>s\<close> in
  \<open>[-2^31, 2^31)\<close> gives the word of signed value \<open>s\<close>, wherever the encoding lies in
  the section; both readers stop right behind the encoding. The signed case covers
  the negative values, whose last byte has bit \<open>0x40\<close> set.
\<close>

theorem varint_roundtrip:
  "(v < 2 ^ 32 \<longrightarrow>
      (\<exists>w. dwarf2_get_leb128_as_unsigned (pre @ uleb128 v @ post) (length pre) =
              Inr (w, length pre + length (uleb128 v)) \<and> unat w = v)) \<and>
   (- (2 ^ 31) \<le> s \<and> s < 2 ^ 31 \<longrightarrow>
      (\<exists>w. dwarf2_get_leb128_as_signed (pre @ sleb128 s @ post) (length pre) =
              Inr (w, length pre + length (sleb128 s)) \<and> sint w = s))"
proof (intro conjI impI)
  assume v: "v < 2 ^ 32"
  have "unat (of_nat v :: ulong) = v"
    using v by (simp add: unat_of_nat)
  with unsigned_roundtrip [OF v, of pre post]
  show "\<exists>w. dwarf2_get_leb128_as_unsigned (pre @ uleb128 v @ post) (length pre) =
              Inr (w, length pre + length (uleb128 v)) \<and> unat w = v"
    by blast
next
  assume s: "- (2 ^ 31) \<le> s \<and> s < 2 ^ 31"
  have "sint (of_int s :: ulong) = s"
    using s by (simp add: sint_sbintrunc' signed_take_bit_int_eq_self)
  with signed_roundtrip [of s pre post] s
  show "\<exists>w. dwarf2_get_leb128_as_signed (pre @ sleb128 s @ post) (length pre) =
              Inr (w, length pre + length (sleb128 s)) \<and> sint w = s"
    by blast
qed


theorem varint_roundtrip_witness:
  "(624485::nat) < 2 ^ 32 \<and> - (2 ^ 31) \<le> (- 123456 :: int) \<and> (- 123456 :: int) < 2 ^ 31 \<and>
   uleb128 624485 = [0xe5, 0x8e, 0x26] \<and> sleb128 (- 123456) = [0xc0, 0xbb, 0x78] \<and>
   (\<exists>w. dwarf2_get_leb128_as_unsigned ([0x11] @ [0xe5, 0x8e, 0x26] @ [0x22]) 1 = Inr (w, 4)
        \<and> unat w = 624485) \<and>
   (\<exists>w. dwarf2_get_leb128_as_signed ([0x11] @ [0xc0, 0xbb, 0x78] @ [0x22]) 1 = Inr (w, 4)
        \<and> sint w = - 123456)"
proof -
  have u: "uleb128 624485 = [0xe5, 0x8e, 0x26]"
    by (simp add: uleb128.simps)
  have s: "sleb128 (- 123456) = [0xc0, 0xbb, 0x78]"
    by (simp add: sleb128.simps sleb128_last_def)
  have four: "(4::nat) = Suc (Suc (Suc (Suc 0)))" by simp
  show ?thesis
    using varint_roundtrip [of 624485 "[0x11]" "[0x22]" "- 123456"]
    by (simp add: u s four)
qed

subsection \<open>Evaluation of the examples\<close>

lemma rbind_weak_cong: "m = m' \<Longrightarrow> rbind m f = rbind m' f"
  by simp

lemmas cursor_defs = dwarf2_get_byte_def dwarf2_parse_byte_def dwarf2_get_u2_def
  dwarf2_parse_u2_def dwarf2_get_u4_def dwarf2_parse_u4_def dwarf2_get_addr_def
  dwarf2_parse_addr_def dwarf2_get_leb128_as_unsigned_def dwarf2_leb128_as_unsigned_def
  dwarf2_get_leb128_as_signed_def dwarf2_leb128_as_signed_def

lemmas ex_defs = ex_ctx_def ex_debug_def ex_unit_def ex_state_def ex_module_def
  ex_abbrev_table_def ex_debug_info_table_def ex_ab_def mk_abbrev_def

lemmas builder_defs = dwarf2_lookup_type_def get_di_def dwarf2_find_attribute_def
  decode_attribute_def indeterminate_attribute_def find_attribute_default_def
  dwarf2_find_name_def pool_alloc_def new_symbol_def symt_new_def add_symbol_def
  symt_add_def set_symt_def dwarf2_load_one_entry_def dwarf2_parse_base_type_def
  dwarf2_parse_pointer_type_def dwarf2_parse_udt_type_def dwarf2_parse_udt_member_def
  dwarf2_parse_const_type_def dwarf2_parse_array_type_def array_child_def
  dwarf2_parse_variable_def dwarf2_compute_location_def location_op_def push_loc_def
  basic_type_of_encoding_def

lemma location_loop_numeral:
  "location_loop (numeral k) mem lctx loc in_register piece_found =
     (if data lctx < end_data lctx
      then rbind (dwarf2_parse_byte mem lctx) (\<lambda>(op, lctx).
             rbind (location_op mem lctx loc in_register piece_found op) (\<lambda>step.
               case step of
                 LocContinue lctx loc in_register piece_found \<Rightarrow>
                   location_loop (pred_numeral k) mem lctx loc in_register piece_found
               | LocUnhandled v \<Rightarrow> Inr (LocReturn v in_register)))
      else Inr (LocDone loc in_register))"
  by (simp only: numeral_eq_Suc location_loop.simps)

lemmas name_defs = ex_anon_def mk_abbrev_def dwarf2_find_name_def dwarf2_find_attribute_def
  pool_alloc_def sprintf_d_def digits.simps digit_def indeterminate_attribute_def

subsection \<open>Const and volatile types\<close>

lemma lookup_type_result:
  assumes "dwarf2_lookup_type load ctx st di = Inr (st', ref_type)"
    and "debug_info_table ctx di = Some d"
    and "dwarf2_find_attribute ctx d DW_AT_type (indeterminate_attribute ctx) = Inr (True, attr)"
  shows "ref_type = symt_of st' (unat (u_uvalue attr))"
  using assms
  by (auto simp add: dwarf2_lookup_type_def get_di_def Let_def rbind_def
      split: option.splits if_splits sum.splits)

lemma const_type_forwards:
  "symt_of st di = None \<Longrightarrow> lookup ctx st di = Inr (st', ref_type) \<Longrightarrow>
   dwarf2_parse_const_type lookup ctx st di = Inr (set_symt st' di ref_type, ref_type)"
  by (simp add: dwarf2_parse_const_type_def)

lemma volatile_type_forwards:
  "symt_of st di = None \<Longrightarrow> lookup ctx st di = Inr (st', ref_type) \<Longrightarrow>
   dwarf2_parse_volatile_type lookup ctx st di = Inr (set_symt st' di ref_type, ref_type)"
  by (simp add: dwarf2_parse_volatile_type_def)

text \<open>
  C7. For an entry of a const type or of a volatile type that has no symbol yet, the
  builder returns what \<open>dwarf2_lookup_type\<close> returns for the entry, which is the symbol
  of the entry that its type attribute refers to, and records that same symbol as the
  symbol of the entry; the module is the one that the lookup left, so the qualifier adds
  no symbol of its own.
\<close>

theorem qualifier_forwards_type:
  assumes "symt_of st di = None"
    and "dwarf2_lookup_type load ctx st di = Inr (st', ref_type)"
  shows "dwarf2_parse_const_type (dwarf2_lookup_type load) ctx st di =
           Inr (set_symt st' di ref_type, ref_type) \<and>
         dwarf2_parse_volatile_type (dwarf2_lookup_type load) ctx st di =
           Inr (set_symt st' di ref_type, ref_type) \<and>
         module (set_symt st' di ref_type) = module st' \<and>
         symt_of (set_symt st' di ref_type) di = ref_type \<and>
         (debug_info_table ctx di = Some d \<and>
          dwarf2_find_attribute ctx d DW_AT_type (indeterminate_attribute ctx) =
            Inr (True, attr) \<longrightarrow>
          ref_type = symt_of st' (unat (u_uvalue attr)))"
  using const_type_forwards [where lookup = "dwarf2_lookup_type load", OF assms]
    volatile_type_forwards [where lookup = "dwarf2_lookup_type load", OF assms]
    lookup_type_result [OF assms(2), of d attr]
  by (simp add: set_symt_def)

theorem qualifier_forwards_type_witness:
  "symt_of ex_state 65 = None \<and>
   dwarf2_lookup_type (dwarf2_load_one_entry 0 (type_loader 0)) ex_unit ex_state 65 =
     Inr (ex_state\<lparr>module := ex_module\<lparr>symbols :=
                       [symt_basic btInt (SectionStr section_debug 17) 4]\<rparr>,
                    symt_of := (\<lambda>di. None)(16 := Some 0)\<rparr>, Some 0) \<and>
   debug_info_table ex_unit 65 =
     Some \<lparr>abbrev = ex_ab 9, di_data = [66], children = []\<rparr> \<and>
   dwarf2_find_attribute ex_unit \<lparr>abbrev = ex_ab 9, di_data = [66], children = []\<rparr>
     DW_AT_type (indeterminate_attribute ex_unit) =
     Inr (True, \<lparr>form = DW_FORM_ref4, u_uvalue = 16, u_string = IndeterminateStr,
                u_block_ptr = unat (0xdeadbeef :: ulong)\<rparr>) \<and>
   dwarf2_parse_const_type (dwarf2_lookup_type (dwarf2_load_one_entry 0 (type_loader 0)))
     ex_unit ex_state 65 =
     Inr (ex_state\<lparr>module := ex_module\<lparr>symbols :=
                       [symt_basic btInt (SectionStr section_debug 17) 4]\<rparr>,
                    symt_of := (\<lambda>di. None)(16 := Some 0, 65 := Some 0)\<rparr>, Some 0) \<and>
   dwarf2_parse_volatile_type (dwarf2_lookup_type (dwarf2_load_one_entry 0 (type_loader 0)))
     ex_unit ex_state 65 =
     Inr (ex_state\<lparr>module := ex_module\<lparr>symbols :=
                       [symt_basic btInt (SectionStr section_debug 17) 4]\<rparr>,
                    symt_of := (\<lambda>di. None)(16 := Some 0, 65 := Some 0)\<rparr>, Some 0)"
proof -
  have h1: "symt_of ex_state 65 = None" by (simp add: ex_state_def)
  have h2: "dwarf2_lookup_type (dwarf2_load_one_entry 0 (type_loader 0)) ex_unit ex_state 65 =
     Inr (ex_state\<lparr>module := ex_module\<lparr>symbols :=
                       [symt_basic btInt (SectionStr section_debug 17) 4]\<rparr>,
                    symt_of := (\<lambda>di. None)(16 := Some 0)\<rparr>, Some 0)"
    by (simp add: ex_defs builder_defs cursor_defs Let_def cong: rbind_weak_cong)
  have h3: "debug_info_table ex_unit 65 =
     Some \<lparr>abbrev = ex_ab 9, di_data = [66], children = []\<rparr>"
    by (simp add: ex_unit_def ex_debug_info_table_def)
  have h4: "dwarf2_find_attribute ex_unit \<lparr>abbrev = ex_ab 9, di_data = [66], children = []\<rparr>
     DW_AT_type (indeterminate_attribute ex_unit) =
     Inr (True, \<lparr>form = DW_FORM_ref4, u_uvalue = 16, u_string = IndeterminateStr,
                u_block_ptr = unat (0xdeadbeef :: ulong)\<rparr>)"
    by (simp add: ex_defs builder_defs cursor_defs Let_def cong: rbind_weak_cong)
  note t = qualifier_forwards_type [OF h1 h2,
      of "\<lparr>abbrev = ex_ab 9, di_data = [66], children = []\<rparr>"
         "\<lparr>form = DW_FORM_ref4, u_uvalue = 16, u_string = IndeterminateStr,
                u_block_ptr = unat (0xdeadbeef :: ulong)\<rparr>"]
  from t h1 h2 h3 h4 show ?thesis
    by (simp add: set_symt_def ex_state_def)
qed

subsection \<open>Units of another version\<close>

lemma unit_rejected:
  "cu_version comp_unit \<noteq> 2 \<Longrightarrow>
   dwarf2_parse_compilation_unit fuel debug ctx0 st comp_unit comp_unit_cursor = Inr (False, st)"
  by (simp add: dwarf2_parse_compilation_unit_def)

lemma comp_unit_loop_step:
  assumes "comp_unit_cursor < debug + of_nat (length (sec_debug ctx0))"
    and "dwarf2_get_u4 (sec_debug ctx0) (unat (comp_unit_cursor - debug)) = Inr len"
    and "dwarf2_get_u2 (sec_debug ctx0) (unat (comp_unit_cursor - debug) + 4) = Inr version"
    and "dwarf2_get_u4 (sec_debug ctx0) (unat (comp_unit_cursor - debug) + 6) =
           Inr abbrev_offset"
    and "dwarf2_get_byte (sec_debug ctx0) (unat (comp_unit_cursor - debug) + 10) = Inr wsize"
    and "dwarf2_parse_compilation_unit fuel debug ctx0 st
           \<lparr>cu_length = len, cu_version = version, cu_abbrev_offset = abbrev_offset,
            cu_word_size = wsize\<rparr> comp_unit_cursor = Inr (ret, st')"
  shows "comp_unit_loop (Suc n) fuel debug ctx0 st comp_unit_cursor =
           comp_unit_loop n fuel debug ctx0 st' (comp_unit_cursor + (len + 4))"
  using assms by (simp add: Let_def)

lemma next_header_offset:
  "unat (comp_unit_cursor + (len + 4) - debug :: ulong) =
     (unat (comp_unit_cursor - debug) + unat len + 4) mod 2 ^ 32"
proof -
  have "comp_unit_cursor + (len + 4) - debug = (comp_unit_cursor - debug) + (len + 4)"
    by simp
  then have "unat (comp_unit_cursor + (len + 4) - debug) =
      (unat (comp_unit_cursor - debug) + unat (len + 4)) mod 2 ^ 32"
    by (simp only: unat_word_ariths) simp
  also have "unat (len + 4) = (unat len + 4) mod 2 ^ 32"
    by (simp add: unat_word_ariths)
  finally show ?thesis by (simp add: mod_add_right_eq add.assoc)
qed

text \<open>
  C5. A unit whose header holds a version other than 2 is rejected: the unit returns
  \<open>FALSE\<close> and leaves the module, the memo of the entries and the name counter as they
  were, so no symbol is made for it. The loop of \<open>dwarf2_parse\<close> then goes on with the
  cursor plus the length field plus 4, a sum of 32-bit words, and it does the same after
  every unit that returns, whatever it returned: the offset of the next header in the
  section is the offset of this header plus the length field plus 4, modulo \<open>2^32\<close>.
\<close>

theorem unsupported_version_skipped:
  assumes "comp_unit_cursor < debug + of_nat (length (sec_debug ctx0))"
    and "dwarf2_get_u4 (sec_debug ctx0) (unat (comp_unit_cursor - debug)) = Inr len"
    and "dwarf2_get_u2 (sec_debug ctx0) (unat (comp_unit_cursor - debug) + 4) = Inr version"
    and "dwarf2_get_u4 (sec_debug ctx0) (unat (comp_unit_cursor - debug) + 6) =
           Inr abbrev_offset"
    and "dwarf2_get_byte (sec_debug ctx0) (unat (comp_unit_cursor - debug) + 10) = Inr wsize"
  shows "(version \<noteq> 2 \<longrightarrow>
            dwarf2_parse_compilation_unit fuel debug ctx0 st
              \<lparr>cu_length = len, cu_version = version, cu_abbrev_offset = abbrev_offset,
               cu_word_size = wsize\<rparr> comp_unit_cursor = Inr (False, st) \<and>
            comp_unit_loop (Suc n) fuel debug ctx0 st comp_unit_cursor =
              comp_unit_loop n fuel debug ctx0 st (comp_unit_cursor + (len + 4))) \<and>
         (dwarf2_parse_compilation_unit fuel debug ctx0 st
              \<lparr>cu_length = len, cu_version = version, cu_abbrev_offset = abbrev_offset,
               cu_word_size = wsize\<rparr> comp_unit_cursor = Inr (ret, st') \<longrightarrow>
            comp_unit_loop (Suc n) fuel debug ctx0 st comp_unit_cursor =
              comp_unit_loop n fuel debug ctx0 st' (comp_unit_cursor + (len + 4))) \<and>
         unat (comp_unit_cursor + (len + 4) - debug) =
           (unat (comp_unit_cursor - debug) + unat len + 4) mod 2 ^ 32"
proof (intro conjI impI)
  assume v: "version \<noteq> 2"
  then show r: "dwarf2_parse_compilation_unit fuel debug ctx0 st
              \<lparr>cu_length = len, cu_version = version, cu_abbrev_offset = abbrev_offset,
               cu_word_size = wsize\<rparr> comp_unit_cursor = Inr (False, st)"
    by (simp add: unit_rejected)
  show "comp_unit_loop (Suc n) fuel debug ctx0 st comp_unit_cursor =
          comp_unit_loop n fuel debug ctx0 st (comp_unit_cursor + (len + 4))"
    by (rule comp_unit_loop_step [OF assms r])
next
  assume "dwarf2_parse_compilation_unit fuel debug ctx0 st
              \<lparr>cu_length = len, cu_version = version, cu_abbrev_offset = abbrev_offset,
               cu_word_size = wsize\<rparr> comp_unit_cursor = Inr (ret, st')"
  then show "comp_unit_loop (Suc n) fuel debug ctx0 st comp_unit_cursor =
          comp_unit_loop n fuel debug ctx0 st' (comp_unit_cursor + (len + 4))"
    by (rule comp_unit_loop_step [OF assms])
next
  show "unat (comp_unit_cursor + (len + 4) - debug) =
           (unat (comp_unit_cursor - debug) + unat len + 4) mod 2 ^ 32"
    by (rule next_header_offset)
qed

theorem unsupported_version_skipped_witness:
  "(0x0810004a :: ulong) < 0x08100000 + of_nat (length (sec_debug ex_ctx)) \<and>
   dwarf2_get_u4 (sec_debug ex_ctx) (unat (0x0810004a - 0x08100000 :: ulong)) = Inr 7 \<and>
   dwarf2_get_u2 (sec_debug ex_ctx) (unat (0x0810004a - 0x08100000 :: ulong) + 4) = Inr 3 \<and>
   dwarf2_get_u4 (sec_debug ex_ctx) (unat (0x0810004a - 0x08100000 :: ulong) + 6) = Inr 0 \<and>
   dwarf2_get_byte (sec_debug ex_ctx) (unat (0x0810004a - 0x08100000 :: ulong) + 10) = Inr 4 \<and>
   (3::ushort) \<noteq> 2 \<and>
   dwarf2_parse_compilation_unit 5 0x08100000 ex_ctx ex_state
     \<lparr>cu_length = 7, cu_version = 3, cu_abbrev_offset = 0, cu_word_size = 4\<rparr>
     0x0810004a = Inr (False, ex_state) \<and>
   comp_unit_loop (Suc 1) 5 0x08100000 ex_ctx ex_state 0x0810004a =
     comp_unit_loop 1 5 0x08100000 ex_ctx ex_state 0x08100055 \<and>
   comp_unit_loop 1 5 0x08100000 ex_ctx ex_state 0x08100055 = Inr ex_state \<and>
   unat (0x08100055 - 0x08100000 :: ulong) = 85"
proof -
  have h: "(0x0810004a :: ulong) < 0x08100000 + of_nat (length (sec_debug ex_ctx))"
    "dwarf2_get_u4 (sec_debug ex_ctx) (unat (0x0810004a - 0x08100000 :: ulong)) = Inr 7"
    "dwarf2_get_u2 (sec_debug ex_ctx) (unat (0x0810004a - 0x08100000 :: ulong) + 4) = Inr 3"
    "dwarf2_get_u4 (sec_debug ex_ctx) (unat (0x0810004a - 0x08100000 :: ulong) + 6) = Inr 0"
    "dwarf2_get_byte (sec_debug ex_ctx) (unat (0x0810004a - 0x08100000 :: ulong) + 10) = Inr 4"
    by (simp_all add: ex_ctx_def ex_debug_def cursor_defs)
  have e: "comp_unit_loop 1 5 0x08100000 ex_ctx ex_state 0x08100055 = Inr ex_state"
    by (simp add: ex_ctx_def ex_debug_def)
  have nv: "(3::ushort) \<noteq> 2" by simp
  have r: "dwarf2_parse_compilation_unit 5 0x08100000 ex_ctx ex_state
     \<lparr>cu_length = 7, cu_version = 3, cu_abbrev_offset = 0, cu_word_size = 4\<rparr>
     0x0810004a = Inr (False, ex_state)"
    by (simp add: dwarf2_parse_compilation_unit_def)
  have u: "(0x0810004a :: ulong) + (7 + 4) = 0x08100055" by simp
  have o: "unat (0x08100055 - 0x08100000 :: ulong) = 85" by simp
  note t = unsupported_version_skipped [OF h, of 5 ex_state 1 False ex_state]
  from t nv have "comp_unit_loop (Suc 1) 5 0x08100000 ex_ctx ex_state 0x0810004a =
      comp_unit_loop 1 5 0x08100000 ex_ctx ex_state (0x0810004a + (7 + 4))"
    by blast
  then have l: "comp_unit_loop (Suc 1) 5 0x08100000 ex_ctx ex_state 0x0810004a =
      comp_unit_loop 1 5 0x08100000 ex_ctx ex_state 0x08100055"
    by (simp only: u)
  from h nv r l e o show ?thesis by blast
qed

text \<open>
  The sum can send the cursor backwards. In this section of two units of version 3 the
  length field of the second unit is \<open>0xfffffff1\<close>, the cursor returns to the first
  header, and the loop does not end within any number of rounds.
\<close>

lemma length_field_wraps_cursor:
  "comp_unit_loop n fuel 0x08100000
     (ex_ctx\<lparr>sec_debug := [0x07, 0, 0, 0, 0x03, 0, 0, 0, 0, 0, 0x04,
                            0xf1, 0xff, 0xff, 0xff, 0x03, 0, 0, 0, 0, 0, 0x04]\<rparr>)
     st 0x08100000 = Inl OutOfFuel \<and>
   comp_unit_loop n fuel 0x08100000
     (ex_ctx\<lparr>sec_debug := [0x07, 0, 0, 0, 0x03, 0, 0, 0, 0, 0, 0x04,
                            0xf1, 0xff, 0xff, 0xff, 0x03, 0, 0, 0, 0, 0, 0x04]\<rparr>)
     st 0x0810000b = Inl OutOfFuel"
proof (induction n)
  case 0
  show ?case by simp
next
  case (Suc n)
  have w: "(0x108100000 :: ulong) = 0x08100000" by simp
  have a: "comp_unit_loop (Suc n) fuel 0x08100000
     (ex_ctx\<lparr>sec_debug := [0x07, 0, 0, 0, 0x03, 0, 0, 0, 0, 0, 0x04,
                            0xf1, 0xff, 0xff, 0xff, 0x03, 0, 0, 0, 0, 0, 0x04]\<rparr>)
     st 0x0810000b = Inl OutOfFuel"
    using Suc by (simp add: w cursor_defs dwarf2_parse_compilation_unit_def Let_def)
  have b: "comp_unit_loop (Suc n) fuel 0x08100000
     (ex_ctx\<lparr>sec_debug := [0x07, 0, 0, 0, 0x03, 0, 0, 0, 0, 0, 0x04,
                            0xf1, 0xff, 0xff, 0xff, 0x03, 0, 0, 0, 0, 0, 0x04]\<rparr>)
     st 0x08100000 = Inl OutOfFuel"
    using Suc by (simp add: w cursor_defs dwarf2_parse_compilation_unit_def Let_def)
  from a b show ?case by blast
qed

subsection \<open>Addresses and the word size\<close>

lemma byte_bit_bound: "bit (b::byte) n \<Longrightarrow> n < 8"
  using bit_imp_le_length [of b n] by simp

lemma le32:
  "unat (ucast (b0::byte) OR push_bit 8 (ucast (b1::byte)) OR push_bit 16 (ucast (b2::byte))
         OR push_bit 24 (ucast (b3::byte)) :: ulong) =
   unat b0 + 256 * unat b1 + 65536 * unat b2 + 16777216 * unat b3"
proof -
  have b: "unat b0 < 256" "unat b1 < 256" "unat b2 < 256" "unat b3 < 256"
    using unsigned_less [of b0] unsigned_less [of b1] unsigned_less [of b2]
      unsigned_less [of b3] by simp_all
  define w2 :: ulong where "w2 = push_bit 16 (ucast b2) OR push_bit 24 (ucast b3)"
  define w1 :: ulong where "w1 = push_bit 8 (ucast b1) OR w2"
  have s2: "w2 = push_bit 16 (ucast b2) + push_bit 24 (ucast b3)"
    unfolding w2_def
    by (rule disjunctive_add [symmetric]) (auto simp: bit_simps dest: byte_bit_bound)
  have s1: "w1 = push_bit 8 (ucast b1) + w2"
    unfolding w1_def
    by (rule disjunctive_add [symmetric])
      (auto simp: w2_def bit_simps dest: byte_bit_bound)
  have s0: "ucast b0 OR w1 = ucast b0 + w1"
    by (rule disjunctive_add [symmetric])
      (auto simp: w1_def w2_def bit_simps dest: byte_bit_bound)
  have e: "(ucast b0 OR push_bit 8 (ucast b1) OR push_bit 16 (ucast b2)
         OR push_bit 24 (ucast b3) :: ulong) =
        of_nat (unat b0 + 256 * unat b1 + 65536 * unat b2 + 16777216 * unat b3)"
  proof -
    have "(ucast b0 OR push_bit 8 (ucast b1) OR push_bit 16 (ucast b2)
         OR push_bit 24 (ucast b3) :: ulong) = ucast b0 OR w1"
      by (simp add: w1_def w2_def or.assoc)
    also have "\<dots> = ucast b0 + (push_bit 8 (ucast b1)
         + (push_bit 16 (ucast b2) + push_bit 24 (ucast b3)))"
      by (simp only: s0) (simp only: s1 s2)
    finally show ?thesis by (simp add: push_bit_eq_mult)
  qed
  have "unat b0 + 256 * unat b1 + 65536 * unat b2 + 16777216 * unat b3 < 2 ^ 32"
    using b by simp
  then show ?thesis
    by (simp only: e unat_of_nat) simp
qed

lemma get_u4_encoded:
  "ptr + 4 \<le> length mem \<Longrightarrow> dwarf2_get_u4 mem ptr = Inr (encoded_address mem ptr)"
proof -
  have "(ucast (mem ! ptr) OR push_bit 8 (ucast (mem ! (ptr + 1)))
         OR push_bit 16 (ucast (mem ! (ptr + 2)))
         OR push_bit 24 (ucast (mem ! (ptr + 3))) :: ulong) = encoded_address mem ptr"
    unfolding encoded_address_def
    by (simp only: le32 [symmetric]) simp
  then show "ptr + 4 \<le> length mem \<Longrightarrow> dwarf2_get_u4 mem ptr = Inr (encoded_address mem ptr)"
    by (simp add: dwarf2_get_u4_def)
qed

lemma get_addr_not_4: "wsize \<noteq> 4 \<Longrightarrow> dwarf2_get_addr mem ptr wsize = Inr 0"
  by (simp add: dwarf2_get_addr_def)

lemma get_addr_4:
  "ptr + 4 \<le> length mem \<Longrightarrow> dwarf2_get_addr mem ptr 4 = Inr (encoded_address mem ptr)"
  by (simp add: dwarf2_get_addr_def get_u4_encoded)

lemma parse_addr_not_4:
  "word_size tc \<noteq> 4 \<Longrightarrow>
   dwarf2_parse_addr mem tc = Inr (0, tc\<lparr>data := data tc + unat (word_size tc)\<rparr>)"
  by (simp add: dwarf2_parse_addr_def get_addr_not_4)

lemma parse_addr_4:
  "word_size tc = 4 \<Longrightarrow> data tc + 4 \<le> length mem \<Longrightarrow>
   dwarf2_parse_addr mem tc = Inr (encoded_address mem (data tc), tc\<lparr>data := data tc + 4\<rparr>)"
  by (simp add: dwarf2_parse_addr_def get_addr_4)

lemma decode_addr_not_4:
  "ctx_word_size ctx \<noteq> 4 \<Longrightarrow> form attr = DW_FORM_addr \<or> form attr = DW_FORM_ref_addr \<Longrightarrow>
   decode_attribute ctx ptr attr = Inr (attr\<lparr>u_uvalue := 0\<rparr>)"
  by (auto simp add: decode_attribute_def get_addr_not_4 Let_def)

lemma decode_addr_4:
  "ctx_word_size ctx = 4 \<Longrightarrow> form attr = DW_FORM_addr \<or> form attr = DW_FORM_ref_addr \<Longrightarrow>
   ptr + 4 \<le> length (sec_debug ctx) \<Longrightarrow>
   decode_attribute ctx ptr attr =
     Inr (attr\<lparr>u_uvalue := encoded_address (sec_debug ctx) ptr\<rparr>)"
  by (auto simp add: decode_attribute_def get_addr_4 Let_def)

lemma op_addr_not_4:
  "word_size tc \<noteq> 4 \<Longrightarrow> length loc < 64 \<Longrightarrow>
   location_op mem tc loc in_register piece_found DW_OP_addr =
     Inr (LocContinue (tc\<lparr>data := data tc + unat (word_size tc)\<rparr>) (0 # loc)
            in_register piece_found)"
  by (simp add: location_op_def parse_addr_not_4 push_loc_def)

lemma op_addr_4:
  "word_size tc = 4 \<Longrightarrow> data tc + 4 \<le> length mem \<Longrightarrow> length loc < 64 \<Longrightarrow>
   location_op mem tc loc in_register piece_found DW_OP_addr =
     Inr (LocContinue (tc\<lparr>data := data tc + 4\<rparr>) (encoded_address mem (data tc) # loc)
            in_register piece_found)"
  by (simp add: location_op_def parse_addr_4 push_loc_def)

lemma location_loop_addr:
  assumes "ptr < length mem" and "mem ! ptr = DW_OP_addr"
    and "wsize = 4 \<longrightarrow> ptr + 5 \<le> length mem"
  shows "location_loop (Suc (Suc n)) mem
           \<lparr>data = ptr, start_data = s, end_data = ptr + (1 + unat wsize), word_size = wsize\<rparr>
           [0] in_register False =
         Inr (LocDone [if wsize = 4 then encoded_address mem (ptr + 1) else 0, 0] in_register)"
proof (cases "wsize = 4")
  case True
  with assms(3) have b: "ptr + 5 \<le> length mem" by simp
  show ?thesis
    using assms(1,2) b True
    by (simp add: dwarf2_parse_byte_def dwarf2_get_byte_def op_addr_4)
next
  case False
  show ?thesis
    using assms(1,2) False
    by (simp add: dwarf2_parse_byte_def dwarf2_get_byte_def op_addr_not_4)
qed

lemma compute_location_addr:
  assumes "dwarf2_find_attribute ctx di dw (indeterminate_attribute ctx) = Inr (True, xloc)"
    and "form xloc = DW_FORM_block \<or> form xloc = DW_FORM_block1 \<or>
         form xloc = DW_FORM_block2 \<or> form xloc = DW_FORM_block4"
    and "unat (u_uvalue xloc) = 1 + unat (ctx_word_size ctx)"
    and "u_block_ptr xloc + 1 + unat (ctx_word_size ctx) \<le> length (sec_debug ctx)"
    and "sec_debug ctx ! u_block_ptr xloc = DW_OP_addr"
  shows "dwarf2_compute_location ctx di dw offset in_register =
           Inr (1, if ctx_word_size ctx = 4
                   then encoded_address (sec_debug ctx) (u_block_ptr xloc + 1) else 0,
                map_option (\<lambda>r. Wine_DW_no_register) in_register)"
proof -
  have nz: "u_uvalue xloc \<noteq> 0"
    using assms(3) by (auto simp: unat_eq_0)
  have f: "\<not> (form xloc = DW_FORM_data1 \<or> form xloc = DW_FORM_data2
            \<or> form xloc = DW_FORM_data4 \<or> form xloc = DW_FORM_data8
            \<or> form xloc = DW_FORM_udata \<or> form xloc = DW_FORM_sdata)"
    using assms(2) by auto
  have p: "u_block_ptr xloc < length (sec_debug ctx)" using assms(4) by simp
  have w: "ctx_word_size ctx = 4 \<longrightarrow> u_block_ptr xloc + 5 \<le> length (sec_debug ctx)"
  proof
    assume "ctx_word_size ctx = 4"
    then have "unat (ctx_word_size ctx) = 4" by simp
    with assms(4) show "u_block_ptr xloc + 5 \<le> length (sec_debug ctx)" by simp
  qed
  have l: "location_loop (Suc (unat (u_uvalue xloc))) (sec_debug ctx)
             \<lparr>data = u_block_ptr xloc, start_data = unat (indeterminate ctx),
              end_data = u_block_ptr xloc + unat (u_uvalue xloc),
              word_size = ctx_word_size ctx\<rparr>
             [0] (map_option (\<lambda>r. Wine_DW_no_register) in_register) False =
           Inr (LocDone [if ctx_word_size ctx = 4
                         then encoded_address (sec_debug ctx) (u_block_ptr xloc + 1) else 0, 0]
                  (map_option (\<lambda>r. Wine_DW_no_register) in_register))"
    unfolding assms(3)
    using location_loop_addr [OF p assms(5) w, of "unat (ctx_word_size ctx)"
        "unat (indeterminate ctx)" "map_option (\<lambda>r. Wine_DW_no_register) in_register"]
    by (simp del: location_loop.simps)
  show ?thesis
    unfolding dwarf2_compute_location_def
    by (simp only: assms(1) rbind_Inr split Let_def f nz l if_False if_True simp_thms
        loc_exit.case list.case)
qed

lemma swallow_addr:
  "dwarf2_swallow_attribute mem tc (a, DW_FORM_addr) =
     Inr (tc\<lparr>data := data tc + unat (word_size tc)\<rparr>)"
  by (simp add: dwarf2_swallow_attribute_def advance_def)

lemmas unit_defs = dwarf2_parse_def dwarf2_parse_compilation_unit_def unit_context_def
  unit_traverse_def dwarf2_parse_abbrev_set_def dwarf2_abbrev_table_find_entry_def
  sparse_array_add_def dwarf2_swallow_attribute_def advance_def source_new_def sprintf_d_def
  digits.simps digit_def ex_ctx_def ex_state_def ex_module_def

lemma unit_of_word_size_8:
  "dwarf2_parse (Suc (Suc (Suc 0))) 0x08100000
     (ex_ctx\<lparr>sec_debug := [0x14, 0, 0, 0, 0x02, 0, 0, 0, 0, 0, 0x08,
                            0x01, 0x02, 0x09, 0x03, 0x78, 0x56, 0x34, 0x12, 0, 0, 0, 0, 0x00],
             sec_abbrev := [0x01, 0x11, 0x01, 0x00, 0x00,
                            0x02, 0x34, 0x00, 0x02, 0x0a, 0x00, 0x00, 0x00]\<rparr>)
     ex_state =
   Inr (True,
        ex_state\<lparr>module := ex_module\<lparr>symbols :=
                     [symt_compiland 0,
                      global_variable (Some 0) (PoolStr ''parameter_1'') True 0x400000 0 None],
                   sources := [(NullStr, PoolStr ''compiland_0'')],
                   SymType_is_SymDia := True, CVSig := 0x52415744, LineNumbers := True,
                   GlobalSymbols := True, TypeInfo := True, SourceIndexed := True,
                   Publics := True\<rparr>,
                 symt_of := (\<lambda>di. None)(11 := Some 0),
                 find_name_index := 2\<rparr>)"
  by (simp add: unit_defs builder_defs cursor_defs Let_def location_loop_numeral
      cong: rbind_weak_cong)

lemma unit_of_word_size_4:
  "dwarf2_parse (Suc (Suc (Suc 0))) 0x08100000
     (ex_ctx\<lparr>sec_debug := [0x10, 0, 0, 0, 0x02, 0, 0, 0, 0, 0, 0x04,
                            0x01, 0x02, 0x05, 0x03, 0x78, 0x56, 0x34, 0x12, 0x00],
             sec_abbrev := [0x01, 0x11, 0x01, 0x00, 0x00,
                            0x02, 0x34, 0x00, 0x02, 0x0a, 0x00, 0x00, 0x00]\<rparr>)
     ex_state =
   Inr (True,
        ex_state\<lparr>module := ex_module\<lparr>symbols :=
                     [symt_compiland 0,
                      global_variable (Some 0) (PoolStr ''parameter_1'') True 0x12745678 0
                        None],
                   sources := [(NullStr, PoolStr ''compiland_0'')],
                   SymType_is_SymDia := True, CVSig := 0x52415744, LineNumbers := True,
                   GlobalSymbols := True, TypeInfo := True, SourceIndexed := True,
                   Publics := True\<rparr>,
                 symt_of := (\<lambda>di. None)(11 := Some 0),
                 find_name_index := 2\<rparr>)"
  by (simp add: unit_defs builder_defs cursor_defs Let_def location_loop_numeral
      cong: rbind_weak_cong)

text \<open>
  C10. The context of a unit and the cursor over its entries take their word size from
  the header of the unit. When the header declares a word size other than 4, the bytes
  of an attribute of form \<open>DW_FORM_addr\<close> are skipped over that many bytes, an
  attribute of form \<open>DW_FORM_addr\<close> or \<open>DW_FORM_ref_addr\<close> (the start address of a
  function is one) decodes to 0 whatever its bytes are, and a location block that is
  \<open>DW_OP_addr\<close> with its literal evaluates to the offset 0. When the header declares
  the word size 4, the attribute decodes to the address that its four bytes encode and
  the location block evaluates to the address that the literal encodes. The raw reads
  themselves, \<open>dwarf2_get_addr\<close> and \<open>dwarf2_parse_addr\<close>, give 0 at every word size
  other than 4 and the encoded address at word size 4. Of two debug sections with one
  unit each, a compile unit with one variable at \<open>DW_OP_addr 0x12345678\<close>, the one
  whose header declares the word size 8 gives the variable at the base of the module,
  \<open>0x400000\<close>, and the one whose header declares the word size 4 gives it at
  \<open>0x12745678\<close>.
\<close>

theorem addr_word_size:
  "(cu_word_size comp_unit \<noteq> 4 \<longrightarrow>
      dwarf2_swallow_attribute mem ((unit_traverse comp_unit debug comp_unit_cursor)\<lparr>data := p\<rparr>)
          (a, DW_FORM_addr) =
        Inr ((unit_traverse comp_unit debug comp_unit_cursor)\<lparr>data := p + unat (cu_word_size comp_unit)\<rparr>) \<and>
      (form attr = DW_FORM_addr \<or> form attr = DW_FORM_ref_addr \<longrightarrow>
         decode_attribute
             ((unit_context ctxi comp_unit debug comp_unit_cursor)\<lparr>abbrev_table := tbl, debug_info_table := dit\<rparr>)
             ptr attr =
           Inr (attr\<lparr>u_uvalue := 0\<rparr>)) \<and>
      (dwarf2_find_attribute
           ((unit_context ctxi comp_unit debug comp_unit_cursor)\<lparr>abbrev_table := tbl, debug_info_table := dit\<rparr>)
           di dw
           (indeterminate_attribute
              ((unit_context ctxi comp_unit debug comp_unit_cursor)\<lparr>abbrev_table := tbl,
                                                     debug_info_table := dit\<rparr>)) =
         Inr (True, xloc) \<and>
       (form xloc = DW_FORM_block \<or> form xloc = DW_FORM_block1 \<or>
        form xloc = DW_FORM_block2 \<or> form xloc = DW_FORM_block4) \<and>
       unat (u_uvalue xloc) = 1 + unat (cu_word_size comp_unit) \<and>
       u_block_ptr xloc + 1 + unat (cu_word_size comp_unit) \<le> length (sec_debug ctxi) \<and>
       sec_debug ctxi ! u_block_ptr xloc = DW_OP_addr \<longrightarrow>
       dwarf2_compute_location
           ((unit_context ctxi comp_unit debug comp_unit_cursor)\<lparr>abbrev_table := tbl, debug_info_table := dit\<rparr>)
           di dw offset in_register =
         Inr (1, 0, map_option (\<lambda>r. Wine_DW_no_register) in_register))) \<and>
   (cu_word_size comp_unit = 4 \<longrightarrow>
      (form attr = DW_FORM_addr \<or> form attr = DW_FORM_ref_addr \<longrightarrow>
       ptr + 4 \<le> length (sec_debug ctxi) \<longrightarrow>
         decode_attribute
             ((unit_context ctxi comp_unit debug comp_unit_cursor)\<lparr>abbrev_table := tbl, debug_info_table := dit\<rparr>)
             ptr attr =
           Inr (attr\<lparr>u_uvalue := encoded_address (sec_debug ctxi) ptr\<rparr>)) \<and>
      (dwarf2_find_attribute
           ((unit_context ctxi comp_unit debug comp_unit_cursor)\<lparr>abbrev_table := tbl, debug_info_table := dit\<rparr>)
           di dw
           (indeterminate_attribute
              ((unit_context ctxi comp_unit debug comp_unit_cursor)\<lparr>abbrev_table := tbl,
                                                     debug_info_table := dit\<rparr>)) =
         Inr (True, xloc) \<and>
       (form xloc = DW_FORM_block \<or> form xloc = DW_FORM_block1 \<or>
        form xloc = DW_FORM_block2 \<or> form xloc = DW_FORM_block4) \<and>
       unat (u_uvalue xloc) = 1 + unat (cu_word_size comp_unit) \<and>
       u_block_ptr xloc + 1 + unat (cu_word_size comp_unit) \<le> length (sec_debug ctxi) \<and>
       sec_debug ctxi ! u_block_ptr xloc = DW_OP_addr \<longrightarrow>
       dwarf2_compute_location
           ((unit_context ctxi comp_unit debug comp_unit_cursor)\<lparr>abbrev_table := tbl, debug_info_table := dit\<rparr>)
           di dw offset in_register =
         Inr (1, encoded_address (sec_debug ctxi) (u_block_ptr xloc + 1),
              map_option (\<lambda>r. Wine_DW_no_register) in_register))) \<and>
   (wsize \<noteq> 4 \<longrightarrow> dwarf2_get_addr mem p wsize = Inr 0) \<and>
   (p + 4 \<le> length mem \<longrightarrow> dwarf2_get_addr mem p 4 = Inr (encoded_address mem p)) \<and>
   (word_size tc \<noteq> 4 \<longrightarrow>
      dwarf2_parse_addr mem tc = Inr (0, tc\<lparr>data := data tc + unat (word_size tc)\<rparr>)) \<and>
   (word_size tc = 4 \<longrightarrow> data tc + 4 \<le> length mem \<longrightarrow>
      dwarf2_parse_addr mem tc =
        Inr (encoded_address mem (data tc), tc\<lparr>data := data tc + 4\<rparr>)) \<and>
   dwarf2_parse (Suc (Suc (Suc 0))) 0x08100000
     (ex_ctx\<lparr>sec_debug := [0x14, 0, 0, 0, 0x02, 0, 0, 0, 0, 0, 0x08,
                            0x01, 0x02, 0x09, 0x03, 0x78, 0x56, 0x34, 0x12, 0, 0, 0, 0, 0x00],
             sec_abbrev := [0x01, 0x11, 0x01, 0x00, 0x00,
                            0x02, 0x34, 0x00, 0x02, 0x0a, 0x00, 0x00, 0x00]\<rparr>)
     ex_state =
   Inr (True,
        ex_state\<lparr>module := ex_module\<lparr>symbols :=
                     [symt_compiland 0,
                      global_variable (Some 0) (PoolStr ''parameter_1'') True 0x400000 0 None],
                   sources := [(NullStr, PoolStr ''compiland_0'')],
                   SymType_is_SymDia := True, CVSig := 0x52415744, LineNumbers := True,
                   GlobalSymbols := True, TypeInfo := True, SourceIndexed := True,
                   Publics := True\<rparr>,
                 symt_of := (\<lambda>di. None)(11 := Some 0),
                 find_name_index := 2\<rparr>) \<and>
   dwarf2_parse (Suc (Suc (Suc 0))) 0x08100000
     (ex_ctx\<lparr>sec_debug := [0x10, 0, 0, 0, 0x02, 0, 0, 0, 0, 0, 0x04,
                            0x01, 0x02, 0x05, 0x03, 0x78, 0x56, 0x34, 0x12, 0x00],
             sec_abbrev := [0x01, 0x11, 0x01, 0x00, 0x00,
                            0x02, 0x34, 0x00, 0x02, 0x0a, 0x00, 0x00, 0x00]\<rparr>)
     ex_state =
   Inr (True,
        ex_state\<lparr>module := ex_module\<lparr>symbols :=
                     [symt_compiland 0,
                      global_variable (Some 0) (PoolStr ''parameter_1'') True 0x12745678 0
                        None],
                   sources := [(NullStr, PoolStr ''compiland_0'')],
                   SymType_is_SymDia := True, CVSig := 0x52415744, LineNumbers := True,
                   GlobalSymbols := True, TypeInfo := True, SourceIndexed := True,
                   Publics := True\<rparr>,
                 symt_of := (\<lambda>di. None)(11 := Some 0),
                 find_name_index := 2\<rparr>)"
proof -
  let ?U = "(unit_context ctxi comp_unit debug comp_unit_cursor)\<lparr>abbrev_table := tbl, debug_info_table := dit\<rparr>"
  have u: "ctx_word_size ?U = cu_word_size comp_unit" "sec_debug ?U = sec_debug ctxi"
    by (simp_all add: unit_context_def)
  have s: "dwarf2_swallow_attribute mem ((unit_traverse comp_unit debug comp_unit_cursor)\<lparr>data := p\<rparr>)
          (a, DW_FORM_addr) =
        Inr ((unit_traverse comp_unit debug comp_unit_cursor)\<lparr>data := p + unat (cu_word_size comp_unit)\<rparr>)"
    by (simp add: swallow_addr unit_traverse_def)
  note d0 = decode_addr_not_4 [of ?U attr ptr, unfolded u]
  note d4 = decode_addr_4 [of ?U attr ptr, unfolded u]
  note c = compute_location_addr [of ?U di dw xloc offset in_register, unfolded u]
  have g: "(cu_word_size comp_unit \<noteq> 4 \<longrightarrow>
      dwarf2_swallow_attribute mem ((unit_traverse comp_unit debug comp_unit_cursor)\<lparr>data := p\<rparr>)
          (a, DW_FORM_addr) =
        Inr ((unit_traverse comp_unit debug comp_unit_cursor)\<lparr>data := p + unat (cu_word_size comp_unit)\<rparr>) \<and>
      (form attr = DW_FORM_addr \<or> form attr = DW_FORM_ref_addr \<longrightarrow>
         decode_attribute
             ((unit_context ctxi comp_unit debug comp_unit_cursor)\<lparr>abbrev_table := tbl, debug_info_table := dit\<rparr>)
             ptr attr =
           Inr (attr\<lparr>u_uvalue := 0\<rparr>)) \<and>
      (dwarf2_find_attribute
           ((unit_context ctxi comp_unit debug comp_unit_cursor)\<lparr>abbrev_table := tbl, debug_info_table := dit\<rparr>)
           di dw
           (indeterminate_attribute
              ((unit_context ctxi comp_unit debug comp_unit_cursor)\<lparr>abbrev_table := tbl,
                                                     debug_info_table := dit\<rparr>)) =
         Inr (True, xloc) \<and>
       (form xloc = DW_FORM_block \<or> form xloc = DW_FORM_block1 \<or>
        form xloc = DW_FORM_block2 \<or> form xloc = DW_FORM_block4) \<and>
       unat (u_uvalue xloc) = 1 + unat (cu_word_size comp_unit) \<and>
       u_block_ptr xloc + 1 + unat (cu_word_size comp_unit) \<le> length (sec_debug ctxi) \<and>
       sec_debug ctxi ! u_block_ptr xloc = DW_OP_addr \<longrightarrow>
       dwarf2_compute_location
           ((unit_context ctxi comp_unit debug comp_unit_cursor)\<lparr>abbrev_table := tbl, debug_info_table := dit\<rparr>)
           di dw offset in_register =
         Inr (1, 0, map_option (\<lambda>r. Wine_DW_no_register) in_register))) \<and>
   (cu_word_size comp_unit = 4 \<longrightarrow>
      (form attr = DW_FORM_addr \<or> form attr = DW_FORM_ref_addr \<longrightarrow>
       ptr + 4 \<le> length (sec_debug ctxi) \<longrightarrow>
         decode_attribute
             ((unit_context ctxi comp_unit debug comp_unit_cursor)\<lparr>abbrev_table := tbl, debug_info_table := dit\<rparr>)
             ptr attr =
           Inr (attr\<lparr>u_uvalue := encoded_address (sec_debug ctxi) ptr\<rparr>)) \<and>
      (dwarf2_find_attribute
           ((unit_context ctxi comp_unit debug comp_unit_cursor)\<lparr>abbrev_table := tbl, debug_info_table := dit\<rparr>)
           di dw
           (indeterminate_attribute
              ((unit_context ctxi comp_unit debug comp_unit_cursor)\<lparr>abbrev_table := tbl,
                                                     debug_info_table := dit\<rparr>)) =
         Inr (True, xloc) \<and>
       (form xloc = DW_FORM_block \<or> form xloc = DW_FORM_block1 \<or>
        form xloc = DW_FORM_block2 \<or> form xloc = DW_FORM_block4) \<and>
       unat (u_uvalue xloc) = 1 + unat (cu_word_size comp_unit) \<and>
       u_block_ptr xloc + 1 + unat (cu_word_size comp_unit) \<le> length (sec_debug ctxi) \<and>
       sec_debug ctxi ! u_block_ptr xloc = DW_OP_addr \<longrightarrow>
       dwarf2_compute_location
           ((unit_context ctxi comp_unit debug comp_unit_cursor)\<lparr>abbrev_table := tbl, debug_info_table := dit\<rparr>)
           di dw offset in_register =
         Inr (1, encoded_address (sec_debug ctxi) (u_block_ptr xloc + 1),
              map_option (\<lambda>r. Wine_DW_no_register) in_register))) \<and>
   (wsize \<noteq> 4 \<longrightarrow> dwarf2_get_addr mem p wsize = Inr 0) \<and>
   (p + 4 \<le> length mem \<longrightarrow> dwarf2_get_addr mem p 4 = Inr (encoded_address mem p)) \<and>
   (word_size tc \<noteq> 4 \<longrightarrow>
      dwarf2_parse_addr mem tc = Inr (0, tc\<lparr>data := data tc + unat (word_size tc)\<rparr>)) \<and>
   (word_size tc = 4 \<longrightarrow> data tc + 4 \<le> length mem \<longrightarrow>
      dwarf2_parse_addr mem tc =
        Inr (encoded_address mem (data tc), tc\<lparr>data := data tc + 4\<rparr>))"
    using s d0 d4 c get_addr_not_4 [of wsize mem p] get_addr_4 [of p mem]
      parse_addr_not_4 [of tc mem] parse_addr_4 [of tc mem]
    by (simp del: One_nat_def)
  from g unit_of_word_size_8 unit_of_word_size_4 show ?thesis by blast
qed

lemmas loc_defs = ex_loc_ctx_def ex_loc_di_def ex_ctx_def mk_abbrev_def unit_context_def
  unit_traverse_def

theorem addr_word_size_witness:
  "(8::byte) \<noteq> 4 \<and>
   dwarf2_swallow_attribute (sec_debug (ex_loc_ctx [0x03, 0x78, 0x56, 0x34, 0x12, 0, 0, 0, 0]))
     ((unit_traverse \<lparr>cu_length = 0x10, cu_version = 2, cu_abbrev_offset = 0, cu_word_size = 8\<rparr>
        0x08100000 0x08100000)\<lparr>data := 2\<rparr>)
     (DW_AT_low_pc, DW_FORM_addr) =
     Inr ((unit_traverse \<lparr>cu_length = 0x10, cu_version = 2, cu_abbrev_offset = 0, cu_word_size = 8\<rparr>
            0x08100000 0x08100000)\<lparr>data := 10\<rparr>) \<and>
   decode_attribute
     ((unit_context (ex_loc_ctx [0x03, 0x78, 0x56, 0x34, 0x12, 0, 0, 0, 0])
        \<lparr>cu_length = 0x10, cu_version = 2, cu_abbrev_offset = 0, cu_word_size = 8\<rparr>
        0x08100000 0x08100000)
       \<lparr>abbrev_table := Map.empty, debug_info_table := Map.empty\<rparr>)
     2 \<lparr>form = DW_FORM_addr, u_uvalue = 7, u_string = NullStr, u_block_ptr = 0\<rparr> =
     Inr \<lparr>form = DW_FORM_addr, u_uvalue = 0, u_string = NullStr, u_block_ptr = 0\<rparr> \<and>
   dwarf2_find_attribute
     ((unit_context (ex_loc_ctx [0x03, 0x78, 0x56, 0x34, 0x12, 0, 0, 0, 0])
        \<lparr>cu_length = 0x10, cu_version = 2, cu_abbrev_offset = 0, cu_word_size = 8\<rparr>
        0x08100000 0x08100000)
       \<lparr>abbrev_table := Map.empty, debug_info_table := Map.empty\<rparr>)
     ex_loc_di DW_AT_location
     (indeterminate_attribute
        ((unit_context (ex_loc_ctx [0x03, 0x78, 0x56, 0x34, 0x12, 0, 0, 0, 0])
           \<lparr>cu_length = 0x10, cu_version = 2, cu_abbrev_offset = 0, cu_word_size = 8\<rparr>
           0x08100000 0x08100000)
          \<lparr>abbrev_table := Map.empty, debug_info_table := Map.empty\<rparr>)) =
     Inr (True, \<lparr>form = DW_FORM_block1, u_uvalue = 9, u_string = IndeterminateStr,
                 u_block_ptr = 1\<rparr>) \<and>
   dwarf2_compute_location
     ((unit_context (ex_loc_ctx [0x03, 0x78, 0x56, 0x34, 0x12, 0, 0, 0, 0])
        \<lparr>cu_length = 0x10, cu_version = 2, cu_abbrev_offset = 0, cu_word_size = 8\<rparr>
        0x08100000 0x08100000)
       \<lparr>abbrev_table := Map.empty, debug_info_table := Map.empty\<rparr>)
     ex_loc_di DW_AT_location 0x55 (Some 0) =
     Inr (1, 0, Some Wine_DW_no_register) \<and>
   dwarf2_get_addr (sec_debug (ex_loc_ctx [0x03, 0x78, 0x56, 0x34, 0x12, 0, 0, 0, 0])) 2 8 = Inr 0 \<and>
   dwarf2_parse_addr (sec_debug (ex_loc_ctx [0x03, 0x78, 0x56, 0x34, 0x12, 0, 0, 0, 0]))
     \<lparr>data = 2, start_data = 0, end_data = 10, word_size = 8\<rparr> =
     Inr (0, \<lparr>data = 10, start_data = 0, end_data = 10, word_size = 8\<rparr>) \<and>
   decode_attribute
     ((unit_context (ex_loc_ctx [0x03, 0x78, 0x56, 0x34, 0x12])
        \<lparr>cu_length = 0x10, cu_version = 2, cu_abbrev_offset = 0, cu_word_size = 4\<rparr>
        0x08100000 0x08100000)
       \<lparr>abbrev_table := Map.empty, debug_info_table := Map.empty\<rparr>)
     2 \<lparr>form = DW_FORM_addr, u_uvalue = 7, u_string = NullStr, u_block_ptr = 0\<rparr> =
     Inr \<lparr>form = DW_FORM_addr, u_uvalue = 0x12345678, u_string = NullStr, u_block_ptr = 0\<rparr> \<and>
   dwarf2_find_attribute
     ((unit_context (ex_loc_ctx [0x03, 0x78, 0x56, 0x34, 0x12])
        \<lparr>cu_length = 0x10, cu_version = 2, cu_abbrev_offset = 0, cu_word_size = 4\<rparr>
        0x08100000 0x08100000)
       \<lparr>abbrev_table := Map.empty, debug_info_table := Map.empty\<rparr>)
     ex_loc_di DW_AT_location
     (indeterminate_attribute
        ((unit_context (ex_loc_ctx [0x03, 0x78, 0x56, 0x34, 0x12])
           \<lparr>cu_length = 0x10, cu_version = 2, cu_abbrev_offset = 0, cu_word_size = 4\<rparr>
           0x08100000 0x08100000)
          \<lparr>abbrev_table := Map.empty, debug_info_table := Map.empty\<rparr>)) =
     Inr (True, \<lparr>form = DW_FORM_block1, u_uvalue = 5, u_string = IndeterminateStr,
                 u_block_ptr = 1\<rparr>) \<and>
   dwarf2_compute_location
     ((unit_context (ex_loc_ctx [0x03, 0x78, 0x56, 0x34, 0x12])
        \<lparr>cu_length = 0x10, cu_version = 2, cu_abbrev_offset = 0, cu_word_size = 4\<rparr>
        0x08100000 0x08100000)
       \<lparr>abbrev_table := Map.empty, debug_info_table := Map.empty\<rparr>)
     ex_loc_di DW_AT_location 0x55 (Some 0) =
     Inr (1, 0x12345678, Some Wine_DW_no_register) \<and>
   dwarf2_get_addr (sec_debug (ex_loc_ctx [0x03, 0x78, 0x56, 0x34, 0x12])) 2 4 = Inr 0x12345678 \<and>
   dwarf2_parse_addr (sec_debug (ex_loc_ctx [0x03, 0x78, 0x56, 0x34, 0x12]))
     \<lparr>data = 2, start_data = 0, end_data = 10, word_size = 4\<rparr> =
     Inr (0x12345678, \<lparr>data = 6, start_data = 0, end_data = 10, word_size = 4\<rparr>)"
proof -
  have fA: "dwarf2_find_attribute
      ((unit_context (ex_loc_ctx [0x03, 0x78, 0x56, 0x34, 0x12, 0, 0, 0, 0])
         \<lparr>cu_length = 0x10, cu_version = 2, cu_abbrev_offset = 0, cu_word_size = 8\<rparr>
         0x08100000 0x08100000)
        \<lparr>abbrev_table := Map.empty, debug_info_table := Map.empty\<rparr>)
      ex_loc_di DW_AT_location
      (indeterminate_attribute
         ((unit_context (ex_loc_ctx [0x03, 0x78, 0x56, 0x34, 0x12, 0, 0, 0, 0])
            \<lparr>cu_length = 0x10, cu_version = 2, cu_abbrev_offset = 0, cu_word_size = 8\<rparr>
            0x08100000 0x08100000)
           \<lparr>abbrev_table := Map.empty, debug_info_table := Map.empty\<rparr>)) =
      Inr (True, \<lparr>form = DW_FORM_block1, u_uvalue = 9, u_string = IndeterminateStr,
                  u_block_ptr = 1\<rparr>)"
    by (simp add: loc_defs builder_defs cursor_defs Let_def cong: rbind_weak_cong)
  have fB: "dwarf2_find_attribute
      ((unit_context (ex_loc_ctx [0x03, 0x78, 0x56, 0x34, 0x12])
         \<lparr>cu_length = 0x10, cu_version = 2, cu_abbrev_offset = 0, cu_word_size = 4\<rparr>
         0x08100000 0x08100000)
        \<lparr>abbrev_table := Map.empty, debug_info_table := Map.empty\<rparr>)
      ex_loc_di DW_AT_location
      (indeterminate_attribute
         ((unit_context (ex_loc_ctx [0x03, 0x78, 0x56, 0x34, 0x12])
            \<lparr>cu_length = 0x10, cu_version = 2, cu_abbrev_offset = 0, cu_word_size = 4\<rparr>
            0x08100000 0x08100000)
           \<lparr>abbrev_table := Map.empty, debug_info_table := Map.empty\<rparr>)) =
      Inr (True, \<lparr>form = DW_FORM_block1, u_uvalue = 5, u_string = IndeterminateStr,
                  u_block_ptr = 1\<rparr>)"
    by (simp add: loc_defs builder_defs cursor_defs Let_def cong: rbind_weak_cong)
  have ea: "encoded_address (sec_debug (ex_loc_ctx [0x03, 0x78, 0x56, 0x34, 0x12])) 2 = 0x12345678"
    "encoded_address (sec_debug (ex_loc_ctx [0x03, 0x78, 0x56, 0x34, 0x12])) (Suc (Suc 0)) = 0x12345678"
    by (simp_all add: encoded_address_def ex_loc_ctx_def)
  have mA: "(sec_debug (ex_loc_ctx [0x03, 0x78, 0x56, 0x34, 0x12, 0, 0, 0, 0])) ! 1 = DW_OP_addr"
    "length (sec_debug (ex_loc_ctx [0x03, 0x78, 0x56, 0x34, 0x12, 0, 0, 0, 0])) = 10"
    and mB: "(sec_debug (ex_loc_ctx [0x03, 0x78, 0x56, 0x34, 0x12])) ! 1 = DW_OP_addr"
    "length (sec_debug (ex_loc_ctx [0x03, 0x78, 0x56, 0x34, 0x12])) = 6"
    by (simp_all add: ex_loc_ctx_def)
  note a = addr_word_size [where comp_unit = "\<lparr>cu_length = 0x10, cu_version = 2, cu_abbrev_offset = 0, cu_word_size = 8\<rparr>"
      and debug = "0x08100000" and comp_unit_cursor = "0x08100000"
      and ctxi = "ex_loc_ctx [0x03, 0x78, 0x56, 0x34, 0x12, 0, 0, 0, 0]" and tbl = Map.empty and dit = Map.empty
      and mem = "(sec_debug (ex_loc_ctx [0x03, 0x78, 0x56, 0x34, 0x12, 0, 0, 0, 0]))" and p = 2 and a = DW_AT_low_pc
      and attr = "\<lparr>form = DW_FORM_addr, u_uvalue = 7, u_string = NullStr, u_block_ptr = 0\<rparr>"
      and ptr = 2 and di = ex_loc_di and dw = DW_AT_location
      and xloc = "\<lparr>form = DW_FORM_block1, u_uvalue = 9, u_string = IndeterminateStr,
                    u_block_ptr = 1\<rparr>"
      and offset = "0x55" and in_register = "Some 0" and wsize = 8
      and tc = "\<lparr>data = 2, start_data = 0, end_data = 10, word_size = 8\<rparr>"]
  note b = addr_word_size [where comp_unit = "\<lparr>cu_length = 0x10, cu_version = 2, cu_abbrev_offset = 0, cu_word_size = 4\<rparr>"
      and debug = "0x08100000" and comp_unit_cursor = "0x08100000"
      and ctxi = "ex_loc_ctx [0x03, 0x78, 0x56, 0x34, 0x12]" and tbl = Map.empty and dit = Map.empty
      and mem = "(sec_debug (ex_loc_ctx [0x03, 0x78, 0x56, 0x34, 0x12]))" and p = 2 and a = DW_AT_low_pc
      and attr = "\<lparr>form = DW_FORM_addr, u_uvalue = 7, u_string = NullStr, u_block_ptr = 0\<rparr>"
      and ptr = 2 and di = ex_loc_di and dw = DW_AT_location
      and xloc = "\<lparr>form = DW_FORM_block1, u_uvalue = 5, u_string = IndeterminateStr,
                    u_block_ptr = 1\<rparr>"
      and offset = "0x55" and in_register = "Some 0" and wsize = 8
      and tc = "\<lparr>data = 2, start_data = 0, end_data = 10, word_size = 4\<rparr>"]
  have sA: "dwarf2_swallow_attribute (sec_debug (ex_loc_ctx [0x03, 0x78, 0x56, 0x34, 0x12, 0, 0, 0, 0]))
      ((unit_traverse \<lparr>cu_length = 0x10, cu_version = 2, cu_abbrev_offset = 0, cu_word_size = 8\<rparr>
         0x08100000 0x08100000)\<lparr>data := 2\<rparr>)
      (DW_AT_low_pc, DW_FORM_addr) =
      Inr ((unit_traverse \<lparr>cu_length = 0x10, cu_version = 2, cu_abbrev_offset = 0, cu_word_size = 8\<rparr>
             0x08100000 0x08100000)\<lparr>data := 10\<rparr>)"
    and dA: "decode_attribute
      ((unit_context (ex_loc_ctx [0x03, 0x78, 0x56, 0x34, 0x12, 0, 0, 0, 0])
         \<lparr>cu_length = 0x10, cu_version = 2, cu_abbrev_offset = 0, cu_word_size = 8\<rparr>
         0x08100000 0x08100000)
        \<lparr>abbrev_table := Map.empty, debug_info_table := Map.empty\<rparr>)
      2 \<lparr>form = DW_FORM_addr, u_uvalue = 7, u_string = NullStr, u_block_ptr = 0\<rparr> =
      Inr \<lparr>form = DW_FORM_addr, u_uvalue = 0, u_string = NullStr, u_block_ptr = 0\<rparr>"
    and cA: "dwarf2_compute_location
      ((unit_context (ex_loc_ctx [0x03, 0x78, 0x56, 0x34, 0x12, 0, 0, 0, 0])
         \<lparr>cu_length = 0x10, cu_version = 2, cu_abbrev_offset = 0, cu_word_size = 8\<rparr>
         0x08100000 0x08100000)
        \<lparr>abbrev_table := Map.empty, debug_info_table := Map.empty\<rparr>)
      ex_loc_di DW_AT_location 0x55 (Some 0) =
      Inr (1, 0, Some Wine_DW_no_register)"
    and gA: "dwarf2_get_addr (sec_debug (ex_loc_ctx [0x03, 0x78, 0x56, 0x34, 0x12, 0, 0, 0, 0])) 2 8 = Inr 0"
    and pA: "dwarf2_parse_addr (sec_debug (ex_loc_ctx [0x03, 0x78, 0x56, 0x34, 0x12, 0, 0, 0, 0]))
      \<lparr>data = 2, start_data = 0, end_data = 10, word_size = 8\<rparr> =
      Inr (0, \<lparr>data = 10, start_data = 0, end_data = 10, word_size = 8\<rparr>)"
    using a fA mA by simp_all
  have dB: "decode_attribute
      ((unit_context (ex_loc_ctx [0x03, 0x78, 0x56, 0x34, 0x12])
         \<lparr>cu_length = 0x10, cu_version = 2, cu_abbrev_offset = 0, cu_word_size = 4\<rparr>
         0x08100000 0x08100000)
        \<lparr>abbrev_table := Map.empty, debug_info_table := Map.empty\<rparr>)
      2 \<lparr>form = DW_FORM_addr, u_uvalue = 7, u_string = NullStr, u_block_ptr = 0\<rparr> =
      Inr \<lparr>form = DW_FORM_addr, u_uvalue = 0x12345678, u_string = NullStr, u_block_ptr = 0\<rparr>"
    and cB: "dwarf2_compute_location
      ((unit_context (ex_loc_ctx [0x03, 0x78, 0x56, 0x34, 0x12])
         \<lparr>cu_length = 0x10, cu_version = 2, cu_abbrev_offset = 0, cu_word_size = 4\<rparr>
         0x08100000 0x08100000)
        \<lparr>abbrev_table := Map.empty, debug_info_table := Map.empty\<rparr>)
      ex_loc_di DW_AT_location 0x55 (Some 0) =
      Inr (1, 0x12345678, Some Wine_DW_no_register)"
    and gB: "dwarf2_get_addr (sec_debug (ex_loc_ctx [0x03, 0x78, 0x56, 0x34, 0x12])) 2 4 = Inr 0x12345678"
    and pB: "dwarf2_parse_addr (sec_debug (ex_loc_ctx [0x03, 0x78, 0x56, 0x34, 0x12]))
      \<lparr>data = 2, start_data = 0, end_data = 10, word_size = 4\<rparr> =
      Inr (0x12345678, \<lparr>data = 6, start_data = 0, end_data = 10, word_size = 4\<rparr>)"
    using b fB mB by (simp_all add: ea)
  have n: "(8::byte) \<noteq> 4" by simp
  from n sA dA fA cA gA pA dB fB cB gB pB show ?thesis by blast
qed

subsection \<open>Opcodes that the location evaluator does not handle\<close>

text \<open>
  C8. A location block in which \<open>DW_OP_deref\<close> (\<open>0x06\<close>), an opcode that the evaluator
  does not handle, follows \<open>DW_OP_const1u V\<close>: the \<open>default\<close> case returns the top of
  the stack, so the evaluator returns \<open>V\<close> itself where its callers expect the
  \<open>BOOL\<close>, and it leaves the offset of the caller as it was. The returned flag is
  \<open>TRUE\<close> for every \<open>V\<close> other than 0 and \<open>FALSE\<close> for 0, and the offset that the
  caller goes on with is not \<open>V\<close>.
\<close>

theorem unhandled_opcode_returns_stack_top:
  "dwarf2_compute_location (ex_loc_ctx [DW_OP_const1u, v, 0x06]) ex_loc_di DW_AT_location
     offset (Some r) =
   Inr (ucast v, offset, Some Wine_DW_no_register)"
  by (simp add: loc_defs builder_defs cursor_defs Let_def location_loop_numeral
      cong: rbind_weak_cong)

theorem unhandled_opcode_returns_stack_top_witness:
  "dwarf2_compute_location (ex_loc_ctx [DW_OP_const1u, 5, 0x06]) ex_loc_di DW_AT_location
     0x1234 (Some 0) =
   Inr (5, 0x1234, Some Wine_DW_no_register) \<and>
   dwarf2_compute_location (ex_loc_ctx [DW_OP_const1u, 0, 0x06]) ex_loc_di DW_AT_location
     0x1234 (Some 0) =
   Inr (0, 0x1234, Some Wine_DW_no_register)"
  using unhandled_opcode_returns_stack_top [of 5 "0x1234" 0]
    unhandled_opcode_returns_stack_top [of 0 "0x1234" 0]
  by simp

subsection \<open>Synthesized names\<close>

lemma find_name_synthesized:
  "dwarf2_find_attribute ctx di DW_AT_name attr = Inr (False, a) \<Longrightarrow>
   dwarf2_find_name ctx st di attr pfx =
     Inr (st\<lparr>find_name_index := find_name_index st + 1\<rparr>,
          a\<lparr>u_string := PoolStr (pfx @ ''_'' @ sprintf_d (find_name_index st))\<rparr>)"
  by (simp add: dwarf2_find_name_def pool_alloc_def)

lemma map_upt_Suc0:
  "map f [0..<Suc n] = f 0 # map (\<lambda>i. f (Suc i)) [0..<n]"
  by (simp add: upt_conv_Cons map_Suc_upt [symmetric] del: upt_Suc)

lemma find_names_synthesized:
  "\<forall>(di, pfx) \<in> set reqs. \<exists>a.
      dwarf2_find_attribute ctx di DW_AT_name (indeterminate_attribute ctx) = Inr (False, a) \<Longrightarrow>
   find_names ctx st reqs =
     Inr (st\<lparr>find_name_index := find_name_index st + of_nat (length reqs)\<rparr>,
          map (\<lambda>i. PoolStr (snd (reqs ! i) @ ''_'' @ sprintf_d (find_name_index st + of_nat i)))
            [0..<length reqs])"
proof (induction reqs arbitrary: st)
  case Nil
  show ?case by simp
next
  case (Cons r rs)
  obtain di pfx where r: "r = (di, pfx)" by (cases r)
  from Cons.prems r obtain a where
    a: "dwarf2_find_attribute ctx di DW_AT_name (indeterminate_attribute ctx) = Inr (False, a)"
    by auto
  from Cons.prems have rest: "\<forall>(di, pfx) \<in> set rs. \<exists>a.
      dwarf2_find_attribute ctx di DW_AT_name (indeterminate_attribute ctx) = Inr (False, a)"
    by simp
  note ih = Cons.IH [OF rest, of "st\<lparr>find_name_index := find_name_index st + 1\<rparr>"]
  show ?case
    unfolding r
    by (simp add: find_name_synthesized [OF a] ih map_upt_Suc0 add.assoc del: upt_Suc)
qed

lemma sint_plus_of_nat:
  assumes "0 \<le> sint (w :: ulong)" and "sint w + int i < 2 ^ 31"
  shows "sint (w + of_nat i) = sint w + int i"
proof -
  have "w + of_nat i = word_of_int (sint w + int i)" by simp
  then have "sint (w + of_nat i) = signed_take_bit 31 (sint w + int i)"
    by (simp only: sint_sbintrunc') simp
  also have "\<dots> = sint w + int i"
    using assms by (intro signed_take_bit_int_eq_self) simp_all
  finally show ?thesis .
qed

text \<open>
  C9. \<open>dwarf2_find_name\<close> has one counter for all prefixes. In a sequence of calls
  for entries without a name attribute, the call number \<open>i\<close> (from 0) synthesizes the
  name of its prefix with the index that the counter had at the start plus \<open>i\<close>,
  whatever the prefixes of the calls before it were, and the counter ends that many
  steps further. As long as the counter, a 32-bit \<open>int\<close>, does not wrap around, a
  later name carries a greater index than an earlier one, so no index is used twice.
\<close>

theorem synthesized_names_share_counter:
  assumes "\<forall>(di, pfx) \<in> set reqs. \<exists>a.
      dwarf2_find_attribute ctx di DW_AT_name (indeterminate_attribute ctx) = Inr (False, a)"
  shows "find_names ctx st reqs =
     Inr (st\<lparr>find_name_index := find_name_index st + of_nat (length reqs)\<rparr>,
          map (\<lambda>i. PoolStr (snd (reqs ! i) @ ''_'' @ sprintf_d (find_name_index st + of_nat i)))
            [0..<length reqs]) \<and>
     (0 \<le> sint (find_name_index st) \<and>
      sint (find_name_index st) + int (length reqs) \<le> 2 ^ 31 \<and> i < j \<and> j < length reqs \<longrightarrow>
      sint (find_name_index st + of_nat i) < sint (find_name_index st + of_nat j))"
proof (intro conjI impI)
  show "find_names ctx st reqs =
     Inr (st\<lparr>find_name_index := find_name_index st + of_nat (length reqs)\<rparr>,
          map (\<lambda>i. PoolStr (snd (reqs ! i) @ ''_'' @ sprintf_d (find_name_index st + of_nat i)))
            [0..<length reqs])"
    by (rule find_names_synthesized [OF assms])
next
  assume b: "0 \<le> sint (find_name_index st) \<and>
      sint (find_name_index st) + int (length reqs) \<le> 2 ^ 31 \<and> i < j \<and> j < length reqs"
  then have "sint (find_name_index st) + int i < 2 ^ 31"
    "sint (find_name_index st) + int j < 2 ^ 31" by simp_all
  with b have "sint (find_name_index st + of_nat i) = sint (find_name_index st) + int i"
    "sint (find_name_index st + of_nat j) = sint (find_name_index st) + int j"
    by (simp_all add: sint_plus_of_nat)
  with b show "sint (find_name_index st + of_nat i) < sint (find_name_index st + of_nat j)"
    by simp
qed

theorem synthesized_names_share_counter_witness:
  "dwarf2_find_attribute ex_ctx (ex_anon DW_TAG_enumeration_type) DW_AT_name
     (indeterminate_attribute ex_ctx) = Inr (False, indeterminate_attribute ex_ctx) \<and>
   dwarf2_find_attribute ex_ctx (ex_anon DW_TAG_base_type) DW_AT_name
     (indeterminate_attribute ex_ctx) = Inr (False, indeterminate_attribute ex_ctx) \<and>
   find_names ex_ctx (ex_state\<lparr>find_name_index := 7\<rparr>)
     [(ex_anon DW_TAG_enumeration_type, ''enum''), (ex_anon DW_TAG_base_type, ''base_type'')] =
   Inr (ex_state\<lparr>find_name_index := 9\<rparr>, [PoolStr ''enum_7'', PoolStr ''base_type_8'']) \<and>
   sint (7 + of_nat 0 :: ulong) < sint (7 + of_nat 1 :: ulong)"
proof -
  have e: "dwarf2_find_attribute ex_ctx (ex_anon DW_TAG_enumeration_type) DW_AT_name
     (indeterminate_attribute ex_ctx) = Inr (False, indeterminate_attribute ex_ctx)"
    and b: "dwarf2_find_attribute ex_ctx (ex_anon DW_TAG_base_type) DW_AT_name
     (indeterminate_attribute ex_ctx) = Inr (False, indeterminate_attribute ex_ctx)"
    by (simp_all add: ex_anon_def mk_abbrev_def dwarf2_find_attribute_def)
  from e b have h: "\<forall>(di, pfx) \<in> set [(ex_anon DW_TAG_enumeration_type, ''enum''),
                        (ex_anon DW_TAG_base_type, ''base_type'')]. \<exists>a.
      dwarf2_find_attribute ex_ctx di DW_AT_name (indeterminate_attribute ex_ctx) =
        Inr (False, a)"
    by simp
  note t = synthesized_names_share_counter [OF h, of "ex_state\<lparr>find_name_index := 7\<rparr>" 0 1]
  have d: "sprintf_d 7 = ''7''" "sprintf_d 8 = ''8''"
    by (simp_all add: sprintf_d_def digits.simps digit_def)
  from t have n: "find_names ex_ctx (ex_state\<lparr>find_name_index := 7\<rparr>)
     [(ex_anon DW_TAG_enumeration_type, ''enum''), (ex_anon DW_TAG_base_type, ''base_type'')] =
   Inr (ex_state\<lparr>find_name_index := 9\<rparr>, [PoolStr ''enum_7'', PoolStr ''base_type_8''])"
    by (simp add: d ex_state_def upt_rec)
  from t have s: "sint (7 + of_nat 0 :: ulong) < sint (7 + of_nat 1 :: ulong)"
    by (simp add: ex_state_def)
  from e b n s show ?thesis by blast
qed

text \<open>
  The index of a name is therefore not its rank among the names of its prefix: with two
  structures without a name between two base types without a name, the names are
  \<open>base_type_0\<close>, \<open>udt_1\<close>, \<open>udt_2\<close> and \<open>base_type_3\<close>, and the second name
  synthesized for a base type carries the index 3.
\<close>

theorem second_base_type_name_has_index_3:
  "find_names ex_ctx ex_state
     [(ex_anon DW_TAG_base_type, ''base_type''), (ex_anon DW_TAG_structure_type, ''udt''),
      (ex_anon DW_TAG_structure_type, ''udt''), (ex_anon DW_TAG_base_type, ''base_type'')] =
   Inr (ex_state\<lparr>find_name_index := 4\<rparr>,
        [PoolStr ''base_type_0'', PoolStr ''udt_1'', PoolStr ''udt_2'',
         PoolStr ''base_type_3''])"
  by (simp add: name_defs ex_state_def)

subsection \<open>Special opcodes of the line number program\<close>

lemma set_line_number_symbols:
  "symbols (dwarf2_set_line_number m addr v fileno lineno) = symbols m \<or>
   (\<exists>f src off. symbols (dwarf2_set_line_number m addr v fileno lineno) =
      symbols m @ [func_line f src lineno off])"
  by (auto simp add: dwarf2_set_line_number_def symt_add_def Let_def
      split: option.splits symt_obj.splits)

lemma special_opcode:
  assumes "dwarf2_get_byte mem (data traverse) = Inr op"
    and "opcode_base hdr \<le> ucast op"
    and "line_range hdr \<noteq> 0"
  shows "line_number_op hdr files mem (m, traverse, r) =
     Inr (dwarf2_set_line_number m
            (address r + ((ucast op - opcode_base hdr) div line_range hdr) * insn_size hdr)
            files (file_no r)
            (line r + (line_base hdr + (ucast op - opcode_base hdr) mod line_range hdr)),
          traverse\<lparr>data := data traverse + 1\<rparr>,
          r\<lparr>address :=
               address r + ((ucast op - opcode_base hdr) div line_range hdr) * insn_size hdr,
            line := line r + (line_base hdr + (ucast op - opcode_base hdr) mod line_range hdr),
            basic_block := True\<rparr>)"
  using assms by (simp add: line_number_op_def dwarf2_parse_byte_def Let_def)

text \<open>
  C4. In a line number program whose header has a \<open>line_range\<close> other than 0, an
  opcode byte \<open>op\<close> that is at least \<open>opcode_base\<close> is a special opcode. With
  \<open>delta = op - opcode_base\<close>, the step adds \<open>(delta / line_range) * insn_size\<close> to the
  address and \<open>line_base + delta % line_range\<close> to the line, in unsigned 32-bit
  arithmetic, sets \<open>basic_block\<close>, and calls \<open>dwarf2_set_line_number\<close> once, with the
  new address, the file and the new line, which adds at most one line fact, for that
  line. \<open>end_sequence\<close> is as it was, so the loop of the sequence goes on with the next
  opcode.
\<close>

theorem special_opcode_step:
  assumes "dwarf2_get_byte mem (data traverse) = Inr op"
    and "opcode_base hdr \<le> ucast op"
    and "line_range hdr \<noteq> 0"
  shows "line_number_op hdr files mem (m, traverse, r) =
     Inr (dwarf2_set_line_number m
            (address r + ((ucast op - opcode_base hdr) div line_range hdr) * insn_size hdr)
            files (file_no r)
            (line r + (line_base hdr + (ucast op - opcode_base hdr) mod line_range hdr)),
          traverse\<lparr>data := data traverse + 1\<rparr>,
          r\<lparr>address :=
               address r + ((ucast op - opcode_base hdr) div line_range hdr) * insn_size hdr,
            line := line r + (line_base hdr + (ucast op - opcode_base hdr) mod line_range hdr),
            basic_block := True\<rparr>) \<and>
     (symbols (dwarf2_set_line_number m
            (address r + ((ucast op - opcode_base hdr) div line_range hdr) * insn_size hdr)
            files (file_no r)
            (line r + (line_base hdr + (ucast op - opcode_base hdr) mod line_range hdr))) =
        symbols m \<or>
      (\<exists>f src off. symbols (dwarf2_set_line_number m
            (address r + ((ucast op - opcode_base hdr) div line_range hdr) * insn_size hdr)
            files (file_no r)
            (line r + (line_base hdr + (ucast op - opcode_base hdr) mod line_range hdr))) =
        symbols m @ [func_line f src
            (line r + (line_base hdr + (ucast op - opcode_base hdr) mod line_range hdr))
            off])) \<and>
     end_sequence
       (r\<lparr>address :=
            address r + ((ucast op - opcode_base hdr) div line_range hdr) * insn_size hdr,
          line := line r + (line_base hdr + (ucast op - opcode_base hdr) mod line_range hdr),
          basic_block := True\<rparr>) = end_sequence r \<and>
     (\<not> end_sequence r \<longrightarrow>
        sequence_loop (Suc n) hdr files mem (m, traverse, r) =
          sequence_loop n hdr files mem
            (dwarf2_set_line_number m
               (address r + ((ucast op - opcode_base hdr) div line_range hdr) * insn_size hdr)
               files (file_no r)
               (line r + (line_base hdr + (ucast op - opcode_base hdr) mod line_range hdr)),
             traverse\<lparr>data := data traverse + 1\<rparr>,
             r\<lparr>address :=
                  address r + ((ucast op - opcode_base hdr) div line_range hdr) * insn_size hdr,
               line := line r + (line_base hdr + (ucast op - opcode_base hdr) mod line_range hdr),
               basic_block := True\<rparr>))"
proof (intro conjI impI)
  show "line_number_op hdr files mem (m, traverse, r) =
     Inr (dwarf2_set_line_number m
            (address r + ((ucast op - opcode_base hdr) div line_range hdr) * insn_size hdr)
            files (file_no r)
            (line r + (line_base hdr + (ucast op - opcode_base hdr) mod line_range hdr)),
          traverse\<lparr>data := data traverse + 1\<rparr>,
          r\<lparr>address :=
               address r + ((ucast op - opcode_base hdr) div line_range hdr) * insn_size hdr,
            line := line r + (line_base hdr + (ucast op - opcode_base hdr) mod line_range hdr),
            basic_block := True\<rparr>)"
    by (rule special_opcode [OF assms])
next
  show "symbols (dwarf2_set_line_number m
            (address r + ((ucast op - opcode_base hdr) div line_range hdr) * insn_size hdr)
            files (file_no r)
            (line r + (line_base hdr + (ucast op - opcode_base hdr) mod line_range hdr))) =
        symbols m \<or>
      (\<exists>f src off. symbols (dwarf2_set_line_number m
            (address r + ((ucast op - opcode_base hdr) div line_range hdr) * insn_size hdr)
            files (file_no r)
            (line r + (line_base hdr + (ucast op - opcode_base hdr) mod line_range hdr))) =
        symbols m @ [func_line f src
            (line r + (line_base hdr + (ucast op - opcode_base hdr) mod line_range hdr))
            off])"
    by (rule set_line_number_symbols)
next
  show "end_sequence
       (r\<lparr>address :=
            address r + ((ucast op - opcode_base hdr) div line_range hdr) * insn_size hdr,
          line := line r + (line_base hdr + (ucast op - opcode_base hdr) mod line_range hdr),
          basic_block := True\<rparr>) = end_sequence r"
    by simp
next
  assume e: "\<not> end_sequence r"
  then show "sequence_loop (Suc n) hdr files mem (m, traverse, r) =
          sequence_loop n hdr files mem
            (dwarf2_set_line_number m
               (address r + ((ucast op - opcode_base hdr) div line_range hdr) * insn_size hdr)
               files (file_no r)
               (line r + (line_base hdr + (ucast op - opcode_base hdr) mod line_range hdr)),
             traverse\<lparr>data := data traverse + 1\<rparr>,
             r\<lparr>address :=
                  address r + ((ucast op - opcode_base hdr) div line_range hdr) * insn_size hdr,
               line := line r + (line_base hdr + (ucast op - opcode_base hdr) mod line_range hdr),
               basic_block := True\<rparr>)"
    by (simp add: special_opcode [OF assms])
qed

lemmas line_defs = ex_line_header_def ex_line_module_def ex_module_def
  dwarf2_set_line_number_def symt_add_def

theorem special_opcode_step_witness:
  "dwarf2_get_byte [0x4b, 0x00, 0x01, 0x01] 0 = Inr 0x4b \<and>
   opcode_base ex_line_header \<le> ucast (0x4b :: byte) \<and>
   line_range ex_line_header \<noteq> 0 \<and>
   line_number_op ex_line_header [0] [0x4b, 0x00, 0x01, 0x01]
     (ex_line_module, \<lparr>data = 0, start_data = 0, end_data = 4, word_size = 4\<rparr>,
      \<lparr>address = 0x402000, file_no = 1, line = 1, is_stmt = 1, basic_block = False,
       end_sequence = False\<rparr>) =
     Inr (ex_line_module\<lparr>symbols :=
            [symt_function None (PoolStr ''f'') 0x402000 0x10 None,
             func_line (Some 0) 0 2 4]\<rparr>,
          \<lparr>data = 1, start_data = 0, end_data = 4, word_size = 4\<rparr>,
          \<lparr>address = 0x402004, file_no = 1, line = 2, is_stmt = 1, basic_block = True,
           end_sequence = False\<rparr>) \<and>
   sequence_loop (Suc 2) ex_line_header [0] [0x4b, 0x00, 0x01, 0x01]
     (ex_line_module, \<lparr>data = 0, start_data = 0, end_data = 4, word_size = 4\<rparr>,
      \<lparr>address = 0x402000, file_no = 1, line = 1, is_stmt = 1, basic_block = False,
       end_sequence = False\<rparr>) =
     sequence_loop 2 ex_line_header [0] [0x4b, 0x00, 0x01, 0x01]
       (ex_line_module\<lparr>symbols :=
            [symt_function None (PoolStr ''f'') 0x402000 0x10 None,
             func_line (Some 0) 0 2 4]\<rparr>,
          \<lparr>data = 1, start_data = 0, end_data = 4, word_size = 4\<rparr>,
          \<lparr>address = 0x402004, file_no = 1, line = 2, is_stmt = 1, basic_block = True,
           end_sequence = False\<rparr>)"
proof -
  have h: "dwarf2_get_byte [0x4b, 0x00, 0x01, 0x01]
             (data \<lparr>data = 0, start_data = 0, end_data = 4, word_size = 4\<rparr>) = Inr 0x4b"
    "opcode_base ex_line_header \<le> ucast (0x4b :: byte)"
    "line_range ex_line_header \<noteq> 0"
    by (simp_all add: dwarf2_get_byte_def ex_line_header_def)
  note t = special_opcode_step [OF h, of "[0]" ex_line_module
      "\<lparr>address = 0x402000, file_no = 1, line = 1, is_stmt = 1, basic_block = False,
       end_sequence = False\<rparr>" 2]
  from t have c1: "line_number_op ex_line_header [0] [0x4b, 0x00, 0x01, 0x01]
     (ex_line_module, \<lparr>data = 0, start_data = 0, end_data = 4, word_size = 4\<rparr>,
      \<lparr>address = 0x402000, file_no = 1, line = 1, is_stmt = 1, basic_block = False,
       end_sequence = False\<rparr>) =
     Inr (ex_line_module\<lparr>symbols :=
            [symt_function None (PoolStr ''f'') 0x402000 0x10 None,
             func_line (Some 0) 0 2 4]\<rparr>,
          \<lparr>data = 1, start_data = 0, end_data = 4, word_size = 4\<rparr>,
          \<lparr>address = 0x402004, file_no = 1, line = 2, is_stmt = 1, basic_block = True,
           end_sequence = False\<rparr>)"
    by (simp add: line_defs)
  from t have c2: "sequence_loop (Suc 2) ex_line_header [0] [0x4b, 0x00, 0x01, 0x01]
     (ex_line_module, \<lparr>data = 0, start_data = 0, end_data = 4, word_size = 4\<rparr>,
      \<lparr>address = 0x402000, file_no = 1, line = 1, is_stmt = 1, basic_block = False,
       end_sequence = False\<rparr>) =
     sequence_loop 2 ex_line_header [0] [0x4b, 0x00, 0x01, 0x01]
       (ex_line_module\<lparr>symbols :=
            [symt_function None (PoolStr ''f'') 0x402000 0x10 None,
             func_line (Some 0) 0 2 4]\<rparr>,
          \<lparr>data = 1, start_data = 0, end_data = 4, word_size = 4\<rparr>,
          \<lparr>address = 0x402004, file_no = 1, line = 2, is_stmt = 1, basic_block = True,
           end_sequence = False\<rparr>)"
    by (simp add: line_defs del: sequence_loop.simps)
  have h0: "dwarf2_get_byte [0x4b, 0x00, 0x01, 0x01] 0 = Inr 0x4b"
    by (simp add: dwarf2_get_byte_def)
  from h0 h(2,3) c1 c2 show ?thesis by blast
qed

text \<open>
  The header of the program is read from the section, and nothing keeps its
  \<open>line_range\<close> from being 0. The special opcode then divides by zero.
\<close>

theorem special_opcode_line_range_zero:
  "line_number_op (ex_line_header\<lparr>line_range := 0\<rparr>) [0] [0x4b]
     (ex_line_module, \<lparr>data = 0, start_data = 0, end_data = 1, word_size = 4\<rparr>,
      \<lparr>address = 0x402000, file_no = 1, line = 1, is_stmt = 1, basic_block = False,
       end_sequence = False\<rparr>) =
   Inl DivideByZero"
  by (simp add: line_number_op_def ex_line_header_def cursor_defs Let_def)

subsection \<open>The bounds of an array type\<close>

lemma for_each_append:
  "for_each body (xs @ ys) s = rbind (for_each body xs s) (for_each body ys)"
proof (induction xs arbitrary: s)
  case Nil
  show ?case by simp
next
  case (Cons x xs)
  show ?case
    by (cases "body x s") (simp_all add: Cons.IH)
qed

lemma array_child_other:
  "debug_info_table ctx x = Some cx \<Longrightarrow> tag (abbrev cx) \<noteq> DW_TAG_subrange_type \<Longrightarrow>
   array_child lookup ctx x loc = Inr loc"
  by (cases loc) (simp add: array_child_def get_di_def)

lemma array_children_other:
  "\<forall>x \<in> set post. \<exists>cx. debug_info_table ctx x = Some cx \<and>
      tag (abbrev cx) \<noteq> DW_TAG_subrange_type \<Longrightarrow>
   for_each (array_child lookup ctx) post loc = Inr loc"
proof (induction post)
  case Nil
  show ?case by simp
next
  case (Cons x post)
  from Cons.prems obtain cx where
    "debug_info_table ctx x = Some cx" "tag (abbrev cx) \<noteq> DW_TAG_subrange_type" by auto
  then have "array_child lookup ctx x loc = Inr loc" by (rule array_child_other)
  moreover from Cons.prems Cons.IH have "for_each (array_child lookup ctx) post loc = Inr loc"
    by simp
  ultimately show ?case by simp
qed

lemma array_child_subrange:
  assumes "debug_info_table ctx child = Some c"
    and "tag (abbrev c) = DW_TAG_subrange_type"
    and "lookup ctx st2 child = Inr (st3, idx_type)"
    and "dwarf2_find_attribute ctx c DW_AT_lower_bound amin0 = Inr (fl, lo)"
    and "dwarf2_find_attribute ctx c DW_AT_upper_bound amax0 = Inr (fu, hi)"
    and "dwarf2_find_attribute ctx c DW_AT_count cnt0 = Inr (fc, cnt)"
  shows "array_child lookup ctx child (st2, idx0, amin0, amax0, cnt0) =
     Inr (st3, idx_type,
          (if fl then lo else lo\<lparr>u_uvalue := 0\<rparr>),
          (if fc then (if fu then hi else hi\<lparr>u_uvalue := 0\<rparr>)
                        \<lparr>u_uvalue := (if fl then u_uvalue lo else 0) + u_uvalue cnt\<rparr>
           else if fu then hi else hi\<lparr>u_uvalue := 0\<rparr>),
          cnt)"
  using assms
  by (simp add: array_child_def get_di_def find_attribute_default_def)

text \<open>
  C6. For an array entry without a symbol yet whose children hold a subrange entry, with
  no subrange entry among the children after it: the array symbol that the builder makes
  has the lower bound of the subrange, or 0 when the subrange has no lower bound
  attribute; its upper bound is the lower bound plus the count when the subrange has a
  count attribute, whatever its upper bound attribute is, and otherwise the upper bound
  of the subrange, or 0 when the subrange has no upper bound attribute either. The
  symbol is recorded as the symbol of the entry and returned. A subrange without a lower
  bound and with the count 10 gives the bounds 0 and 10.
\<close>

theorem array_bounds:
  assumes "symt_of st di = None"
    and "debug_info_table ctx di = Some d"
    and "have_child (abbrev d) \<noteq> 0"
    and "children d = pre @ [child] @ post"
    and "lookup ctx st di = Inr (st1, ref_type)"
    and "for_each (array_child lookup ctx) pre
           (st1, None, indeterminate_attribute ctx, indeterminate_attribute ctx,
            indeterminate_attribute ctx) = Inr (st2, idx0, amin0, amax0, cnt0)"
    and "debug_info_table ctx child = Some c"
    and "tag (abbrev c) = DW_TAG_subrange_type"
    and "lookup ctx st2 child = Inr (st3, idx_type)"
    and "dwarf2_find_attribute ctx c DW_AT_lower_bound amin0 = Inr (fl, lo)"
    and "dwarf2_find_attribute ctx c DW_AT_upper_bound amax0 = Inr (fu, hi)"
    and "dwarf2_find_attribute ctx c DW_AT_count cnt0 = Inr (fc, cnt)"
    and "\<forall>x \<in> set post. \<exists>cx. debug_info_table ctx x = Some cx \<and>
           tag (abbrev cx) \<noteq> DW_TAG_subrange_type"
  shows "dwarf2_parse_array_type lookup ctx st di =
     Inr (set_symt
            (st3\<lparr>module := (module st3)\<lparr>symbols := symbols (module st3) @
               [symt_array (if fl then u_uvalue lo else 0)
                  (if fc then (if fl then u_uvalue lo else 0) + u_uvalue cnt
                   else if fu then u_uvalue hi else 0)
                  ref_type idx_type]\<rparr>\<rparr>)
            di (Some (length (symbols (module st3)))),
          Some (length (symbols (module st3))))"
proof -
  let ?I = "indeterminate_attribute ctx"
  let ?loc = "(st3, idx_type,
          (if fl then lo else lo\<lparr>u_uvalue := 0\<rparr>),
          (if fc then (if fu then hi else hi\<lparr>u_uvalue := 0\<rparr>)
                        \<lparr>u_uvalue := (if fl then u_uvalue lo else 0) + u_uvalue cnt\<rparr>
           else if fu then hi else hi\<lparr>u_uvalue := 0\<rparr>),
          cnt)"
  have c: "array_child lookup ctx child (st2, idx0, amin0, amax0, cnt0) = Inr ?loc"
    by (rule array_child_subrange [where lookup = lookup, OF assms(7-12)])
  have p: "for_each (array_child lookup ctx) post ?loc = Inr ?loc"
    by (rule array_children_other [OF assms(13)])
  have "for_each (array_child lookup ctx) (children d) (st1, None, ?I, ?I, ?I) = Inr ?loc"
    unfolding assms(4)
    by (simp only: for_each_append assms(6) rbind_Inr for_each.simps c p)
  then show ?thesis
    using assms(1,2,3,5)
    by (simp add: dwarf2_parse_array_type_def get_di_def new_symbol_def symt_new_def)
qed

theorem array_bounds_witness:
  "symt_of ex_state 56 = None \<and>
   debug_info_table ex_unit 56 = Some \<lparr>abbrev = ex_ab 7, di_data = [57], children = [61]\<rparr> \<and>
   have_child (abbrev \<lparr>abbrev = ex_ab 7, di_data = [57], children = [61]\<rparr>) \<noteq> 0 \<and>
   (dwarf2_lookup_type (dwarf2_load_one_entry 0 (type_loader 0))) ex_unit ex_state 56 =
     Inr ((ex_state\<lparr>module := ex_module\<lparr>symbols := [symt_basic btInt (SectionStr section_debug 17) 4]\<rparr>,
        symt_of := (\<lambda>di. None)(16 := Some 0)\<rparr>), Some 0) \<and>
   debug_info_table ex_unit 61 = Some \<lparr>abbrev = ex_ab 8, di_data = [62, 63], children = []\<rparr> \<and>
   tag (abbrev \<lparr>abbrev = ex_ab 8, di_data = [62, 63], children = []\<rparr>) = DW_TAG_subrange_type \<and>
   (dwarf2_lookup_type (dwarf2_load_one_entry 0 (type_loader 0))) ex_unit
     (ex_state\<lparr>module := ex_module\<lparr>symbols := [symt_basic btInt (SectionStr section_debug 17) 4]\<rparr>,
        symt_of := (\<lambda>di. None)(16 := Some 0)\<rparr>) 61 =
     Inr ((ex_state\<lparr>module := ex_module\<lparr>symbols := [symt_basic btInt (SectionStr section_debug 17) 4]\<rparr>,
        symt_of := (\<lambda>di. None)(16 := Some 0)\<rparr>), None) \<and>
   dwarf2_find_attribute ex_unit \<lparr>abbrev = ex_ab 8, di_data = [62, 63], children = []\<rparr> DW_AT_lower_bound
     (indeterminate_attribute ex_unit) = Inr (False, (indeterminate_attribute ex_unit)) \<and>
   dwarf2_find_attribute ex_unit \<lparr>abbrev = ex_ab 8, di_data = [62, 63], children = []\<rparr> DW_AT_upper_bound
     (indeterminate_attribute ex_unit) = Inr (True, ((indeterminate_attribute ex_unit)\<lparr>form := DW_FORM_data1, u_uvalue := 99\<rparr>)) \<and>
   dwarf2_find_attribute ex_unit \<lparr>abbrev = ex_ab 8, di_data = [62, 63], children = []\<rparr> DW_AT_count
     (indeterminate_attribute ex_unit) = Inr (True, ((indeterminate_attribute ex_unit)\<lparr>form := DW_FORM_data1, u_uvalue := 10\<rparr>)) \<and>
   dwarf2_parse_array_type (dwarf2_lookup_type (dwarf2_load_one_entry 0 (type_loader 0))) ex_unit ex_state 56 =
     Inr ((ex_state\<lparr>module := ex_module\<lparr>symbols := [symt_basic btInt (SectionStr section_debug 17) 4,
          symt_array 0 10 (Some 0) None]\<rparr>,
        symt_of := (\<lambda>di. None)(16 := Some 0, 56 := Some 1)\<rparr>), Some 1)"
proof -
  have h1: "symt_of ex_state 56 = None"
    by (simp add: ex_defs builder_defs cursor_defs Let_def cong: rbind_weak_cong)
  have h2: "debug_info_table ex_unit 56 = Some \<lparr>abbrev = ex_ab 7, di_data = [57], children = [61]\<rparr>"
    by (simp add: ex_defs builder_defs cursor_defs Let_def cong: rbind_weak_cong)
  have h3: "have_child (abbrev \<lparr>abbrev = ex_ab 7, di_data = [57], children = [61]\<rparr>) \<noteq> 0"
    by (simp add: ex_defs builder_defs cursor_defs Let_def cong: rbind_weak_cong)
  have h5: "(dwarf2_lookup_type (dwarf2_load_one_entry 0 (type_loader 0))) ex_unit ex_state 56 =
     Inr ((ex_state\<lparr>module := ex_module\<lparr>symbols := [symt_basic btInt (SectionStr section_debug 17) 4]\<rparr>,
        symt_of := (\<lambda>di. None)(16 := Some 0)\<rparr>), Some 0)"
    by (simp add: ex_defs builder_defs cursor_defs Let_def cong: rbind_weak_cong)
  have h7: "debug_info_table ex_unit 61 = Some \<lparr>abbrev = ex_ab 8, di_data = [62, 63], children = []\<rparr>"
    by (simp add: ex_defs builder_defs cursor_defs Let_def cong: rbind_weak_cong)
  have h8: "tag (abbrev \<lparr>abbrev = ex_ab 8, di_data = [62, 63], children = []\<rparr>) = DW_TAG_subrange_type"
    by (simp add: ex_defs builder_defs cursor_defs Let_def cong: rbind_weak_cong)
  have h9: "(dwarf2_lookup_type (dwarf2_load_one_entry 0 (type_loader 0))) ex_unit
     (ex_state\<lparr>module := ex_module\<lparr>symbols := [symt_basic btInt (SectionStr section_debug 17) 4]\<rparr>,
        symt_of := (\<lambda>di. None)(16 := Some 0)\<rparr>) 61 =
     Inr ((ex_state\<lparr>module := ex_module\<lparr>symbols := [symt_basic btInt (SectionStr section_debug 17) 4]\<rparr>,
        symt_of := (\<lambda>di. None)(16 := Some 0)\<rparr>), None)"
    by (simp add: ex_defs builder_defs cursor_defs Let_def cong: rbind_weak_cong)
  have h10: "dwarf2_find_attribute ex_unit \<lparr>abbrev = ex_ab 8, di_data = [62, 63], children = []\<rparr> DW_AT_lower_bound
     (indeterminate_attribute ex_unit) = Inr (False, (indeterminate_attribute ex_unit))"
    by (simp add: ex_defs builder_defs cursor_defs Let_def cong: rbind_weak_cong)
  have h11: "dwarf2_find_attribute ex_unit \<lparr>abbrev = ex_ab 8, di_data = [62, 63], children = []\<rparr> DW_AT_upper_bound
     (indeterminate_attribute ex_unit) = Inr (True, ((indeterminate_attribute ex_unit)\<lparr>form := DW_FORM_data1, u_uvalue := 99\<rparr>))"
    by (simp add: ex_defs builder_defs cursor_defs Let_def cong: rbind_weak_cong)
  have h12: "dwarf2_find_attribute ex_unit \<lparr>abbrev = ex_ab 8, di_data = [62, 63], children = []\<rparr> DW_AT_count
     (indeterminate_attribute ex_unit) = Inr (True, ((indeterminate_attribute ex_unit)\<lparr>form := DW_FORM_data1, u_uvalue := 10\<rparr>))"
    by (simp add: ex_defs builder_defs cursor_defs Let_def cong: rbind_weak_cong)
  have h4: "children \<lparr>abbrev = ex_ab 7, di_data = [57], children = [61]\<rparr> = [] @ [61] @ []" by simp
  have h6: "for_each (array_child (dwarf2_lookup_type (dwarf2_load_one_entry 0 (type_loader 0))) ex_unit) []
      ((ex_state\<lparr>module := ex_module\<lparr>symbols := [symt_basic btInt (SectionStr section_debug 17) 4]\<rparr>,
        symt_of := (\<lambda>di. None)(16 := Some 0)\<rparr>), None, (indeterminate_attribute ex_unit), (indeterminate_attribute ex_unit), (indeterminate_attribute ex_unit)) =
      Inr ((ex_state\<lparr>module := ex_module\<lparr>symbols := [symt_basic btInt (SectionStr section_debug 17) 4]\<rparr>,
        symt_of := (\<lambda>di. None)(16 := Some 0)\<rparr>), None, (indeterminate_attribute ex_unit), (indeterminate_attribute ex_unit), (indeterminate_attribute ex_unit))"
    by simp
  have h13: "\<forall>x \<in> set []. \<exists>cx. debug_info_table ex_unit x = Some cx \<and>
           tag (abbrev cx) \<noteq> DW_TAG_subrange_type"
    by simp
  note t = array_bounds [where lookup = "(dwarf2_lookup_type (dwarf2_load_one_entry 0 (type_loader 0)))", OF h1 h2 h3 h4 h5 h6 h7 h8 h9 h10 h11 h12 h13]
  from t have c: "dwarf2_parse_array_type (dwarf2_lookup_type (dwarf2_load_one_entry 0 (type_loader 0))) ex_unit ex_state 56 =
     Inr ((ex_state\<lparr>module := ex_module\<lparr>symbols := [symt_basic btInt (SectionStr section_debug 17) 4,
          symt_array 0 10 (Some 0) None]\<rparr>,
        symt_of := (\<lambda>di. None)(16 := Some 0, 56 := Some 1)\<rparr>), Some 1)"
    by (simp add: set_symt_def ex_state_def ex_module_def)
  from h1 h2 h3 h5 h7 h8 h9 h10 h11 h12 c show ?thesis by blast
qed

subsection \<open>Variables at the top level\<close>




subsection \<open>The memo of the entries\<close>








end
